theory Spec2Isabelle
  imports Complex_Main
begin

section \<open>Errors as values\<close>

text \<open>
  The Python exceptions the modelled code can raise.  A function that may raise returns
  \<open>error + 'a\<close>, with \<open>Inl\<close> for the exception.  \<open>ValueError\<close> carries its message
  (empty for a bare \<^verbatim>\<open>raise ValueError\<close>).
\<close>

datatype error =
    ValueError string
  | RuntimeError
  | IndexError
  | KeyError
  | AssertionError
  | AttributeError
  | TypeError
  | UnboundLocalError
  | ZeroDivisionError
  | OverflowError

type_synonym 'a result = "error + 'a"

definition bindE :: "'a result \<Rightarrow> ('a \<Rightarrow> 'b result) \<Rightarrow> 'b result" where
  "bindE r f = (case r of Inl e \<Rightarrow> Inl e | Inr v \<Rightarrow> f v)"

fun is_ValueError :: "'a result \<Rightarrow> bool" where
  "is_ValueError (Inl (ValueError msg)) = True"
| "is_ValueError r = False"

text \<open>A call returns when it raises nothing.\<close>

fun returns :: "'a result \<Rightarrow> bool" where
  "returns (Inr v) = True"
| "returns (Inl e) = False"

text \<open>Decimal rendering of a number, as \<^verbatim>\<open>str.format\<close> prints an int.\<close>

definition digit_char :: "nat \<Rightarrow> char" where
  "digit_char d = char_of (48 + d)"

fun str_nat :: "nat \<Rightarrow> string" where
  "str_nat n = (if n < 10 then [digit_char n] else str_nat (n div 10) @ [digit_char (n mod 10)])"

definition str_int :: "int \<Rightarrow> string" where
  "str_int i = (if i < 0 then CHR ''-'' # str_nat (nat (- i)) else str_nat (nat i))"


section \<open>lib/core/function.py\<close>

subsection \<open>AverageMeter\<close>

text \<open>
  The meter computes with whatever Python numbers it is given (ints, floats, ...), so
  the arithmetic is a parameter: a type \<open>'n\<close> of numbers with
  \<^item> \<open>num_zero\<close>: the int \<^verbatim>\<open>0\<close>;
  \<^item> \<open>num_add a b\<close>, \<open>num_mul a b\<close>, \<open>num_truediv a b\<close>: \<^verbatim>\<open>a + b\<close>, \<^verbatim>\<open>a * b\<close>, \<^verbatim>\<open>a / b\<close>, each of
    which may raise (a division by zero, an int too large for a float) and none of
    which is assumed exact, associative or commutative;
  \<^item> \<open>num_ne_zero a\<close>: \<^verbatim>\<open>a != 0\<close>.
\<close>

record 'n number_ops =
  num_zero :: 'n
  num_add :: "'n \<Rightarrow> 'n \<Rightarrow> 'n result"
  num_mul :: "'n \<Rightarrow> 'n \<Rightarrow> 'n result"
  num_truediv :: "'n \<Rightarrow> 'n \<Rightarrow> 'n result"
  num_ne_zero :: "'n \<Rightarrow> bool"

text \<open>The four attributes of the meter.\<close>

record 'n AverageMeter =
  am_val :: 'n
  am_avg :: 'n
  am_sum :: 'n
  am_count :: 'n

definition reset :: "'n number_ops \<Rightarrow> 'n AverageMeter \<Rightarrow> 'n AverageMeter" where
  "reset A self =
     self\<lparr>am_val := num_zero A, am_avg := num_zero A, am_sum := num_zero A,
          am_count := num_zero A\<rparr>"

text \<open>
  The four statements of \<^verbatim>\<open>update\<close>, in order.  An exception leaves the method at the
  statement that raised it.
\<close>

definition update :: "'n number_ops \<Rightarrow> 'n AverageMeter \<Rightarrow> 'n \<Rightarrow> 'n \<Rightarrow> 'n AverageMeter result" where
  "update A self v n =
    (let self = self\<lparr>am_val := v\<rparr>
     in bindE (num_mul A v n) (\<lambda>p.
        bindE (num_add A (am_sum self) p) (\<lambda>s.
        let self = self\<lparr>am_sum := s\<rparr>
        in bindE (num_add A (am_count self) n) (\<lambda>c.
           let self = self\<lparr>am_count := c\<rparr>
           in if num_ne_zero A (am_count self)
              then bindE (num_truediv A (am_sum self) (am_count self))
                     (\<lambda>q. Inr (self\<lparr>am_avg := q\<rparr>))
              else Inr (self\<lparr>am_avg := num_zero A\<rparr>)))))"

text \<open>A sequence of calls \<^verbatim>\<open>update(val_k, n_k)\<close>, stopping at the first exception.\<close>

fun updates ::
  "'n number_ops \<Rightarrow> 'n AverageMeter \<Rightarrow> ('n \<times> 'n) list \<Rightarrow> 'n AverageMeter result" where
  "updates A self [] = Inr self"
| "updates A self ((v, n) # calls) = bindE (update A self v n) (\<lambda>self. updates A self calls)"

text \<open>
  Python's \<^verbatim>\<open>sum(xs)\<close>: the items are added to \<^verbatim>\<open>0\<close> one after the other, from the
  left.  \<open>py_sum_from\<close> starts from a given number.
\<close>

fun py_sum_from :: "'n number_ops \<Rightarrow> 'n \<Rightarrow> 'n list \<Rightarrow> 'n result" where
  "py_sum_from A s [] = Inr s"
| "py_sum_from A s (x # xs) = bindE (num_add A s x) (\<lambda>s. py_sum_from A s xs)"

definition py_sum :: "'n number_ops \<Rightarrow> 'n list \<Rightarrow> 'n result" where
  "py_sum A xs = py_sum_from A (num_zero A) xs"

text \<open>
  What is used of Python's numbers: \<^verbatim>\<open>0 != 0\<close> is false, \<^verbatim>\<open>a / b\<close> raises
  ZeroDivisionError only when \<^verbatim>\<open>b != 0\<close> is false, and \<^verbatim>\<open>+\<close> and \<^verbatim>\<open>*\<close> never raise it.
\<close>

definition python_numbers :: "'n number_ops \<Rightarrow> bool" where
  "python_numbers A \<longleftrightarrow>
     \<not> num_ne_zero A (num_zero A)
     \<and> (\<forall>a b. num_ne_zero A b \<longrightarrow> num_truediv A a b \<noteq> Inl ZeroDivisionError)
     \<and> (\<forall>a b. num_add A a b \<noteq> Inl ZeroDivisionError)
     \<and> (\<forall>a b. num_mul A a b \<noteq> Inl ZeroDivisionError)"

text \<open>
  Exact arithmetic, as Python has it on \<^verbatim>\<open>fractions.Fraction\<close> values: no operation
  rounds, and only the division by zero raises.
\<close>

definition fraction_ops :: "rat number_ops" where
  "fraction_ops =
    \<lparr>num_zero = 0,
     num_add = (\<lambda>a b. Inr (a + b)),
     num_mul = (\<lambda>a b. Inr (a * b)),
     num_truediv = (\<lambda>a b. if b = 0 then Inl ZeroDivisionError else Inr (a / b)),
     num_ne_zero = (\<lambda>a. a \<noteq> 0)\<rparr>"

subsection \<open>accuracy_classification\<close>

text \<open>
  \<open>output\<close> is a two-dimensional numpy array: its shape and its entries.  \<open>target\<close> is
  the one-dimensional array of labels the callers pass.  The quotient of a numpy integer
  by zero is \<open>nan\<close> (with a warning, no exception), so the returned float is a number
  or \<open>NaN\<close>.
\<close>

record ndarray2 =
  shape0 :: nat
  shape1 :: nat
  item :: "nat \<Rightarrow> nat \<Rightarrow> real"

datatype np_float = Num real | NaN

text \<open>\<^verbatim>\<open>np.argmax\<close> of one row: the first index of the largest entry.\<close>

definition argmax_row :: "(nat \<Rightarrow> real) \<Rightarrow> nat \<Rightarrow> nat" where
  "argmax_row row c = fold (\<lambda>j best. if row best < row j then j else best) [1..<c] 0"

text \<open>\<^verbatim>\<open>np.argmax(output, axis=1)\<close>: numpy refuses an empty class axis with a ValueError.\<close>

definition argmax_axis1 :: "ndarray2 \<Rightarrow> nat list result" where
  "argmax_axis1 a =
    (if shape1 a = 0 then Inl (ValueError ''attempt to get argmax of an empty sequence'')
     else Inr (map (\<lambda>i. argmax_row (item a i) (shape1 a)) [0..<shape0 a]))"

text \<open>What \<open>argmax_row\<close> is to compute: \<open>k\<close> is the first index of a largest entry.\<close>

definition is_first_argmax :: "(nat \<Rightarrow> real) \<Rightarrow> nat \<Rightarrow> nat \<Rightarrow> bool" where
  "is_first_argmax row c k = (k < c \<and> (\<forall>j<c. row j \<le> row k) \<and> (\<forall>j<k. row j < row k))"

definition np_true_divide :: "nat \<Rightarrow> nat \<Rightarrow> np_float" where
  "np_true_divide a b = (if b = 0 then NaN else Num (real a / real b))"

definition accuracy_classification :: "ndarray2 \<Rightarrow> int list \<Rightarrow> np_float result" where
  "accuracy_classification output target =
    (let num_batch = shape0 output
     in if \<not> num_batch = length target then Inl (ValueError [])
        else bindE (argmax_axis1 output) (\<lambda>pred.
          let true_count = length (filter (\<lambda>(p, t). int p = t) (zip pred target))
          in Inr (np_true_divide true_count num_batch)))"


text \<open>A batch of two rows and two classes, used as an example.\<close>

definition ex_output :: ndarray2 where
  "ex_output = \<lparr>shape0 = 2, shape1 = 2, item = (\<lambda>i j. [[1, 3], [2, 0]] ! i ! j)\<rparr>"


section \<open>lib/models/transaction_h.py: HighResolutionModule._check_branches\<close>

text \<open>
  The message of the error is the format string with both numbers filled in.  The
  argument \<open>blocks\<close> is not read.
\<close>

definition format2 :: "string \<Rightarrow> string \<Rightarrow> string \<Rightarrow> int \<Rightarrow> nat \<Rightarrow> string" where
  "format2 a b c x y = a @ str_int x @ b @ str_nat y @ c"

definition check_branches ::
  "int \<Rightarrow> 'b \<Rightarrow> nat list \<Rightarrow> nat list \<Rightarrow> nat list \<Rightarrow> unit result" where
  "check_branches num_branches blocks num_blocks num_inchannels num_channels =
    (if num_branches \<noteq> int (length num_blocks)
     then Inl (ValueError (format2 ''NUM_BRANCHES('' '') <> NUM_BLOCKS('' '')''
                 num_branches (length num_blocks)))
     else if num_branches \<noteq> int (length num_channels)
     then Inl (ValueError (format2 ''NUM_BRANCHES('' '') <> NUM_CHANNELS('' '')''
                 num_branches (length num_channels)))
     else if num_branches \<noteq> int (length num_inchannels)
     then Inl (ValueError (format2 ''NUM_BRANCHES('' '') <> NUM_INCHANNELS('' '')''
                 num_branches (length num_inchannels)))
     else Inr ())"


section \<open>lib/models/transaction_h.py: get_pose_vectors\<close>

text \<open>
  \<open>preds\<close> has shape \<open>[bs, joints, 2]\<close> and \<open>maxvals\<close> shape \<open>[bs, joints, 1]\<close>; one
  batch element is a list of points and a list of confidences.  Floats are modelled as
  reals.  Reading a list beyond its end raises IndexError.
\<close>

type_synonym vec2 = "real \<times> real"

definition getitem :: "'a list \<Rightarrow> nat \<Rightarrow> 'a result" where
  "getitem xs i = (if i < length xs then Inr (xs ! i) else Inl IndexError)"

definition sub2 :: "vec2 \<Rightarrow> vec2 \<Rightarrow> vec2" where
  "sub2 a b = (fst a - fst b, snd a - snd b)"

definition div2 :: "vec2 \<Rightarrow> real \<Rightarrow> vec2" where
  "div2 a r = (fst a / r, snd a / r)"

definition linalg_norm :: "vec2 \<Rightarrow> real" where
  "linalg_norm a = sqrt (fst a * fst a + snd a * snd a)"

definition inner2 :: "vec2 \<Rightarrow> vec2 \<Rightarrow> real" where
  "inner2 a b = fst a * fst b + snd a * snd b"

definition joints_of_limbs :: "nat list" where
  "joints_of_limbs = [0, 5, 6, 7, 8, 9, 10, 11, 12, 13, 14, 15, 16]"

text \<open>A \<^verbatim>\<open>for\<close> loop whose body may raise: the state is threaded through the items.\<close>

fun foldE :: "('a \<Rightarrow> 's \<Rightarrow> 's result) \<Rightarrow> 'a list \<Rightarrow> 's \<Rightarrow> 's result" where
  "foldE f [] s = Inr s"
| "foldE f (x # xs) s = bindE (f x s) (foldE f xs)"

text \<open>
  The body of the inner loop of the first pass, for the pair \<open>(n, i)\<close>, \<open>j\<close>.  The state
  is the counter \<open>idx\<close> and the rows \<open>vectors[batch]\<close>.  Python's \<^verbatim>\<open>and\<close> does not
  evaluate its right operand when the left one is false.
\<close>

definition limb_body ::
  "vec2 list \<Rightarrow> real list \<Rightarrow> nat \<Rightarrow> nat \<Rightarrow> nat \<Rightarrow> int \<times> vec2 list \<Rightarrow> (int \<times> vec2 list) result" where
  "limb_body preds_b maxvals_b n i j st =
    (let idx = fst st + 1; vectors = snd st
     in bindE (getitem maxvals_b n) (\<lambda>conf_n.
        if conf_n \<ge> 4 / 10
        then bindE (getitem maxvals_b j) (\<lambda>conf_j.
          if conf_j \<ge> 4 / 10
          then bindE (getitem preds_b i) (\<lambda>p_i.
               bindE (getitem preds_b j) (\<lambda>p_j.
                 if linalg_norm (sub2 p_i p_j) \<noteq> 0
                 then Inr (idx, vectors[nat idx := div2 (sub2 p_i p_j) (linalg_norm (sub2 p_i p_j))])
                 else Inr (idx, vectors)))
          else Inr (idx, vectors))
        else Inr (idx, vectors)))"

definition limb_vectors :: "vec2 list \<Rightarrow> real list \<Rightarrow> vec2 list result" where
  "limb_vectors preds_b maxvals_b =
    bindE (foldE (\<lambda>(n, i). foldE (limb_body preds_b maxvals_b n i) (drop (n + 1) joints_of_limbs))
             (enumerate 0 (butlast joints_of_limbs))
             (- 1, replicate (13 * 6) (0, 0)))
      (\<lambda>st. Inr (snd st))"

text \<open>The second pass: the inner products of all pairs of rows, in order.\<close>

definition angle_row :: "vec2 list \<Rightarrow> real list" where
  "angle_row vectors =
     concat (map (\<lambda>(n, v1). map (\<lambda>v2. inner2 v1 v2) (drop (n + 1) vectors))
                 (enumerate 0 (butlast vectors)))"

fun mapE :: "('a \<Rightarrow> 'b result) \<Rightarrow> 'a list \<Rightarrow> 'b list result" where
  "mapE f [] = Inr []"
| "mapE f (x # xs) = bindE (f x) (\<lambda>y. bindE (mapE f xs) (\<lambda>ys. Inr (y # ys)))"

definition get_pose_vectors :: "vec2 list list \<Rightarrow> real list list \<Rightarrow> real list list result" where
  "get_pose_vectors preds maxvals =
     mapE (\<lambda>batch.
        bindE (getitem preds batch) (\<lambda>preds_b.
        bindE (getitem maxvals batch) (\<lambda>maxvals_b.
        bindE (limb_vectors preds_b maxvals_b) (\<lambda>vectors. Inr (angle_row vectors)))))
       [0..<length preds]"

text \<open>The pairs of joints in the order the first pass visits them: \<open>idx\<close> is the position.\<close>

definition limb_pairs :: "(nat \<times> nat) list" where
  "limb_pairs =
     concat (map (\<lambda>(n, i). map (\<lambda>j. (i, j)) (drop (n + 1) joints_of_limbs))
                 (enumerate 0 (butlast joints_of_limbs)))"

text \<open>
  One batch element: every joint at the origin but the left shoulder (joint 5), and
  every confidence 1 but the left eye's (joint 1), which is 0.
\<close>

definition fi_preds :: "vec2 list" where
  "fi_preds = (replicate 17 (0, 0))[5 := (1, 0)]"

definition fi_maxvals :: "real list" where
  "fi_maxvals = (replicate 17 1)[1 := 0]"


section \<open>lib/models/transaction_h.py: TransActionH.init_weights\<close>

text \<open>
  The calls into the operating system and into torch are parameters of the model:
  which paths are regular files, what \<^verbatim>\<open>torch.load\<close> returns for a path (the entries of
  the stored state dict, or an exception), what \<^verbatim>\<open>load_state_dict(..., strict=False)\<close>
  does to the parameters of the module (it raises when a tensor has the wrong size),
  and the random initialisation of the first loop.  The parameters of the module are a
  map from names to tensors of an arbitrary type \<open>'v\<close>.
\<close>

record 'v torch_env =
  isfile :: "string \<Rightarrow> bool"
  torch_load :: "string \<Rightarrow> (string \<times> 'v) list result"
  load_state_dict :: "(string \<rightharpoonup> 'v) \<Rightarrow> (string \<times> 'v) list \<Rightarrow> (string \<rightharpoonup> 'v) result"
  init_normal :: "(string \<rightharpoonup> 'v) \<Rightarrow> (string \<rightharpoonup> 'v)"

text \<open>\<^verbatim>\<open>os.path.isfile\<close>: the empty path names no file.\<close>

definition os_path_isfile :: "'v torch_env \<Rightarrow> string \<Rightarrow> bool" where
  "os_path_isfile env path = (path \<noteq> [] \<and> isfile env path)"

text \<open>\<^verbatim>\<open>name.split('.')[0]\<close>: the part of the name before its first dot.\<close>

definition split_dot_0 :: "string \<Rightarrow> string" where
  "split_dot_0 name = takeWhile (\<lambda>c. c \<noteq> CHR ''.'') name"

text \<open>
  The condition of the loop, \<^verbatim>\<open>A and B or C\<close>: \<open>C\<close>, which reads
  \<^verbatim>\<open>self.pretrained_layers[0]\<close>, is evaluated only when \<^verbatim>\<open>A and B\<close> is false.  The
  comparison \<^verbatim>\<open>is '*'\<close> is modelled as equality of strings.
\<close>

definition keep_entry :: "string list \<Rightarrow> (string \<rightharpoonup> 'v) \<Rightarrow> string \<Rightarrow> bool result" where
  "keep_entry pretrained_layers state name =
    (if split_dot_0 name \<in> set pretrained_layers \<and> name \<in> dom state then Inr True
     else bindE (getitem pretrained_layers 0) (\<lambda>first. Inr (first = ''*'')))"

fun existing_state_dict ::
  "string list \<Rightarrow> (string \<rightharpoonup> 'v) \<Rightarrow> (string \<times> 'v) list \<Rightarrow> (string \<times> 'v) list result" where
  "existing_state_dict pretrained_layers state [] = Inr []"
| "existing_state_dict pretrained_layers state ((name, m) # items) =
     bindE (keep_entry pretrained_layers state name) (\<lambda>keep.
     bindE (existing_state_dict pretrained_layers state items) (\<lambda>rest.
       Inr (if keep then (name, m) # rest else rest)))"

definition init_weights ::
  "'v torch_env \<Rightarrow> string list \<Rightarrow> (string \<rightharpoonup> 'v) \<Rightarrow> string \<Rightarrow> (string \<rightharpoonup> 'v) result" where
  "init_weights env pretrained_layers state pretrained =
    (let state = init_normal env state
     in if os_path_isfile env pretrained
        then bindE (torch_load env pretrained) (\<lambda>pretrained_state_dict.
             bindE (existing_state_dict pretrained_layers state pretrained_state_dict) (\<lambda>existing.
               load_state_dict env state existing))
        else if pretrained \<noteq> []
        then Inl (ValueError (pretrained @ '' is not exist!''))
        else Inr state)"

text \<open>
  An environment in which the path \<open>w.pth\<close> is a file holding one tensor named
  \<open>conv1.weight\<close>, and loading a state dict overwrites the parameters of the same name.
\<close>

definition ex_env :: "nat torch_env" where
  "ex_env = \<lparr>isfile = (\<lambda>p. p = ''w.pth''),
             torch_load = (\<lambda>p. Inr [(''conv1.weight'', 7)]),
             load_state_dict = (\<lambda>state items.
                Inr (\<lambda>k. if k \<in> dom state then (case map_of items k of Some v \<Rightarrow> Some v | None \<Rightarrow> state k)
                         else None)),
             init_normal = (\<lambda>state. state)\<rparr>"

definition ex_state :: "string \<rightharpoonup> nat" where
  "ex_state = [''conv1.weight'' \<mapsto> 0]"


section \<open>lib/models/transaction_h.py: modules as data\<close>

text \<open>
  A torch module is built in \<^verbatim>\<open>__init__\<close> and run in \<^verbatim>\<open>forward\<close>.  The modules of torch
  are described by their hyperparameters; the two residual blocks of the file are
  described by the modules they hold.  Learned weights are not part of the description.
  \<^item> \<open>Conv2d in_channels out_channels kernel_size stride padding\<close>
  \<^item> \<open>BatchNorm2d num_features\<close>, \<open>LayerNorm normalized_shape\<close>
  \<^item> \<open>Upsample scale_factor\<close> (mode nearest)
  \<^item> \<open>MaxPool2d kernel_size stride padding\<close>, \<open>AdaptiveAvgPool2d height width\<close>
  \<^item> \<open>Linear in_features out_features\<close>
  \<^item> \<open>BasicBlock conv1 bn1 relu conv2 bn2 downsample stride\<close>
  \<^item> \<open>Bottleneck conv1 bn1 conv2 bn2 conv3 bn3 relu downsample stride\<close>
\<close>

datatype layer =
    Conv2d nat nat nat nat nat
  | BatchNorm2d nat
  | ReLU
  | Upsample nat
  | MaxPool2d nat nat nat
  | AdaptiveAvgPool2d nat nat
  | Dropout
  | Linear nat nat
  | LayerNorm nat
  | Softmax nat
  | Sequential "layer list"
  | BasicBlock layer layer layer layer layer "layer option" nat
  | Bottleneck layer layer layer layer layer layer layer "layer option" nat

datatype activation = F_relu | F_gelu | F_glu

text \<open>
  The tensor library, as far as the file uses it, over an arbitrary type \<open>'a\<close> of
  tensors.  Every operation may raise.
  \<^item> \<open>prim\<close>: calling one of torch's own modules;
  \<^item> \<open>add\<close>: \<^verbatim>\<open>a + b\<close>; \<open>iadd\<close>: \<^verbatim>\<open>a += b\<close>;
  \<^item> \<open>mha d_model nhead q k v\<close>: calling \<^verbatim>\<open>nn.MultiheadAttention(d_model, nhead)\<close>, which
    returns the output and the attention map;
  \<^item> \<open>act\<close>: the activation function of an encoder layer;
  \<^item> \<open>shape\<close>, \<open>flatten start_dim\<close>, \<open>permute dims\<close>, \<open>view sizes\<close>, \<open>cat tensors dim\<close>,
    \<open>stack tensors\<close>: the tensor methods of the same names;
  \<^item> \<open>randn sizes\<close> and \<open>sine_embedding h w d_model\<close>: the tensors the constructor
    creates for the positional embedding;
  \<^item> \<open>skeleton\<close>: the heatmaps copied to numpy, decoded by \<^verbatim>\<open>get_max_preds\<close>, turned into
    the angle features by \<open>get_pose_vectors\<close> and copied back to the device.
\<close>

record 'a tensor_ops =
  prim :: "layer \<Rightarrow> 'a \<Rightarrow> 'a result"
  add :: "'a \<Rightarrow> 'a \<Rightarrow> 'a result"
  iadd :: "'a \<Rightarrow> 'a \<Rightarrow> 'a result"
  mha :: "nat \<Rightarrow> nat \<Rightarrow> 'a \<Rightarrow> 'a \<Rightarrow> 'a \<Rightarrow> ('a \<times> 'a) result"
  act :: "activation \<Rightarrow> 'a \<Rightarrow> 'a result"
  shape :: "'a \<Rightarrow> nat list"
  flatten :: "nat \<Rightarrow> 'a \<Rightarrow> 'a result"
  permute :: "nat list \<Rightarrow> 'a \<Rightarrow> 'a result"
  view :: "nat list \<Rightarrow> 'a \<Rightarrow> 'a result"
  cat :: "'a list \<Rightarrow> nat \<Rightarrow> 'a result"
  stack :: "'a list \<Rightarrow> 'a result"
  randn :: "nat list \<Rightarrow> 'a"
  sine_embedding :: "nat \<Rightarrow> nat \<Rightarrow> nat \<Rightarrow> 'a result"
  skeleton :: "'a \<Rightarrow> 'a result"

text \<open>
  Calling a module.  \<^verbatim>\<open>nn.Sequential\<close> feeds each module the output of the one before;
  the two blocks follow their \<^verbatim>\<open>forward\<close> methods.
\<close>

fun run :: "'a tensor_ops \<Rightarrow> layer \<Rightarrow> 'a \<Rightarrow> 'a result"
  and run_seq :: "'a tensor_ops \<Rightarrow> layer list \<Rightarrow> 'a \<Rightarrow> 'a result" where
  "run ops (Sequential ls) x = run_seq ops ls x"
| "run ops (BasicBlock conv1 bn1 relu conv2 bn2 downsample stride) x =
     bindE (run ops conv1 x) (\<lambda>out.
     bindE (run ops bn1 out) (\<lambda>out.
     bindE (run ops relu out) (\<lambda>out.
     bindE (run ops conv2 out) (\<lambda>out.
     bindE (run ops bn2 out) (\<lambda>out.
     bindE (case downsample of None \<Rightarrow> Inr x | Some d \<Rightarrow> run ops d x) (\<lambda>residual.
     bindE (iadd ops out residual) (\<lambda>out.
     run ops relu out)))))))"
| "run ops (Bottleneck conv1 bn1 conv2 bn2 conv3 bn3 relu downsample stride) x =
     bindE (run ops conv1 x) (\<lambda>out.
     bindE (run ops bn1 out) (\<lambda>out.
     bindE (run ops relu out) (\<lambda>out.
     bindE (run ops conv2 out) (\<lambda>out.
     bindE (run ops bn2 out) (\<lambda>out.
     bindE (run ops relu out) (\<lambda>out.
     bindE (run ops conv3 out) (\<lambda>out.
     bindE (run ops bn3 out) (\<lambda>out.
     bindE (case downsample of None \<Rightarrow> Inr x | Some d \<Rightarrow> run ops d x) (\<lambda>residual.
     bindE (iadd ops out residual) (\<lambda>out.
     run ops relu out))))))))))"
| "run ops l x = prim ops l x"
| "run_seq ops [] x = Inr x"
| "run_seq ops (l # ls) x = bindE (run ops l x) (\<lambda>y. run_seq ops ls y)"

text \<open>An entry of a module list that may be \<^verbatim>\<open>None\<close>: calling \<^verbatim>\<open>None\<close> is a TypeError.\<close>

definition call :: "'a tensor_ops \<Rightarrow> layer option \<Rightarrow> 'a \<Rightarrow> 'a result" where
  "call ops l x = (case l of None \<Rightarrow> Inl TypeError | Some f \<Rightarrow> run ops f x)"

subsection \<open>conv3x3, BasicBlock, Bottleneck\<close>

definition conv3x3 :: "nat \<Rightarrow> nat \<Rightarrow> nat \<Rightarrow> layer" where
  "conv3x3 in_planes out_planes stride = Conv2d in_planes out_planes 3 stride 1"

definition BasicBlock_init :: "nat \<Rightarrow> nat \<Rightarrow> nat \<Rightarrow> layer option \<Rightarrow> layer" where
  "BasicBlock_init inplanes planes stride downsample =
     BasicBlock (conv3x3 inplanes planes stride) (BatchNorm2d planes) ReLU
       (conv3x3 planes planes 1) (BatchNorm2d planes) downsample stride"

definition Bottleneck_init :: "nat \<Rightarrow> nat \<Rightarrow> nat \<Rightarrow> layer option \<Rightarrow> layer" where
  "Bottleneck_init inplanes planes stride downsample =
     Bottleneck (Conv2d inplanes planes 1 1 0) (BatchNorm2d planes)
       (Conv2d planes planes 3 stride 1) (BatchNorm2d planes)
       (Conv2d planes (planes * 4) 1 1 0) (BatchNorm2d (planes * 4)) ReLU downsample stride"

text \<open>The two block classes, their \<^verbatim>\<open>expansion\<close> attribute, and \<^verbatim>\<open>blocks_dict\<close>.\<close>

datatype block = BASIC | BOTTLENECK

fun expansion :: "block \<Rightarrow> nat" where
  "expansion BASIC = 1"
| "expansion BOTTLENECK = 4"

fun block_init :: "block \<Rightarrow> nat \<Rightarrow> nat \<Rightarrow> nat \<Rightarrow> layer option \<Rightarrow> layer" where
  "block_init BASIC = BasicBlock_init"
| "block_init BOTTLENECK = Bottleneck_init"

definition blocks_dict :: "string \<Rightarrow> block result" where
  "blocks_dict name =
    (if name = ''BASIC'' then Inr BASIC
     else if name = ''BOTTLENECK'' then Inr BOTTLENECK
     else Inl KeyError)"


section \<open>lib/models/transaction_h.py: HighResolutionModule\<close>

text \<open>
  The attributes of the module.  \<open>hrm_fuse_layers\<close> is \<^verbatim>\<open>None\<close> for a module of one
  branch and a table of optional modules otherwise.
\<close>

record HighResolutionModule =
  hrm_num_inchannels :: "nat list"
  hrm_fuse_method :: string
  hrm_num_branches :: nat
  hrm_multi_scale_output :: bool
  hrm_fusion :: bool
  hrm_branches :: "layer list"
  hrm_fuse_layers :: "layer option list list option"
  hrm_relu :: layer

text \<open>
  \<^verbatim>\<open>_make_one_branch\<close> writes \<^verbatim>\<open>self.num_inchannels[branch_index]\<close>; the list is passed in
  and returned.
\<close>

definition make_one_branch ::
  "nat list \<Rightarrow> nat \<Rightarrow> block \<Rightarrow> nat list \<Rightarrow> nat list \<Rightarrow> nat \<Rightarrow> (layer \<times> nat list) result" where
  "make_one_branch num_inchannels branch_index block num_blocks num_channels stride =
    bindE (getitem num_inchannels branch_index) (\<lambda>inchannels.
    bindE (getitem num_channels branch_index) (\<lambda>channels.
    let downsample =
          (if stride \<noteq> 1 \<or> inchannels \<noteq> channels * expansion block
           then Some (Sequential [Conv2d inchannels (channels * expansion block) 1 stride 0,
                                  BatchNorm2d (channels * expansion block)])
           else None);
        first = block_init block inchannels channels stride downsample;
        num_inchannels = num_inchannels[branch_index := channels * expansion block]
    in bindE (getitem num_blocks branch_index) (\<lambda>n.
       Inr (Sequential (first # map (\<lambda>i. block_init block (channels * expansion block) channels 1 None)
                                   [1..<n]),
            num_inchannels))))"

definition make_branches ::
  "nat list \<Rightarrow> nat \<Rightarrow> block \<Rightarrow> nat list \<Rightarrow> nat list \<Rightarrow> (layer list \<times> nat list) result" where
  "make_branches num_inchannels num_branches block num_blocks num_channels =
    foldE (\<lambda>i (branches, num_inchannels).
             bindE (make_one_branch num_inchannels i block num_blocks num_channels 1)
               (\<lambda>(branch, num_inchannels). Inr (branches @ [branch], num_inchannels)))
          [0..<num_branches] ([], num_inchannels)"

text \<open>One entry of the table of fuse layers: \<open>i\<close> is the branch fed, \<open>j\<close> the branch read.\<close>

definition fuse_layer_entry :: "nat list \<Rightarrow> nat \<Rightarrow> nat \<Rightarrow> layer option result" where
  "fuse_layer_entry num_inchannels i j =
    (if j > i then
       bindE (getitem num_inchannels j) (\<lambda>cj.
       bindE (getitem num_inchannels i) (\<lambda>ci.
         Inr (Some (Sequential [Conv2d cj ci 1 1 0, BatchNorm2d ci, Upsample (2 ^ (j - i))]))))
     else if j = i then Inr None
     else
       bindE (mapE (\<lambda>k.
                if k = i - j - 1 then
                  bindE (getitem num_inchannels i) (\<lambda>num_outchannels_conv3x3.
                  bindE (getitem num_inchannels j) (\<lambda>cj.
                    Inr (Sequential [Conv2d cj num_outchannels_conv3x3 3 2 1,
                                     BatchNorm2d num_outchannels_conv3x3])))
                else
                  bindE (getitem num_inchannels j) (\<lambda>num_outchannels_conv3x3.
                    Inr (Sequential [Conv2d num_outchannels_conv3x3 num_outchannels_conv3x3 3 2 1,
                                     BatchNorm2d num_outchannels_conv3x3, ReLU])))
              [0..<i - j])
         (\<lambda>conv3x3s. Inr (Some (Sequential conv3x3s))))"

definition make_fuse_layers ::
  "nat \<Rightarrow> nat list \<Rightarrow> bool \<Rightarrow> bool \<Rightarrow> layer option list list option result" where
  "make_fuse_layers num_branches num_inchannels multi_scale_output fusion =
    (if num_branches = 1 then Inr None
     else
       bindE (mapE (\<lambda>i. mapE (\<lambda>j. fuse_layer_entry num_inchannels i j) [0..<num_branches])
                [0..<(if multi_scale_output then num_branches else 1)])
         (\<lambda>fuse_layers.
            if \<not> fusion
            then Inr (Some (map (\<lambda>(i, fuse_layer).
                               if i = 0 then fuse_layer else map (\<lambda>l. None) fuse_layer)
                            (enumerate 0 fuse_layers)))
            else Inr (Some fuse_layers)))"

definition HighResolutionModule_init ::
  "nat \<Rightarrow> block \<Rightarrow> nat list \<Rightarrow> nat list \<Rightarrow> nat list \<Rightarrow> string \<Rightarrow> bool \<Rightarrow> bool
     \<Rightarrow> HighResolutionModule result" where
  "HighResolutionModule_init num_branches blocks num_blocks num_inchannels num_channels
       fuse_method multi_scale_output fusion =
    bindE (check_branches (int num_branches) blocks num_blocks num_inchannels num_channels) (\<lambda>u.
    bindE (make_branches num_inchannels num_branches blocks num_blocks num_channels)
      (\<lambda>(branches, num_inchannels).
    bindE (make_fuse_layers num_branches num_inchannels multi_scale_output fusion) (\<lambda>fuse_layers.
      Inr \<lparr>hrm_num_inchannels = num_inchannels, hrm_fuse_method = fuse_method,
           hrm_num_branches = num_branches, hrm_multi_scale_output = multi_scale_output,
           hrm_fusion = fusion, hrm_branches = branches, hrm_fuse_layers = fuse_layers,
           hrm_relu = ReLU\<rparr>)))"

definition get_num_inchannels :: "HighResolutionModule \<Rightarrow> nat list" where
  "get_num_inchannels self = hrm_num_inchannels self"

subsection \<open>HighResolutionModule.forward\<close>

text \<open>\<^verbatim>\<open>self.fuse_layers[i][j]\<close>\<close>

definition fuse_at :: "layer option list list \<Rightarrow> nat \<Rightarrow> nat \<Rightarrow> layer option result" where
  "fuse_at fuse_layers i j = bindE (getitem fuse_layers i) (\<lambda>row. getitem row j)"

text \<open>The sum \<open>y\<close> for the output branch \<open>i\<close>, and the ReLU applied to it.\<close>

definition fuse_sum ::
  "'a tensor_ops \<Rightarrow> HighResolutionModule \<Rightarrow> layer option list list \<Rightarrow> 'a list \<Rightarrow> nat \<Rightarrow> 'a result" where
  "fuse_sum ops self fuse_layers x i =
    bindE (if i = 0 then getitem x 0
           else bindE (fuse_at fuse_layers i 0) (\<lambda>f.
                bindE (getitem x 0) (\<lambda>x0. call ops f x0))) (\<lambda>y.
    bindE (foldE (\<lambda>j y.
             if i = j then bindE (getitem x j) (\<lambda>xj. add ops y xj)
             else bindE (fuse_at fuse_layers i j) (\<lambda>f.
                  bindE (getitem x j) (\<lambda>xj.
                  bindE (call ops f xj) (\<lambda>t. add ops y t))))
           [1..<hrm_num_branches self] y) (\<lambda>y.
      run ops (hrm_relu self) y))"

text \<open>The loop \<^verbatim>\<open>for i in range(self.num_branches): x[i] = self.branches[i](x[i])\<close>.\<close>

definition run_branches :: "'a tensor_ops \<Rightarrow> HighResolutionModule \<Rightarrow> 'a list \<Rightarrow> 'a list result" where
  "run_branches ops self x =
     foldE (\<lambda>i x.
              bindE (getitem (hrm_branches self) i) (\<lambda>branch.
              bindE (getitem x i) (\<lambda>xi.
              bindE (run ops branch xi) (\<lambda>y. Inr (x[i := y])))))
       [0..<hrm_num_branches self] x"

definition HighResolutionModule_forward ::
  "'a tensor_ops \<Rightarrow> HighResolutionModule \<Rightarrow> 'a list \<Rightarrow> 'a list result" where
  "HighResolutionModule_forward ops self x =
    (if hrm_num_branches self = 1 then
       bindE (getitem (hrm_branches self) 0) (\<lambda>branch.
       bindE (getitem x 0) (\<lambda>x0.
       bindE (run ops branch x0) (\<lambda>y. Inr [y])))
     else
       bindE (run_branches ops self x) (\<lambda>x.
       case hrm_fuse_layers self of
         None \<Rightarrow> Inl TypeError
       | Some fuse_layers \<Rightarrow>
           if hrm_fusion self then
             mapE (\<lambda>i. fuse_sum ops self fuse_layers x i) [0..<length fuse_layers]
           else
             mapE (\<lambda>i. if i = 0 then fuse_sum ops self fuse_layers x i else getitem x i)
               [0..<length fuse_layers]))"

text \<open>
  The two kinds of fuse layer, by name: the 1x1 convolution followed by nearest
  upsampling by \<open>f\<close>, and the chain of \<open>n\<close> 3x3 convolutions of stride 2, of which only the
  last changes the number of channels.
\<close>

definition up_layer :: "nat \<Rightarrow> nat \<Rightarrow> nat \<Rightarrow> layer" where
  "up_layer cj ci f = Sequential [Conv2d cj ci 1 1 0, BatchNorm2d ci, Upsample f]"

definition down_layer :: "nat \<Rightarrow> nat \<Rightarrow> nat \<Rightarrow> layer" where
  "down_layer cj ci n =
     Sequential (map (\<lambda>k. if k = n - 1 then Sequential [Conv2d cj ci 3 2 1, BatchNorm2d ci]
                          else Sequential [Conv2d cj cj 3 2 1, BatchNorm2d cj, ReLU])
                     [0..<n])"

text \<open>The table of fuse layers, entry by entry: \<open>rows\<close> rows of \<open>nb\<close> entries.\<close>

definition fuse_table :: "nat list \<Rightarrow> nat \<Rightarrow> bool \<Rightarrow> nat \<Rightarrow> layer option list list" where
  "fuse_table c nb fusion rows =
     map (\<lambda>i. map (\<lambda>j. if \<not> fusion \<and> 0 < i then None
                        else if i < j then Some (up_layer (c ! j) (c ! i) (2 ^ (j - i)))
                        else if j = i then None
                        else Some (down_layer (c ! j) (c ! i) (i - j))) [0..<nb]) [0..<rows]"


section \<open>The tensor library on shapes\<close>

text \<open>
  A tensor is abstracted to its shape, the list of its sizes, and every operation of
  torch to what it does to shapes, with the checks torch makes on them (a failed check
  is an exception).  Modules are run in inference mode.
\<close>

type_synonym shape = "nat list"

text \<open>The output size of a convolution or pooling window along one axis.\<close>

definition conv_out :: "nat \<Rightarrow> nat \<Rightarrow> nat \<Rightarrow> nat \<Rightarrow> nat result" where
  "conv_out n k s p =
    (if k = 0 \<or> s = 0 \<or> n + 2 * p < k then Inl RuntimeError
     else Inr ((n + 2 * p - k) div s + 1))"

definition window2d :: "nat \<Rightarrow> nat \<Rightarrow> nat \<Rightarrow> nat \<Rightarrow> nat \<Rightarrow> (nat \<times> nat) result" where
  "window2d h w k s p =
     bindE (conv_out h k s p) (\<lambda>h'. bindE (conv_out w k s p) (\<lambda>w'. Inr (h', w')))"

fun prim_shape :: "layer \<Rightarrow> shape \<Rightarrow> shape result" where
  "prim_shape (Conv2d cin cout k s p) [n, c, h, w] =
     (if c \<noteq> cin then Inl RuntimeError
      else bindE (window2d h w k s p) (\<lambda>(h', w'). Inr [n, cout, h', w']))"
| "prim_shape (Conv2d cin cout k s p) [c, h, w] =
     (if c \<noteq> cin then Inl RuntimeError
      else bindE (window2d h w k s p) (\<lambda>(h', w'). Inr [cout, h', w']))"
| "prim_shape (Conv2d cin cout k s p) sh = Inl RuntimeError"
| "prim_shape (BatchNorm2d num_features) [n, c, h, w] =
     (if c \<noteq> num_features then Inl RuntimeError else Inr [n, c, h, w])"
| "prim_shape (BatchNorm2d num_features) sh = Inl RuntimeError"
| "prim_shape ReLU sh = Inr sh"
| "prim_shape Dropout sh = Inr sh"
| "prim_shape (Softmax d) sh = (if d < length sh then Inr sh else Inl IndexError)"
| "prim_shape (Upsample f) [n, c, h, w] = Inr [n, c, h * f, w * f]"
| "prim_shape (Upsample f) [n, c, l] = Inr [n, c, l * f]"
| "prim_shape (Upsample f) [n, c, d, h, w] = Inr [n, c, d * f, h * f, w * f]"
| "prim_shape (Upsample f) sh = Inl RuntimeError"
| "prim_shape (MaxPool2d k s p) [n, c, h, w] =
     (if k < 2 * p then Inl RuntimeError
      else bindE (window2d h w k s p) (\<lambda>(h', w'). Inr [n, c, h', w']))"
| "prim_shape (MaxPool2d k s p) [c, h, w] =
     (if k < 2 * p then Inl RuntimeError
      else bindE (window2d h w k s p) (\<lambda>(h', w'). Inr [c, h', w']))"
| "prim_shape (MaxPool2d k s p) sh = Inl RuntimeError"
| "prim_shape (AdaptiveAvgPool2d oh ow) [n, c, h, w] = Inr [n, c, oh, ow]"
| "prim_shape (AdaptiveAvgPool2d oh ow) [c, h, w] = Inr [c, oh, ow]"
| "prim_shape (AdaptiveAvgPool2d oh ow) sh = Inl RuntimeError"
| "prim_shape (Linear fin fout) sh =
     (if sh \<noteq> [] \<and> last sh = fin then Inr (butlast sh @ [fout]) else Inl RuntimeError)"
| "prim_shape (LayerNorm d) sh =
     (if sh \<noteq> [] \<and> last sh = d then Inr sh else Inl RuntimeError)"
| "prim_shape l sh = Inl TypeError"

text \<open>
  Broadcasting: the shapes are aligned at their last axes; two sizes agree when they
  are equal or one of them is 1.  The lists are the reversed shapes.
\<close>

fun broadcast_rev :: "nat list \<Rightarrow> nat list \<Rightarrow> nat list result" where
  "broadcast_rev [] ys = Inr ys"
| "broadcast_rev (x # xs) [] = Inr (x # xs)"
| "broadcast_rev (x # xs) (y # ys) =
     (if x = y \<or> y = 1 then bindE (broadcast_rev xs ys) (\<lambda>r. Inr (x # r))
      else if x = 1 then bindE (broadcast_rev xs ys) (\<lambda>r. Inr (y # r))
      else Inl RuntimeError)"

definition broadcast :: "shape \<Rightarrow> shape \<Rightarrow> shape result" where
  "broadcast a b = bindE (broadcast_rev (rev a) (rev b)) (\<lambda>r. Inr (rev r))"

text \<open>\<^verbatim>\<open>a += b\<close> keeps the shape of \<open>a\<close>: the broadcast shape must be that of \<open>a\<close>.\<close>

definition iadd_shape :: "shape \<Rightarrow> shape \<Rightarrow> shape result" where
  "iadd_shape a b = bindE (broadcast a b) (\<lambda>r. if r = a then Inr a else Inl RuntimeError)"

text \<open>
  \<^verbatim>\<open>nn.MultiheadAttention(d_model, nhead)(q, k, value=v)\<close> on tensors \<open>[L, N, E]\<close>,
  \<open>[S, N, E]\<close>, \<open>[S, N, E]\<close>: the output is \<open>[L, N, E]\<close> and the attention map \<open>[N, L, S]\<close>.
\<close>

definition mha_shape :: "nat \<Rightarrow> nat \<Rightarrow> shape \<Rightarrow> shape \<Rightarrow> shape \<Rightarrow> (shape \<times> shape) result" where
  "mha_shape d_model nhead q k v =
    (case (q, k, v) of
       ([l, n, e], [s, n', e'], [s', n'', e'']) \<Rightarrow>
         if e = d_model \<and> e' = d_model \<and> e'' = d_model \<and> n' = n \<and> n'' = n \<and> s' = s
         then Inr ([l, n, e], [n, l, s])
         else Inl AssertionError
     | _ \<Rightarrow> Inl AssertionError)"

definition act_shape :: "activation \<Rightarrow> shape \<Rightarrow> shape result" where
  "act_shape a sh =
    (case a of
       F_glu \<Rightarrow> if sh \<noteq> [] \<and> even (last sh) then Inr (butlast sh @ [last sh div 2])
                else Inl RuntimeError
     | _ \<Rightarrow> Inr sh)"

definition flatten_shape :: "nat \<Rightarrow> shape \<Rightarrow> shape result" where
  "flatten_shape start_dim sh =
    (if start_dim < length sh then Inr (take start_dim sh @ [prod_list (drop start_dim sh)])
     else Inl IndexError)"

definition permute_shape :: "nat list \<Rightarrow> shape \<Rightarrow> shape result" where
  "permute_shape dims sh =
    (if length dims = length sh \<and> distinct dims \<and> (\<forall>d \<in> set dims. d < length sh)
     then Inr (map (\<lambda>d. sh ! d) dims) else Inl RuntimeError)"

definition view_shape :: "nat list \<Rightarrow> shape \<Rightarrow> shape result" where
  "view_shape sizes sh = (if prod_list sizes = prod_list sh then Inr sizes else Inl RuntimeError)"

text \<open>\<^verbatim>\<open>torch.cat\<close>: the shapes agree off the axis, the sizes on it are added.\<close>

definition cat_shape :: "shape list \<Rightarrow> nat \<Rightarrow> shape result" where
  "cat_shape shs axis =
    (case shs of
       [] \<Rightarrow> Inl RuntimeError
     | s0 # rest \<Rightarrow>
         if axis < length s0 \<and> (\<forall>s \<in> set rest. length s = length s0 \<and> s[axis := 0] = s0[axis := 0])
         then Inr (s0[axis := sum_list (map (\<lambda>s. s ! axis) shs)])
         else Inl RuntimeError)"

text \<open>\<^verbatim>\<open>torch.stack(tensors, dim)\<close>: equal shapes, and a new axis of their number.\<close>

definition stack_shape :: "shape list \<Rightarrow> nat \<Rightarrow> shape result" where
  "stack_shape shs axis =
    (case shs of
       [] \<Rightarrow> Inl RuntimeError
     | s0 # rest \<Rightarrow>
         if axis \<le> length s0 \<and> (\<forall>s \<in> set rest. s = s0)
         then Inr (take axis s0 @ [length shs] @ drop axis s0)
         else Inl RuntimeError)"

subsection \<open>TransActionH._make_sine_position_embedding, on shapes\<close>

text \<open>
  The size of \<^verbatim>\<open>x[..., start::2]\<close> along the sliced (last) axis, and the shape after
  the slice.
\<close>

definition slice_step2 :: "nat \<Rightarrow> shape \<Rightarrow> shape" where
  "slice_step2 start sh = butlast sh @ [(last sh + 1 - start) div 2]"

text \<open>
  The statements of the method, each by its effect on shapes.  Adding \<open>eps\<close>,
  multiplying by \<open>scale\<close>, \<open>sin\<close> and \<open>cos\<close> keep the shape; a division of two tensors
  broadcasts; \<^verbatim>\<open>y_embed[:, -1:, :]\<close> keeps at most one row; \<^verbatim>\<open>x[:, :, :, None]\<close> appends an
  axis of size 1.
\<close>

definition make_sine_position_embedding :: "nat \<Rightarrow> nat \<Rightarrow> nat \<Rightarrow> shape result" where
  "make_sine_position_embedding pe_h pe_w d_model =
    (let h = pe_h; w = pe_w;
         area = [1, h, w];
         y_embed = area;
         x_embed = area;
         one_direction_feats = d_model div 2
     in bindE (broadcast y_embed [1, min h 1, w]) (\<lambda>y_embed.
        bindE (broadcast x_embed [1, h, min w 1]) (\<lambda>x_embed.
        let dim_t = [one_direction_feats]
        in bindE (broadcast (x_embed @ [1]) dim_t) (\<lambda>pos_x.
           bindE (broadcast (y_embed @ [1]) dim_t) (\<lambda>pos_y.
           bindE (stack_shape [slice_step2 0 pos_x, slice_step2 1 pos_x] 4) (\<lambda>stacked.
           bindE (flatten_shape 3 stacked) (\<lambda>pos_x.
           bindE (stack_shape [slice_step2 0 pos_y, slice_step2 1 pos_y] 4) (\<lambda>stacked.
           bindE (flatten_shape 3 stacked) (\<lambda>pos_y.
           bindE (cat_shape [pos_y, pos_x] 3) (\<lambda>pos.
           bindE (permute_shape [0, 3, 1, 2] pos) (\<lambda>pos.
           bindE (flatten_shape 2 pos) (\<lambda>pos.
           permute_shape [2, 0, 1] pos))))))))))))"

subsection \<open>The skeleton features, on shapes\<close>

text \<open>
  Modelled from the spec: \<^verbatim>\<open>get_max_preds\<close> (lib/core/inference.py) is not among the
  sources; it decodes heatmaps \<open>[batch, joints, height, width]\<close> into one position and
  one confidence per joint and asserts that its argument has four axes.
  \<open>get_pose_vectors\<close> then returns \<open>int(78 * 77 / 2) = 3003\<close> angles per batch element.
  For every batch element it reads the confidences at the positions 0 to 11, so fewer
  than 12 joints raise IndexError; and where one of these is at least 0.4 it reads the
  confidences of the joints that follow in \<open>joints_of_limbs\<close>, up to joint 16, so fewer
  than 17 joints raise IndexError then.  Whether there is such a confidence is not
  visible in the shape: it is the argument \<open>confident\<close>.
\<close>

definition skeleton_shape :: "bool \<Rightarrow> shape \<Rightarrow> shape result" where
  "skeleton_shape confident sh =
    (case sh of
       [n, j, h, w] \<Rightarrow>
         if 0 < n \<and> (j < 12 \<or> confident \<and> j < 17) then Inl IndexError else Inr [n, 3003]
     | _ \<Rightarrow> Inl AssertionError)"

text \<open>
  The library on shapes, for heatmaps that hold a confident joint.  The theorems about
  what \<open>forward\<close> returns are stated for every function in the field \<open>skeleton\<close>.
\<close>

definition shape_ops :: "shape tensor_ops" where
  "shape_ops =
    \<lparr>prim = prim_shape, add = broadcast, iadd = iadd_shape, mha = mha_shape, act = act_shape,
     shape = (\<lambda>sh. sh), flatten = flatten_shape, permute = permute_shape, view = view_shape,
     cat = cat_shape, stack = (\<lambda>shs. stack_shape shs 0), randn = (\<lambda>sizes. sizes),
     sine_embedding = make_sine_position_embedding, skeleton = skeleton_shape True\<rparr>"

text \<open>Division rounded up.\<close>

definition ceil_div :: "nat \<Rightarrow> nat \<Rightarrow> nat" where
  "ceil_div n m = (n + m - 1) div m"


section \<open>lib/models/transaction_h.py: the transformer encoder\<close>

definition get_activation_fn :: "string \<Rightarrow> activation result" where
  "get_activation_fn activation =
    (if activation = ''relu'' then Inr F_relu
     else if activation = ''gelu'' then Inr F_gelu
     else if activation = ''glu'' then Inr F_glu
     else Inl RuntimeError)"

text \<open>
  The attributes of an encoder layer; \<open>tel_d_model\<close> and \<open>tel_nhead\<close> describe
  \<^verbatim>\<open>self.self_attn\<close>.
\<close>

record TransformerEncoderLayer =
  tel_d_model :: nat
  tel_nhead :: nat
  tel_linear1 :: layer
  tel_dropout :: layer
  tel_linear2 :: layer
  tel_norm1 :: layer
  tel_norm2 :: layer
  tel_dropout1 :: layer
  tel_dropout2 :: layer
  tel_activation :: activation
  tel_normalize_before :: bool
  tel_return_atten_map :: bool

text \<open>
  The constructor of \<^verbatim>\<open>nn.MultiheadAttention\<close> divides \<open>d_model\<close> by \<open>nhead\<close> and asserts
  that nothing is left over.
\<close>

definition MultiheadAttention_init :: "nat \<Rightarrow> nat \<Rightarrow> unit result" where
  "MultiheadAttention_init d_model nhead =
    (if nhead = 0 then Inl ZeroDivisionError
     else if d_model mod nhead \<noteq> 0 then Inl AssertionError
     else Inr ())"

definition TransformerEncoderLayer_init ::
  "nat \<Rightarrow> nat \<Rightarrow> nat \<Rightarrow> string \<Rightarrow> bool \<Rightarrow> bool \<Rightarrow> TransformerEncoderLayer result" where
  "TransformerEncoderLayer_init d_model nhead dim_feedforward activation normalize_before
       return_atten_map =
    bindE (MultiheadAttention_init d_model nhead) (\<lambda>u.
    bindE (get_activation_fn activation) (\<lambda>activation.
      Inr \<lparr>tel_d_model = d_model, tel_nhead = nhead,
           tel_linear1 = Linear d_model dim_feedforward, tel_dropout = Dropout,
           tel_linear2 = Linear dim_feedforward d_model,
           tel_norm1 = LayerNorm d_model, tel_norm2 = LayerNorm d_model,
           tel_dropout1 = Dropout, tel_dropout2 = Dropout,
           tel_activation = activation, tel_normalize_before = normalize_before,
           tel_return_atten_map = return_atten_map\<rparr>))"

definition with_pos_embed :: "'a tensor_ops \<Rightarrow> 'a \<Rightarrow> 'a option \<Rightarrow> 'a result" where
  "with_pos_embed ops tensor pos = (case pos of None \<Rightarrow> Inr tensor | Some p \<Rightarrow> add ops tensor p)"

text \<open>
  The feed-forward part \<^verbatim>\<open>linear2(dropout(activation(linear1(src))))\<close>.
\<close>

definition feed_forward :: "'a tensor_ops \<Rightarrow> TransformerEncoderLayer \<Rightarrow> 'a \<Rightarrow> 'a result" where
  "feed_forward ops self src =
    bindE (run ops (tel_linear1 self) src) (\<lambda>t.
    bindE (act ops (tel_activation self) t) (\<lambda>t.
    bindE (run ops (tel_dropout self) t) (\<lambda>t.
    run ops (tel_linear2 self) t)))"

text \<open>
  Both forward methods return the output, and the attention map when
  \<open>return_atten_map\<close> is set.
\<close>

definition forward_post ::
  "'a tensor_ops \<Rightarrow> TransformerEncoderLayer \<Rightarrow> 'a \<Rightarrow> 'a option \<Rightarrow> ('a \<times> 'a option) result" where
  "forward_post ops self src pos =
    bindE (with_pos_embed ops src pos) (\<lambda>q.
    let k = q
    in bindE (mha ops (tel_d_model self) (tel_nhead self) q k src) (\<lambda>(src2, att_map).
       bindE (run ops (tel_dropout1 self) src2) (\<lambda>src2.
       bindE (add ops src src2) (\<lambda>src.
       bindE (run ops (tel_norm1 self) src) (\<lambda>src.
       bindE (feed_forward ops self src) (\<lambda>src2.
       bindE (run ops (tel_dropout2 self) src2) (\<lambda>src2.
       bindE (add ops src src2) (\<lambda>src.
       bindE (run ops (tel_norm2 self) src) (\<lambda>src.
         if tel_return_atten_map self then Inr (src, Some att_map) else Inr (src, None))))))))))"

definition forward_pre ::
  "'a tensor_ops \<Rightarrow> TransformerEncoderLayer \<Rightarrow> 'a \<Rightarrow> 'a option \<Rightarrow> ('a \<times> 'a option) result" where
  "forward_pre ops self src pos =
    bindE (run ops (tel_norm1 self) src) (\<lambda>src2.
    bindE (with_pos_embed ops src2 pos) (\<lambda>q.
    let k = q
    in bindE (mha ops (tel_d_model self) (tel_nhead self) q k src) (\<lambda>(src2, att_map).
       bindE (run ops (tel_dropout1 self) src2) (\<lambda>src2.
       bindE (add ops src src2) (\<lambda>src.
       bindE (run ops (tel_norm2 self) src) (\<lambda>src2.
       bindE (feed_forward ops self src2) (\<lambda>src2.
       bindE (run ops (tel_dropout2 self) src2) (\<lambda>src2.
       bindE (add ops src src2) (\<lambda>src.
         if tel_return_atten_map self then Inr (src, Some att_map) else Inr (src, None))))))))))"

definition TransformerEncoderLayer_forward ::
  "'a tensor_ops \<Rightarrow> TransformerEncoderLayer \<Rightarrow> 'a \<Rightarrow> 'a option \<Rightarrow> ('a \<times> 'a option) result" where
  "TransformerEncoderLayer_forward ops self src pos =
    (if tel_normalize_before self then forward_pre ops self src pos
     else forward_post ops self src pos)"

record TransformerEncoder =
  te_layers :: "TransformerEncoderLayer list"
  te_num_layers :: nat
  te_norm :: "layer option"
  te_pe_only_at_begin :: bool
  te_return_atten_map :: bool

text \<open>\<^verbatim>\<open>_get_clones\<close> copies the layer \<open>N\<close> times.\<close>

definition get_clones :: "'m \<Rightarrow> nat \<Rightarrow> 'm list" where
  "get_clones m N = map (\<lambda>i. m) [0..<N]"

definition TransformerEncoder_init ::
  "TransformerEncoderLayer \<Rightarrow> nat \<Rightarrow> layer option \<Rightarrow> bool \<Rightarrow> bool \<Rightarrow> TransformerEncoder" where
  "TransformerEncoder_init encoder_layer num_layers norm_layer pe_only_at_begin return_atten_map =
    \<lparr>te_layers = get_clones encoder_layer num_layers, te_num_layers = num_layers,
     te_norm = norm_layer, te_pe_only_at_begin = pe_only_at_begin,
     te_return_atten_map = return_atten_map\<rparr>"

text \<open>
  One turn of the loop of \<^verbatim>\<open>TransformerEncoder.forward\<close>.  The state is \<open>output\<close>,
  \<open>atten_maps_list\<close> and \<open>pos\<close>.  The encoder and its layers are built with the same
  value of \<open>return_atten_map\<close>; a layer that returns a pair to an encoder that expects a
  tensor, or a tensor to an encoder that expects a pair, is modelled as an exception.
\<close>

definition encoder_step ::
  "'a tensor_ops \<Rightarrow> TransformerEncoder \<Rightarrow> TransformerEncoderLayer
     \<Rightarrow> 'a \<times> 'a list \<times> 'a option \<Rightarrow> ('a \<times> 'a list \<times> 'a option) result" where
  "encoder_step ops self layer st =
    (case st of (output, atten_maps_list, pos) \<Rightarrow>
       bindE (TransformerEncoderLayer_forward ops layer output pos) (\<lambda>(out, att).
         let pos' = (if te_pe_only_at_begin self then None else pos)
         in if te_return_atten_map self
            then (case att of None \<Rightarrow> Inl TypeError
                  | Some att_map \<Rightarrow> Inr (out, atten_maps_list @ [att_map], pos'))
            else (case att of None \<Rightarrow> Inr (out, atten_maps_list, pos')
                  | Some att_map \<Rightarrow> Inl AttributeError)))"

definition TransformerEncoder_forward ::
  "'a tensor_ops \<Rightarrow> TransformerEncoder \<Rightarrow> 'a \<Rightarrow> 'a option \<Rightarrow> ('a \<times> 'a option) result" where
  "TransformerEncoder_forward ops self src pos =
    bindE (foldE (encoder_step ops self) (te_layers self) (src, [], pos))
      (\<lambda>(output, atten_maps_list, pos).
    bindE (case te_norm self of None \<Rightarrow> Inr output | Some norm_layer \<Rightarrow> run ops norm_layer output) (\<lambda>output.
      if te_return_atten_map self
      then bindE (stack ops atten_maps_list) (\<lambda>maps. Inr (output, Some maps))
      else Inr (output, None)))"

text \<open>
  The tensor library in which self-attention itself adds a tensor \<open>p\<close> to its value
  argument to form query and key: what an encoder without positional argument has to be
  run with to add \<open>p\<close> to the features before every attention.
\<close>

definition pos_in_attention :: "'a tensor_ops \<Rightarrow> 'a \<Rightarrow> 'a tensor_ops" where
  "pos_in_attention ops p =
     ops\<lparr>mha := \<lambda>d_model nhead q k v. bindE (add ops v p) (\<lambda>qk. mha ops d_model nhead qk qk v)\<rparr>"

text \<open>The state of the encoder loop without its \<open>pos\<close> component.\<close>

definition drop_pos :: "('a \<times> 'a list \<times> 'a option) result \<Rightarrow> ('a \<times> 'a list) result" where
  "drop_pos r = bindE r (\<lambda>(output, maps, pos). Inr (output, maps))"


section \<open>lib/models/transaction_h.py: TransActionH\<close>

subsection \<open>The configuration\<close>

text \<open>
  The entries of the configuration the model reads: \<^verbatim>\<open>cfg.LOSS\<close>, \<^verbatim>\<open>cfg.MODEL\<close> and
  \<^verbatim>\<open>cfg.MODEL.EXTRA\<close>, with one record for the description of a stage.  \<open>IMAGE_SIZE\<close> is
  the pair (width, height).
\<close>

record stage_cfg =
  NUM_MODULES :: nat
  NUM_BRANCHES :: nat
  NUM_BLOCKS :: "nat list"
  NUM_CHANNELS :: "nat list"
  BLOCK :: string
  FUSE_METHOD :: string

record config =
  A1 :: real
  A2 :: real
  A3 :: real
  STAGE2 :: stage_cfg
  STAGE3 :: stage_cfg
  FINAL_CONV_KERNEL :: nat
  PRETRAINED_LAYERS :: "string list"
  DIM_MODEL :: nat
  DIM_FEEDFORWARD :: nat
  ENCODER_LAYERS :: nat
  N_HEAD :: nat
  POS_EMBEDDING :: string
  IMAGE_SIZE :: "nat \<times> nat"
  DIM_MODEL_ACTION :: nat
  DIM_FEEDFORWARD_ACTION :: nat
  ENCODER_LAYERS_ACTION :: nat
  N_HEAD_ACTION :: nat
  POS_EMBEDDING_ACTION :: string
  NUM_JOINTS :: nat
  NUM_CLASSES :: nat
  INIT_WEIGHTS :: bool
  PRETRAINED :: string

subsection \<open>The attributes of the model\<close>

record 'a TransActionH =
  inplanes :: nat
  a1 :: real
  a2 :: real
  a3 :: real
  conv1 :: layer
  bn1 :: layer
  conv2 :: layer
  bn2 :: layer
  relu :: layer
  layer1 :: layer
  stage2_cfg :: stage_cfg
  transition1 :: "layer option list"
  stage2 :: "HighResolutionModule list"
  stage3_cfg :: stage_cfg
  transition2 :: "layer option list"
  stage3 :: "HighResolutionModule list"
  reduce :: layer
  pos_embedding :: "'a option"
  pe_h :: "nat option"
  pe_w :: "nat option"
  global_encoder :: TransformerEncoder
  global_encoder_action :: TransformerEncoder
  final_layer :: layer
  action_encoder_branch_part1 :: layer
  action_encoder_branch_part2 :: layer
  action_hrnet_features_branch_96 :: layer
  action_hrnet_features_branch_192 :: layer
  action_hrnet_features_branch_concat :: layer
  action_skeleton_branch :: layer
  action_softmax1 :: layer
  action_softmax2 :: layer
  action_softmax3 :: layer
  pretrained_layers :: "string list"

subsection \<open>The helpers of the constructor\<close>

text \<open>
  \<^verbatim>\<open>_make_position_embedding\<close> returns what it stores in \<^verbatim>\<open>self.pos_embedding\<close>,
  \<^verbatim>\<open>self.pe_h\<close> and \<^verbatim>\<open>self.pe_w\<close>.
\<close>

definition make_position_embedding ::
  "'a tensor_ops \<Rightarrow> nat \<Rightarrow> nat \<Rightarrow> nat \<Rightarrow> string \<Rightarrow> ('a option \<times> nat option \<times> nat option) result" where
  "make_position_embedding ops w h d_model pe_type =
    (if pe_type \<notin> set [''none'', ''learnable'', ''sine''] then Inl AssertionError
     else if pe_type = ''none'' then Inr (None, None, None)
     else
       let pe_h = h div 4;
           pe_w = w div 4;
           length = pe_h * pe_w
       in if pe_type = ''learnable''
          then Inr (Some (randn ops [length, 1, d_model]), Some pe_h, Some pe_w)
          else bindE (sine_embedding ops pe_h pe_w d_model) (\<lambda>pos.
                 Inr (Some pos, Some pe_h, Some pe_w)))"

text \<open>\<^verbatim>\<open>xs[-1]\<close>\<close>

definition last_item :: "'a list \<Rightarrow> 'a result" where
  "last_item xs = (if xs = [] then Inl IndexError else Inr (last xs))"

definition make_transition_layer :: "nat list \<Rightarrow> nat list \<Rightarrow> layer option list result" where
  "make_transition_layer num_channels_pre_layer num_channels_cur_layer =
    (let num_branches_cur = length num_channels_cur_layer;
         num_branches_pre = length num_channels_pre_layer
     in mapE (\<lambda>i.
          if i < num_branches_pre then
            bindE (getitem num_channels_cur_layer i) (\<lambda>cur.
            bindE (getitem num_channels_pre_layer i) (\<lambda>pre.
              if cur \<noteq> pre
              then Inr (Some (Sequential [Conv2d pre cur 3 1 1, BatchNorm2d cur, ReLU]))
              else Inr None))
          else
            bindE (mapE (\<lambda>j.
                     bindE (last_item num_channels_pre_layer) (\<lambda>inchannels.
                     bindE (if j = i - num_branches_pre then getitem num_channels_cur_layer i
                            else Inr inchannels) (\<lambda>outchannels.
                       Inr (Sequential [Conv2d inchannels outchannels 3 2 1,
                                        BatchNorm2d outchannels, ReLU]))))
                   [0..<i + 1 - num_branches_pre])
              (\<lambda>conv3x3s. Inr (Some (Sequential conv3x3s))))
        [0..<num_branches_cur])"

text \<open>\<^verbatim>\<open>_make_layer\<close> reads and writes \<^verbatim>\<open>self.inplanes\<close>, which is passed in and returned.\<close>

definition make_layer :: "nat \<Rightarrow> block \<Rightarrow> nat \<Rightarrow> nat \<Rightarrow> nat \<Rightarrow> layer \<times> nat" where
  "make_layer inplanes0 block planes blocks stride =
    (let downsample =
           (if stride \<noteq> 1 \<or> inplanes0 \<noteq> planes * expansion block
            then Some (Sequential [Conv2d inplanes0 (planes * expansion block) 1 stride 0,
                                   BatchNorm2d (planes * expansion block)])
            else None);
         first = block_init block inplanes0 planes stride downsample;
         inplanes1 = planes * expansion block
     in (Sequential (first # map (\<lambda>i. block_init block inplanes1 planes 1 None) [1..<blocks]),
         inplanes1))"

text \<open>
  \<^verbatim>\<open>_make_stage\<close>.  The local \<^verbatim>\<open>reset_multi_scale_output\<close> is only assigned when
  \<open>multi_scale_output\<close> is true; reading it otherwise is an UnboundLocalError.
\<close>

definition make_stage ::
  "stage_cfg \<Rightarrow> nat list \<Rightarrow> bool \<Rightarrow> bool \<Rightarrow> (HighResolutionModule list \<times> nat list) result" where
  "make_stage layer_config num_inchannels multi_scale_output fusion =
    (let num_modules = NUM_MODULES layer_config;
         num_branches = NUM_BRANCHES layer_config;
         num_blocks = NUM_BLOCKS layer_config;
         num_channels = NUM_CHANNELS layer_config
     in bindE (blocks_dict (BLOCK layer_config)) (\<lambda>block.
        let fuse_method = FUSE_METHOD layer_config
        in foldE (\<lambda>i (modules, num_inchannels).
             let reset_fusion = (if \<not> fusion \<and> i = num_modules - 1 then False else True)
             in if \<not> multi_scale_output then Inl UnboundLocalError
                else
                  bindE (HighResolutionModule_init num_branches block num_blocks num_inchannels
                           num_channels fuse_method True reset_fusion) (\<lambda>m.
                    Inr (modules @ [m], get_num_inchannels m)))
           [0..<num_modules] ([], num_inchannels)))"

subsection \<open>TransActionH.__init__\<close>

definition TransActionH_init :: "'a tensor_ops \<Rightarrow> config \<Rightarrow> 'a TransActionH result" where
  "TransActionH_init ops cfg =
    (case make_layer 64 BOTTLENECK 64 4 1 of (layer1', inplanes') \<Rightarrow>
     bindE (blocks_dict (BLOCK (STAGE2 cfg))) (\<lambda>block.
     let num_channels = map (\<lambda>i. NUM_CHANNELS (STAGE2 cfg) ! i * expansion block)
                            [0..<length (NUM_CHANNELS (STAGE2 cfg))]
     in bindE (make_transition_layer [256] num_channels) (\<lambda>transition1'.
        bindE (make_stage (STAGE2 cfg) num_channels True True) (\<lambda>(stage2', pre_stage_channels).
        bindE (blocks_dict (BLOCK (STAGE3 cfg))) (\<lambda>block.
        let num_channels = map (\<lambda>i. NUM_CHANNELS (STAGE3 cfg) ! i * expansion block)
                               [0..<length (NUM_CHANNELS (STAGE3 cfg))]
        in bindE (make_transition_layer pre_stage_channels num_channels) (\<lambda>transition2'.
           bindE (make_stage (STAGE3 cfg) num_channels True False) (\<lambda>(stage3', pre_stage_channels).
           let d_model = DIM_MODEL cfg;
               w = fst (IMAGE_SIZE cfg);
               h = snd (IMAGE_SIZE cfg)
           in bindE (getitem pre_stage_channels 0) (\<lambda>c0.
              bindE (make_position_embedding ops w h d_model (POS_EMBEDDING cfg))
                (\<lambda>(pos_embedding', pe_h', pe_w').
              bindE (TransformerEncoderLayer_init d_model (N_HEAD cfg) (DIM_FEEDFORWARD cfg)
                       ''relu'' False False) (\<lambda>encoder_layer.
              bindE (TransformerEncoderLayer_init (DIM_MODEL_ACTION cfg) (N_HEAD_ACTION cfg)
                       (DIM_FEEDFORWARD_ACTION cfg) ''relu'' False False) (\<lambda>encoder_layer_action.
                Inr \<lparr>inplanes = inplanes',
                     a1 = A1 cfg, a2 = A2 cfg, a3 = A3 cfg,
                     conv1 = Conv2d 3 64 3 2 1, bn1 = BatchNorm2d 64,
                     conv2 = Conv2d 64 64 3 2 1, bn2 = BatchNorm2d 64,
                     relu = ReLU, layer1 = layer1',
                     stage2_cfg = STAGE2 cfg, transition1 = transition1', stage2 = stage2',
                     stage3_cfg = STAGE3 cfg, transition2 = transition2', stage3 = stage3',
                     reduce = Conv2d c0 d_model 1 1 0,
                     pos_embedding = pos_embedding', pe_h = pe_h', pe_w = pe_w',
                     global_encoder =
                       TransformerEncoder_init encoder_layer (ENCODER_LAYERS cfg) None False False,
                     global_encoder_action =
                       TransformerEncoder_init encoder_layer_action (ENCODER_LAYERS_ACTION cfg)
                         None False False,
                     final_layer =
                       Conv2d d_model (NUM_JOINTS cfg) (FINAL_CONV_KERNEL cfg) 1
                         (if FINAL_CONV_KERNEL cfg = 3 then 1 else 0),
                     action_encoder_branch_part1 =
                       Sequential [Conv2d d_model (d_model * 2) 1 1 0, BatchNorm2d 192, ReLU,
                                   MaxPool2d 3 2 1, AdaptiveAvgPool2d 1 1],
                     action_encoder_branch_part2 =
                       Sequential [Dropout, Linear (d_model * 2) (NUM_CLASSES cfg)],
                     action_hrnet_features_branch_96 =
                       Sequential [Conv2d 96 192 1 1 0, BatchNorm2d 192, ReLU,
                                   MaxPool2d 3 2 1, AdaptiveAvgPool2d 1 1],
                     action_hrnet_features_branch_192 =
                       Sequential [Conv2d 192 192 3 2 1, BatchNorm2d 192, ReLU,
                                   MaxPool2d 3 2 1, AdaptiveAvgPool2d 1 1],
                     action_hrnet_features_branch_concat =
                       Sequential [Linear (d_model * 4) 200, Dropout, Linear 200 (NUM_CLASSES cfg)],
                     action_skeleton_branch = Sequential [Linear 3003 (NUM_CLASSES cfg)],
                     action_softmax1 = Softmax 1, action_softmax2 = Softmax 1,
                     action_softmax3 = Softmax 1,
                     pretrained_layers = PRETRAINED_LAYERS cfg\<rparr>)))))))))))"

subsection \<open>TransActionH.forward\<close>

text \<open>
  The method is cut at its own section comments.  First the backbone: the stem, the
  two transitions and the two stages, down to \<^verbatim>\<open>y_list = self.stage3(x_list)\<close>.
\<close>

definition run_stage :: "'a tensor_ops \<Rightarrow> HighResolutionModule list \<Rightarrow> 'a list \<Rightarrow> 'a list result" where
  "run_stage ops modules x_list = foldE (\<lambda>m x. HighResolutionModule_forward ops m x) modules x_list"

definition forward_backbone :: "'a tensor_ops \<Rightarrow> 'a TransActionH \<Rightarrow> 'a \<Rightarrow> 'a list result" where
  "forward_backbone ops self x =
    bindE (run ops (conv1 self) x) (\<lambda>x.
    bindE (run ops (bn1 self) x) (\<lambda>x.
    bindE (run ops (relu self) x) (\<lambda>x.
    bindE (run ops (conv2 self) x) (\<lambda>x.
    bindE (run ops (bn2 self) x) (\<lambda>x.
    bindE (run ops (relu self) x) (\<lambda>x.
    bindE (run ops (layer1 self) x) (\<lambda>x.
    bindE (mapE (\<lambda>i. bindE (getitem (transition1 self) i) (\<lambda>t.
                   case t of Some f \<Rightarrow> run ops f x | None \<Rightarrow> Inr x))
             [0..<NUM_BRANCHES (stage2_cfg self)]) (\<lambda>x_list.
    bindE (run_stage ops (stage2 self) x_list) (\<lambda>y_list.
    bindE (mapE (\<lambda>i. bindE (getitem (transition2 self) i) (\<lambda>t.
                   case t of Some f \<Rightarrow> bindE (last_item y_list) (\<lambda>y_last. run ops f y_last)
                   | None \<Rightarrow> getitem y_list i))
             [0..<NUM_BRANCHES (stage3_cfg self)]) (\<lambda>x_list.
    run_stage ops (stage3 self) x_list))))))))))"

text \<open>\<^verbatim>\<open>bs, c, h, w = x.shape\<close>\<close>

definition unpack4 :: "nat list \<Rightarrow> (nat \<times> nat \<times> nat \<times> nat) result" where
  "unpack4 sh = (case sh of [bs, c, h, w] \<Rightarrow> Inr (bs, c, h, w) | _ \<Rightarrow> Inl (ValueError []))"

text \<open>The value of a call of an encoder, used as a tensor.\<close>

definition encoder_output :: "('a \<times> 'a option) result \<Rightarrow> 'a result" where
  "encoder_output r = bindE r (\<lambda>(out, att). case att of None \<Rightarrow> Inr out | Some m \<Rightarrow> Inl AttributeError)"

text \<open>
  \<^verbatim>\<open>x = self.reduce(y_list[0])\<close>, its shape, and the flattened and permuted \<open>x\<close> both
  encoders read.
\<close>

definition forward_tokens ::
  "'a tensor_ops \<Rightarrow> 'a TransActionH \<Rightarrow> 'a list \<Rightarrow> ('a \<times> nat \<times> nat \<times> nat \<times> nat) result" where
  "forward_tokens ops self y_list =
    bindE (getitem y_list 0) (\<lambda>y0.
    bindE (run ops (reduce self) y0) (\<lambda>x.
    bindE (unpack4 (shape ops x)) (\<lambda>(bs, c, h, w).
    bindE (flatten ops 2 x) (\<lambda>x.
    bindE (permute ops [2, 0, 1] x) (\<lambda>x.
      Inr (x, bs, c, h, w))))))"

text \<open>The section \<^verbatim>\<open>"""pose"""\<close>.\<close>

definition forward_pose ::
  "'a tensor_ops \<Rightarrow> 'a TransActionH \<Rightarrow> 'a \<Rightarrow> nat \<times> nat \<times> nat \<times> nat \<Rightarrow> 'a result" where
  "forward_pose ops self x dims =
    (case dims of (bs, c, h, w) \<Rightarrow>
     bindE (encoder_output (TransformerEncoder_forward ops (global_encoder self) x (pos_embedding self)))
       (\<lambda>y.
     bindE (permute ops [1, 2, 0] y) (\<lambda>y.
     bindE (view ops [bs, c, h, w] y) (\<lambda>y.
     run ops (final_layer self) y))))"

text \<open>The section \<^verbatim>\<open>"""action"""\<close>, down to \<^verbatim>\<open>r = self.action_encoder_branch_part2(r)\<close>.\<close>

definition forward_action ::
  "'a tensor_ops \<Rightarrow> 'a TransActionH \<Rightarrow> 'a \<Rightarrow> nat \<times> nat \<times> nat \<times> nat \<Rightarrow> 'a result" where
  "forward_action ops self x dims =
    (case dims of (bs, c, h, w) \<Rightarrow>
     bindE (encoder_output (TransformerEncoder_forward ops (global_encoder_action self) x
              (pos_embedding self))) (\<lambda>r.
     bindE (permute ops [1, 2, 0] r) (\<lambda>r.
     bindE (view ops [bs, c, h, w] r) (\<lambda>r.
     bindE (run ops (action_encoder_branch_part1 self) r) (\<lambda>r.
     bindE (flatten ops 1 r) (\<lambda>r.
     run ops (action_encoder_branch_part2 self) r))))))"

text \<open>The pooled features \<open>z\<close> and \<open>t\<close> of the second and third branch, and \<open>concat\<close>.\<close>

definition forward_concat :: "'a tensor_ops \<Rightarrow> 'a TransActionH \<Rightarrow> 'a list \<Rightarrow> 'a result" where
  "forward_concat ops self y_list =
    bindE (getitem y_list 1) (\<lambda>y1.
    bindE (run ops (action_hrnet_features_branch_96 self) y1) (\<lambda>z.
    bindE (flatten ops 1 z) (\<lambda>z.
    bindE (getitem y_list 2) (\<lambda>y2.
    bindE (run ops (action_hrnet_features_branch_192 self) y2) (\<lambda>t.
    bindE (flatten ops 1 t) (\<lambda>t.
    bindE (cat ops [z, t] 1) (\<lambda>zt.
    run ops (action_hrnet_features_branch_concat self) zt)))))))"

text \<open>
  The whole method.  The locals \<open>r\<close> (the transformer action branch) and \<open>q\<close> (the
  skeleton branch) are computed and dropped: the line that would combine them with
  \<open>a1\<close>, \<open>a2\<close> and \<open>a3\<close> is a comment.
\<close>

definition forward :: "'a tensor_ops \<Rightarrow> 'a TransActionH \<Rightarrow> 'a \<Rightarrow> ('a \<times> 'a) result" where
  "forward ops self x =
    bindE (forward_backbone ops self x) (\<lambda>y_list.
    bindE (forward_tokens ops self y_list) (\<lambda>(x, dims).
    bindE (forward_pose ops self x dims) (\<lambda>y.
    bindE (skeleton ops y) (\<lambda>skeleton_vecs.
    bindE (forward_action ops self x dims) (\<lambda>r.
    bindE (forward_concat ops self y_list) (\<lambda>concat'.
    bindE (run ops (action_skeleton_branch self) skeleton_vecs) (\<lambda>q.
      Inr (y, concat'))))))))"

subsection \<open>get_pose_net\<close>

text \<open>
  The model is built and, when training with \<open>INIT_WEIGHTS\<close>, initialised with the
  empty path.  The result is the model and its parameters.
\<close>

definition get_pose_net ::
  "'a tensor_ops \<Rightarrow> 'v torch_env \<Rightarrow> (string \<rightharpoonup> 'v) \<Rightarrow> config \<Rightarrow> bool
     \<Rightarrow> ('a TransActionH \<times> (string \<rightharpoonup> 'v)) result" where
  "get_pose_net ops env state cfg is_train =
    bindE (TransActionH_init ops cfg) (\<lambda>model.
      if is_train \<and> INIT_WEIGHTS cfg
      then bindE (init_weights env (pretrained_layers model) state []) (\<lambda>state. Inr (model, state))
      else Inr (model, state))"

subsection \<open>An example configuration\<close>

text \<open>
  A small configuration of the kind the model is built with: the two stages of an
  HRNet backbone with channels 48, 96 and 192, one module per stage and one block per
  branch, 96 transformer channels, one encoder layer, 17 joints, 40 classes, and images
  of 16 x 16 pixels.
\<close>

definition ex_cfg :: config where
  "ex_cfg = \<lparr>A1 = 1, A2 = 1, A3 = 1,
     STAGE2 = \<lparr>NUM_MODULES = 1, NUM_BRANCHES = 2, NUM_BLOCKS = [1, 1], NUM_CHANNELS = [48, 96],
               BLOCK = ''BASIC'', FUSE_METHOD = ''SUM''\<rparr>,
     STAGE3 = \<lparr>NUM_MODULES = 1, NUM_BRANCHES = 3, NUM_BLOCKS = [1, 1, 1],
               NUM_CHANNELS = [48, 96, 192], BLOCK = ''BASIC'', FUSE_METHOD = ''SUM''\<rparr>,
     FINAL_CONV_KERNEL = 1, PRETRAINED_LAYERS = [''*''],
     DIM_MODEL = 96, DIM_FEEDFORWARD = 192, ENCODER_LAYERS = 1, N_HEAD = 1,
     POS_EMBEDDING = ''sine'', IMAGE_SIZE = (16, 16),
     DIM_MODEL_ACTION = 96, DIM_FEEDFORWARD_ACTION = 192, ENCODER_LAYERS_ACTION = 1,
     N_HEAD_ACTION = 1, POS_EMBEDDING_ACTION = ''sine'',
     NUM_JOINTS = 17, NUM_CLASSES = 40, INIT_WEIGHTS = True, PRETRAINED = []\<rparr>"


section \<open>Shapes through the backbone\<close>

text \<open>
  Properties of layers and of lists of feature maps, on shapes, used to follow the
  first branch through the two stages.  A layer keeps the size when the maps it
  returns have the batch size, height and width of its argument, and keeps the batch
  when they have four axes and its batch size.
\<close>

definition keeps_size :: "layer \<Rightarrow> bool" where
  "keeps_size l \<longleftrightarrow>
     (\<forall>b c h w y. run shape_ops l [b, c, h, w] = Inr y \<longrightarrow> (\<exists>c'. y = [b, c', h, w]))"

definition keeps_batch :: "layer \<Rightarrow> bool" where
  "keeps_batch l \<longleftrightarrow>
     (\<forall>b c h w y. run shape_ops l [b, c, h, w] = Inr y \<longrightarrow> (\<exists>c' h' w'. y = [b, c', h', w']))"

text \<open>
  A module whose branches keep the size and whose fuse layers keep the batch, as the
  constructor builds them.
\<close>

definition wf_module :: "HighResolutionModule \<Rightarrow> bool" where
  "wf_module m \<longleftrightarrow>
     (\<forall>br \<in> set (hrm_branches m). keeps_size br)
     \<and> (\<forall>fl row l. hrm_fuse_layers m = Some fl \<longrightarrow> row \<in> set fl \<longrightarrow> Some l \<in> set row
           \<longrightarrow> keeps_batch l)
     \<and> hrm_relu m = ReLU"

text \<open>
  A feature map of batch size \<open>b\<close>; one of height \<open>h\<close> and width \<open>w\<close> besides; and a
  list of feature maps of batch size \<open>b\<close> whose first one has height \<open>h\<close> and width \<open>w\<close>.
\<close>

definition batch_shape :: "nat \<Rightarrow> shape \<Rightarrow> bool" where
  "batch_shape b x \<longleftrightarrow> (\<exists>c h w. x = [b, c, h, w])"

definition sized_shape :: "nat \<Rightarrow> nat \<Rightarrow> nat \<Rightarrow> shape \<Rightarrow> bool" where
  "sized_shape b h w x \<longleftrightarrow> (\<exists>c. x = [b, c, h, w])"

definition branch_shapes :: "nat \<Rightarrow> nat \<Rightarrow> nat \<Rightarrow> shape list \<Rightarrow> bool" where
  "branch_shapes b h w xs \<longleftrightarrow>
     (\<forall>x \<in> set xs. batch_shape b x) \<and> (xs \<noteq> [] \<longrightarrow> sized_shape b h w (xs ! 0))"

section \<open>Basic facts about the error monad\<close>

lemma bindE_simps [simp]:
  "bindE (Inl e) f = Inl e" "bindE (Inr v) f = f v"
  by (simp_all add: bindE_def)

lemma bindE_eq_Inr: "(bindE r f = Inr y) = (\<exists>v. r = Inr v \<and> f v = Inr y)"
  by (cases r) simp_all


section \<open>Loops in the error monad\<close>

lemma mapE_map:
  "(\<And>x. x \<in> set xs \<Longrightarrow> f x = Inr (g x)) \<Longrightarrow> mapE f xs = Inr (map g xs)"
  by (induction xs) simp_all

lemma mapE_Inr_length: "mapE f xs = Inr ys \<Longrightarrow> length ys = length xs"
  by (induction xs arbitrary: ys) (auto simp: bindE_eq_Inr)

lemma mapE_Inr_nth:
  "mapE f xs = Inr ys \<Longrightarrow> i < length xs \<Longrightarrow> f (xs ! i) = Inr (ys ! i)"
proof (induction xs arbitrary: ys i)
  case Nil
  then show ?case by simp
next
  case (Cons x xs)
  then show ?case by (cases i) (auto simp: bindE_eq_Inr)
qed

lemma mapE_Inr_ball:
  "mapE f xs = Inr ys \<Longrightarrow> \<forall>x \<in> set xs. \<forall>y. f x = Inr y \<longrightarrow> P y \<Longrightarrow> \<forall>y \<in> set ys. P y"
  by (induction xs arbitrary: ys) (auto simp: bindE_eq_Inr)

lemma mapE_Inr_all:
  "mapE f xs = Inr ys \<Longrightarrow> (\<And>x y. x \<in> set xs \<Longrightarrow> f x = Inr y \<Longrightarrow> P y) \<Longrightarrow> y \<in> set ys \<Longrightarrow> P y"
  using mapE_Inr_ball [of f xs ys P] by blast

lemma getitem_Inr: "(getitem xs i = Inr x) = (i < length xs \<and> x = xs ! i)"
  by (auto simp: getitem_def)


section \<open>AverageMeter\<close>

text \<open>
  The state after a sequence of calls that all returned, from any state: the sums
  continue from the current \<open>count\<close> and \<open>sum\<close>.
\<close>

lemma update_eq:
  "update A self v n =
     bindE (num_mul A v n) (\<lambda>p.
     bindE (num_add A (am_sum self) p) (\<lambda>s.
     bindE (num_add A (am_count self) n) (\<lambda>c.
       if num_ne_zero A c
       then bindE (num_truediv A s c)
              (\<lambda>q. Inr (self\<lparr>am_val := v, am_sum := s, am_count := c, am_avg := q\<rparr>))
       else Inr (self\<lparr>am_val := v, am_sum := s, am_count := c, am_avg := num_zero A\<rparr>))))"
  by (simp add: update_def Let_def cong: if_cong)

lemma update_InrE:
  assumes "update A self v n = Inr s1"
  obtains p s c where "num_mul A v n = Inr p" "num_add A (am_sum self) p = Inr s"
    "num_add A (am_count self) n = Inr c"
    "am_val s1 = v" "am_sum s1 = s" "am_count s1 = c"
    "if num_ne_zero A c then num_truediv A s c = Inr (am_avg s1) else am_avg s1 = num_zero A"
proof -
  from assms obtain p s c where p: "num_mul A v n = Inr p"
    and s: "num_add A (am_sum self) p = Inr s" and c: "num_add A (am_count self) n = Inr c"
    and r: "(if num_ne_zero A c
       then bindE (num_truediv A s c)
              (\<lambda>q. Inr (self\<lparr>am_val := v, am_sum := s, am_count := c, am_avg := q\<rparr>))
       else Inr (self\<lparr>am_val := v, am_sum := s, am_count := c, am_avg := num_zero A\<rparr>))
        = Inr s1"
    unfolding update_eq bindE_eq_Inr by blast
  show thesis
  proof (cases "num_ne_zero A c")
    case True
    with r obtain q where "num_truediv A s c = Inr q"
      "s1 = self\<lparr>am_val := v, am_sum := s, am_count := c, am_avg := q\<rparr>"
      by (auto simp: bindE_eq_Inr)
    with True p s c that show thesis by simp
  next
    case False
    with r have "s1 = self\<lparr>am_val := v, am_sum := s, am_count := c, am_avg := num_zero A\<rparr>"
      by simp
    with False p s c that show thesis by simp
  qed
qed

lemma updates_inv:
  "updates A self calls = Inr m \<Longrightarrow>
     (\<exists>ps. mapE (\<lambda>(v, n). num_mul A v n) calls = Inr ps
        \<and> py_sum_from A (am_count self) (map snd calls) = Inr (am_count m)
        \<and> py_sum_from A (am_sum self) ps = Inr (am_sum m)
        \<and> am_val m = (if calls = [] then am_val self else fst (last calls))
        \<and> (calls \<noteq> [] \<longrightarrow>
             (if num_ne_zero A (am_count m)
              then num_truediv A (am_sum m) (am_count m) = Inr (am_avg m)
              else am_avg m = num_zero A)))"
proof (induction calls arbitrary: self)
  case Nil
  then show ?case by simp
next
  case (Cons call calls)
  obtain v n where call: "call = (v, n)" by (cases call)
  from Cons.prems obtain s1 where s1: "update A self v n = Inr s1"
    and rest: "updates A s1 calls = Inr m"
    by (auto simp: call bindE_eq_Inr)
  from s1 obtain p s c where p: "num_mul A v n = Inr p"
    and s: "num_add A (am_sum self) p = Inr s" and c: "num_add A (am_count self) n = Inr c"
    and f: "am_val s1 = v" "am_sum s1 = s" "am_count s1 = c"
    and q: "if num_ne_zero A c then num_truediv A s c = Inr (am_avg s1)
            else am_avg s1 = num_zero A"
    by (rule update_InrE)
  from Cons.IH [OF rest] obtain ps where ps: "mapE (\<lambda>(v, n). num_mul A v n) calls = Inr ps"
    and i: "py_sum_from A (am_count s1) (map snd calls) = Inr (am_count m)"
      "py_sum_from A (am_sum s1) ps = Inr (am_sum m)"
      "am_val m = (if calls = [] then am_val s1 else fst (last calls))"
      "calls \<noteq> [] \<longrightarrow>
             (if num_ne_zero A (am_count m)
              then num_truediv A (am_sum m) (am_count m) = Inr (am_avg m)
              else am_avg m = num_zero A)"
    by blast
  have avg: "if num_ne_zero A (am_count m)
              then num_truediv A (am_sum m) (am_count m) = Inr (am_avg m)
              else am_avg m = num_zero A"
  proof (cases "calls = []")
    case True
    with rest have "m = s1" by simp
    with q f show ?thesis by simp
  next
    case False
    with i(4) show ?thesis by simp
  qed
  have "mapE (\<lambda>(v, n). num_mul A v n) (call # calls) = Inr (p # ps)"
    by (simp add: call p ps)
  moreover have "py_sum_from A (am_count self) (map snd (call # calls)) = Inr (am_count m)"
    using i(1) by (simp add: call c f)
  moreover have "py_sum_from A (am_sum self) (p # ps) = Inr (am_sum m)"
    using i(2) by (simp add: s f)
  moreover have "am_val m = fst (last (call # calls))"
    using i(3) by (simp add: call f)
  ultimately show ?case
    using avg by auto
qed

text \<open>No call divides by zero, from any state.\<close>

lemma update_no_zero_division:
  "python_numbers A \<Longrightarrow> update A self v n \<noteq> Inl ZeroDivisionError"
  unfolding update_eq python_numbers_def
  by (auto simp: bindE_def split: sum.splits)

lemma updates_no_zero_division:
  "python_numbers A \<Longrightarrow> updates A self calls \<noteq> Inl ZeroDivisionError"
proof (induction calls arbitrary: self)
  case Nil
  then show ?case by simp
next
  case (Cons call calls)
  obtain v n where call: "call = (v, n)" by (cases call)
  show ?case
  proof (cases "update A self v n")
    case (Inl e)
    with update_no_zero_division [OF Cons.prems, of self v n] show ?thesis
      by (simp add: call)
  next
    case (Inr s1)
    with Cons.IH [OF Cons.prems, of s1] show ?thesis
      by (simp add: call)
  qed
qed

lemma fraction_ops_simps:
  "num_zero fraction_ops = 0" "num_add fraction_ops a b = Inr (a + b)"
  "num_mul fraction_ops a b = Inr (a * b)"
  "num_truediv fraction_ops a b = (if b = 0 then Inl ZeroDivisionError else Inr (a / b))"
  "num_ne_zero fraction_ops a = (a \<noteq> 0)"
  by (simp_all add: fraction_ops_def)

lemma python_numbers_fraction_ops: "python_numbers fraction_ops"
  by (simp add: python_numbers_def fraction_ops_simps)

text \<open>
  C9.  After \<open>reset\<close> and any sequence of calls \<open>update(val_k, n_k)\<close>, in the arithmetic
  of the numbers passed: no call has divided by zero; and when the calls have returned,
  \<open>count\<close> is the sum of the \<open>n_k\<close>, \<open>sum\<close> is the sum of the products \<open>val_k * n_k\<close>
  (both as Python's \<^verbatim>\<open>sum\<close> computes them, from 0 and from the left), \<open>val\<close> is the last
  \<open>val_k\<close> (0 if there was no call), and \<open>avg\<close> is the quotient \<open>sum / count\<close> when
  \<open>count != 0\<close> and 0 otherwise.
\<close>

theorem AverageMeter_invariant:
  "python_numbers A \<Longrightarrow>
     updates A (reset A self) calls \<noteq> Inl ZeroDivisionError
     \<and> (\<forall>m. updates A (reset A self) calls = Inr m \<longrightarrow>
          (\<exists>ps. mapE (\<lambda>(v, n). num_mul A v n) calls = Inr ps
             \<and> py_sum A (map snd calls) = Inr (am_count m)
             \<and> py_sum A ps = Inr (am_sum m)
             \<and> am_val m = (if calls = [] then num_zero A else fst (last calls))
             \<and> (if num_ne_zero A (am_count m)
                 then num_truediv A (am_sum m) (am_count m) = Inr (am_avg m)
                 else am_avg m = num_zero A)))"
proof (intro conjI allI impI)
  assume A: "python_numbers A"
  then show "updates A (reset A self) calls \<noteq> Inl ZeroDivisionError"
    by (rule updates_no_zero_division)
  fix m
  assume m: "updates A (reset A self) calls = Inr m"
  from updates_inv [OF m] obtain ps where ps: "mapE (\<lambda>(v, n). num_mul A v n) calls = Inr ps"
    and i: "py_sum_from A (am_count (reset A self)) (map snd calls) = Inr (am_count m)"
      "py_sum_from A (am_sum (reset A self)) ps = Inr (am_sum m)"
      "am_val m = (if calls = [] then am_val (reset A self) else fst (last calls))"
      "calls \<noteq> [] \<longrightarrow>
             (if num_ne_zero A (am_count m)
              then num_truediv A (am_sum m) (am_count m) = Inr (am_avg m)
              else am_avg m = num_zero A)"
    by blast
  have avg: "if num_ne_zero A (am_count m)
              then num_truediv A (am_sum m) (am_count m) = Inr (am_avg m)
              else am_avg m = num_zero A"
  proof (cases "calls = []")
    case True
    with m have "m = reset A self" by simp
    with A show ?thesis
      by (simp add: reset_def python_numbers_def)
  next
    case False
    with i(4) show ?thesis by simp
  qed
  from ps i(1-3) avg
  show "\<exists>ps. mapE (\<lambda>(v, n). num_mul A v n) calls = Inr ps
             \<and> py_sum A (map snd calls) = Inr (am_count m)
             \<and> py_sum A ps = Inr (am_sum m)
             \<and> am_val m = (if calls = [] then num_zero A else fst (last calls))
             \<and> (if num_ne_zero A (am_count m)
                 then num_truediv A (am_sum m) (am_count m) = Inr (am_avg m)
                 else am_avg m = num_zero A)"
    by (auto simp: py_sum_def reset_def)
qed

theorem AverageMeter_invariant_witness:
  "python_numbers fraction_ops
   \<and> updates fraction_ops
        (reset fraction_ops \<lparr>am_val = 7, am_avg = 7, am_sum = 7, am_count = 7\<rparr>)
        [(1 / 2, 4), (3, 2), (5, - 6)]
       = Inr \<lparr>am_val = 5, am_avg = 0, am_sum = - 22, am_count = 0\<rparr>
   \<and> py_sum fraction_ops [4, 2, - 6] = Inr 0
   \<and> py_sum fraction_ops [2, 6, - 30] = Inr (- 22)"
proof -
  let ?s = "\<lparr>am_val = 7, am_avg = 7, am_sum = 7, am_count = 7 :: rat\<rparr>"
  let ?m = "\<lparr>am_val = 5, am_avg = 0, am_sum = - 22, am_count = 0 :: rat\<rparr>"
  let ?calls = "[(1 / 2, 4), (3, 2), (5, - 6)] :: (rat \<times> rat) list"
  have u: "updates fraction_ops (reset fraction_ops ?s) ?calls = Inr ?m"
    by (simp add: update_eq reset_def fraction_ops_simps)
  note t = AverageMeter_invariant [OF python_numbers_fraction_ops, of ?s ?calls]
  note t' = t [THEN conjunct2, THEN spec, THEN mp, OF u]
  from t' obtain ps where
    ps: "mapE (\<lambda>(v, n). num_mul fraction_ops v n) ?calls = Inr ps"
    and c: "py_sum fraction_ops (map snd ?calls) = Inr (am_count ?m)"
    and s: "py_sum fraction_ops ps = Inr (am_sum ?m)"
    by (elim exE conjE)
  from ps have "ps = [2, 6, - 30]"
    by (simp add: fraction_ops_simps)
  with s have s': "py_sum fraction_ops [2, 6, - 30] = Inr (- 22)"
    by simp
  from c have c': "py_sum fraction_ops [4, 2, - 6] = Inr 0"
    by simp
  from python_numbers_fraction_ops u c' s' show ?thesis
    by (intro conjI)
qed

section \<open>accuracy_classification\<close>

lemma argmax_row_Suc:
  "0 < c \<Longrightarrow> argmax_row row (Suc c) =
     (if row (argmax_row row c) < row c then c else argmax_row row c)"
  by (simp add: argmax_row_def)

lemma argmax_row_first: "0 < c \<Longrightarrow> is_first_argmax row c (argmax_row row c)"
proof (induction c)
  case 0
  then show ?case by simp
next
  case (Suc c)
  show ?case
  proof (cases "c = 0")
    case True
    then show ?thesis by (simp add: argmax_row_def is_first_argmax_def)
  next
    case False
    then have pos: "0 < c" by simp
    then have ih: "is_first_argmax row c (argmax_row row c)" using Suc.IH by simp
    show ?thesis
    proof (cases "row (argmax_row row c) < row c")
      case True
      with ih show ?thesis
        unfolding is_first_argmax_def argmax_row_Suc [OF pos]
        by (auto simp: less_Suc_eq intro: le_less_trans less_imp_le)
    next
      case no: False
      with ih show ?thesis
        unfolding is_first_argmax_def argmax_row_Suc [OF pos]
        by (auto simp: less_Suc_eq)
    qed
  qed
qed

lemma is_first_argmax_unique:
  "is_first_argmax row c k \<Longrightarrow> is_first_argmax row c k' \<Longrightarrow> k = k'"
  unfolding is_first_argmax_def
  by (metis linorder_neqE_nat not_less)

lemma is_first_argmax_iff:
  "0 < c \<Longrightarrow> is_first_argmax row c k = (k = argmax_row row c)"
  using argmax_row_first is_first_argmax_unique by blast

lemma count_zip:
  "length xs = length ys \<Longrightarrow>
   length (filter P (zip xs ys)) = card {i. i < length ys \<and> P (xs ! i, ys ! i)}"
  by (auto simp: length_filter_conv_card intro!: arg_cong [where f = card])

text \<open>
  C10, as amended.  \<open>accuracy_classification\<close> raises a ValueError when the batch sizes
  of \<open>output\<close> and \<open>target\<close> differ; when they agree, the batch is not empty and there is
  at least one class, it returns the number of rows whose (first) argmax over the class
  axis equals the target label, divided by the batch size: a rational between 0 and 1.
\<close>

theorem accuracy_classification_amended:
  "(shape0 output \<noteq> length target \<longrightarrow>
      accuracy_classification output target = Inl (ValueError []))
   \<and> (shape0 output = length target \<and> 0 < shape0 output \<and> 0 < shape1 output \<longrightarrow>
      (\<exists>q. accuracy_classification output target = Inr (Num q)
         \<and> q = real (card {i. i < shape0 output \<and>
                   (\<exists>k. is_first_argmax (item output i) (shape1 output) k \<and> int k = target ! i)})
               / real (shape0 output)
         \<and> 0 \<le> q \<and> q \<le> 1 \<and> q \<in> \<rat>))"
proof (intro conjI impI)
  assume "shape0 output \<noteq> length target"
  then show "accuracy_classification output target = Inl (ValueError [])"
    by (simp add: accuracy_classification_def)
next
  assume h: "shape0 output = length target \<and> 0 < shape0 output \<and> 0 < shape1 output"
  let ?n = "shape0 output" and ?c = "shape1 output"
  let ?pred = "map (\<lambda>i. argmax_row (item output i) ?c) [0..<?n]"
  let ?S = "{i. i < ?n \<and> (\<exists>k. is_first_argmax (item output i) ?c k \<and> int k = target ! i)}"
  let ?cnt = "length (filter (\<lambda>(p, t). int p = t) (zip ?pred target))"
  have h1: "length target = ?n" and h2: "?n \<noteq> 0" and h3: "?c \<noteq> 0" and h4: "0 < ?c"
    using h by auto
  have len: "length ?pred = length target" by (simp add: h1)
  have cnt: "?cnt = card ?S"
  proof -
    have "?cnt = card {i. i < length target \<and> (\<lambda>(p, t). int p = t) (?pred ! i, target ! i)}"
      by (rule count_zip [OF len])
    also have "{i. i < length target \<and> (\<lambda>(p, t). int p = t) (?pred ! i, target ! i)} = ?S"
      unfolding h1 using h4 by (auto simp: is_first_argmax_iff)
    finally show ?thesis .
  qed
  have le: "?cnt \<le> ?n"
  proof -
    have "?cnt \<le> length (zip ?pred target)" by (rule length_filter_le)
    then show ?thesis by (simp add: h1)
  qed
  have res: "accuracy_classification output target = Inr (Num (real ?cnt / real ?n))"
    unfolding accuracy_classification_def argmax_axis1_def np_true_divide_def Let_def
    using h2 h3 by (simp add: h1)
  have "real ?cnt \<le> real ?n" using le by (simp only: of_nat_le_iff)
  moreover have "0 < real ?n" using h2 by (simp only: of_nat_0_less_iff neq0_conv)
  ultimately have "real ?cnt / real ?n \<le> 1" by (simp only: divide_le_eq_1_pos)
  moreover have "0 \<le> real ?cnt / real ?n" by simp
  moreover have "real ?cnt / real ?n \<in> \<rat>" by simp
  ultimately show "\<exists>q. accuracy_classification output target = Inr (Num q)
         \<and> q = real (card ?S) / real ?n \<and> 0 \<le> q \<and> q \<le> 1 \<and> q \<in> \<rat>"
    using res cnt by simp
qed

text \<open>
  The claim as stated fails on the empty batch: the batch sizes agree (both 0), no
  exception is raised, and the value returned is \<open>0 / 0 = nan\<close>, not a number in \<open>[0, 1]\<close>.
\<close>

theorem accuracy_classification_counterexample:
  "\<not> (\<forall>output target.
        (is_ValueError (accuracy_classification output target) = (shape0 output \<noteq> length target))
      \<and> (shape0 output = length target \<longrightarrow>
           (\<exists>q. accuracy_classification output target = Inr (Num q) \<and> 0 \<le> q \<and> q \<le> 1)))"
proof
  assume a: "\<forall>output target.
        (is_ValueError (accuracy_classification output target) = (shape0 output \<noteq> length target))
      \<and> (shape0 output = length target \<longrightarrow>
           (\<exists>q. accuracy_classification output target = Inr (Num q) \<and> 0 \<le> q \<and> q \<le> 1))"
  let ?o = "\<lparr>shape0 = 0, shape1 = 3, item = \<lambda>i j. 0\<rparr>"
  have "accuracy_classification ?o [] = Inr NaN"
    by (simp add: accuracy_classification_def argmax_axis1_def np_true_divide_def)
  moreover from a have "\<exists>q. accuracy_classification ?o [] = Inr (Num q) \<and> 0 \<le> q \<and> q \<le> 1"
    by simp
  ultimately show False by simp
qed

text \<open>
  With equal batch sizes and no class at all, numpy's argmax raises a ValueError of
  its own.
\<close>

lemma accuracy_classification_no_classes:
  "accuracy_classification \<lparr>shape0 = 1, shape1 = 0, item = \<lambda>i j. 0\<rparr> [0]
     = Inl (ValueError ''attempt to get argmax of an empty sequence'')"
  by (simp add: accuracy_classification_def argmax_axis1_def)

lemma accuracy_classification_example:
  "accuracy_classification ex_output [1, 1] = Inr (Num (1 / 2))"
  by code_simp

theorem accuracy_classification_witness:
  "shape0 ex_output = length [1, 1 :: int] \<and> 0 < shape0 ex_output \<and> 0 < shape1 ex_output
   \<and> (\<exists>q. accuracy_classification ex_output [1, 1] = Inr (Num q) \<and> 0 \<le> q \<and> q \<le> 1 \<and> q \<in> \<rat>)"
proof -
  have h: "shape0 ex_output = length [1, 1 :: int] \<and> 0 < shape0 ex_output \<and> 0 < shape1 ex_output"
    by (simp add: ex_output_def)
  with accuracy_classification_amended [of ex_output "[1, 1]"] show ?thesis
    by blast
qed

section \<open>HighResolutionModule._check_branches\<close>

text \<open>
  The check returns normally exactly when \<open>num_branches\<close> equals the three lengths,
  and raises a ValueError in every other case.
\<close>

lemma check_branches_iff:
  "((check_branches nb blocks num_blocks num_inchannels num_channels = Inr ())
      = (nb = int (length num_blocks) \<and> nb = int (length num_channels)
          \<and> nb = int (length num_inchannels)))
   \<and> (is_ValueError (check_branches nb blocks num_blocks num_inchannels num_channels)
      = (\<not> (nb = int (length num_blocks) \<and> nb = int (length num_channels)
          \<and> nb = int (length num_inchannels))))"
  by (auto simp: check_branches_def)

text \<open>The result of the check, with the message of the first test that fails.\<close>

lemma check_branches_cases:
  "check_branches (int nb) blocks num_blocks num_inchannels num_channels =
     (if nb = length num_blocks \<and> nb = length num_channels \<and> nb = length num_inchannels
      then Inr ()
      else Inl (ValueError
        (if nb \<noteq> length num_blocks
         then format2 ''NUM_BRANCHES('' '') <> NUM_BLOCKS('' '')'' (int nb) (length num_blocks)
         else if nb \<noteq> length num_channels
         then format2 ''NUM_BRANCHES('' '') <> NUM_CHANNELS('' '')'' (int nb) (length num_channels)
         else format2 ''NUM_BRANCHES('' '') <> NUM_INCHANNELS('' '')'' (int nb)
                (length num_inchannels))))"
  by (simp add: check_branches_def)


section \<open>get_pose_vectors\<close>

text \<open>
  C1.  The claim asks for the normalised difference whenever both joints of the pair
  are confident.  The code reads the confidence of the first joint at the loop position
  \<open>n\<close>, not at the joint \<open>i\<close>: for the pair (left shoulder 5, right shoulder 6), which is
  pair number 12, it reads joint 1.  On the input below both shoulders have confidence 1
  and different positions, and the vector stored for the pair is zero.
\<close>

theorem get_pose_vectors_failing_input:
  "limb_pairs ! 12 = (5, 6)
   \<and> fi_maxvals ! 5 \<ge> 4 / 10 \<and> fi_maxvals ! 6 \<ge> 4 / 10
   \<and> linalg_norm (sub2 (fi_preds ! 5) (fi_preds ! 6)) = 1
   \<and> limb_vectors fi_preds fi_maxvals = Inr ((replicate 78 (0, 0))[0 := (- 1, 0)])
   \<and> ((replicate 78 (0, 0))[0 := (- 1, 0)]) ! 12 = ((0, 0) :: vec2)"
proof (intro conjI)
  show "limb_pairs ! 12 = (5, 6)"
    by (simp add: limb_pairs_def joints_of_limbs_def enumerate_eq_zip upt_rec numeral_eq_Suc)
  show "limb_vectors fi_preds fi_maxvals = Inr ((replicate 78 (0, 0))[0 := (- 1, 0)])"
    by (simp add: limb_vectors_def fi_preds_def fi_maxvals_def joints_of_limbs_def enumerate_eq_zip
       limb_body_def getitem_def sub2_def div2_def linalg_norm_def upt_rec numeral_eq_Suc)
qed (simp_all add: fi_preds_def fi_maxvals_def sub2_def linalg_norm_def)


section \<open>TransActionH.init_weights\<close>

lemma keep_entry_total:
  "pl \<noteq> [] \<Longrightarrow> \<exists>k. keep_entry pl state name = Inr k"
  by (cases pl) (auto simp: keep_entry_def getitem_def)

lemma existing_state_dict_total:
  "pl \<noteq> [] \<Longrightarrow>
   \<exists>ex. existing_state_dict pl state items = Inr ex
       \<and> set ex \<subseteq> set items"
proof (induction items)
  case Nil
  then show ?case by simp
next
  case (Cons a items)
  obtain name m where a: "a = (name, m)" by (cases a)
  from Cons obtain ex where ex: "existing_state_dict pl state items = Inr ex"
    "set ex \<subseteq> set items" by blast
  from keep_entry_total [OF Cons.prems] obtain k
    where "keep_entry pl state name = Inr k" by blast
  with ex show ?case by (auto simp: a)
qed

text \<open>
  C3, as amended.  When the path names an existing file and PRETRAINED_LAYERS is not
  empty, the only exceptions of \<open>init_weights\<close> are those of \<^verbatim>\<open>torch.load\<close> and of
  \<^verbatim>\<open>load_state_dict\<close>: the entries selected from the file are handed to
  \<^verbatim>\<open>load_state_dict\<close> and its result is the result.  When the path is not empty and
  names no file, a ValueError is raised.  The empty path raises nothing.
\<close>

theorem init_weights_amended:
  "(os_path_isfile env pretrained \<and> pl \<noteq> [] \<longrightarrow>
      (\<forall>d. torch_load env pretrained = Inr d \<longrightarrow>
         (\<exists>ex. existing_state_dict pl (init_normal env state) d = Inr ex
            \<and> init_weights env pl state pretrained
                = load_state_dict env (init_normal env state) ex))
      \<and> (\<forall>e. torch_load env pretrained = Inl e \<longrightarrow>
            init_weights env pl state pretrained = Inl e))
   \<and> (\<not> os_path_isfile env pretrained \<and> pretrained \<noteq> [] \<longrightarrow>
        init_weights env pl state pretrained
          = Inl (ValueError (pretrained @ '' is not exist!'')))
   \<and> init_weights env pl state [] = Inr (init_normal env state)"
proof (intro conjI impI allI)
  fix d
  assume h: "os_path_isfile env pretrained \<and> pl \<noteq> []"
    and d: "torch_load env pretrained = Inr d"
  from h existing_state_dict_total [of pl "init_normal env state" d]
  obtain ex where ex: "existing_state_dict pl (init_normal env state) d = Inr ex"
    by blast
  have "init_weights env pl state pretrained
          = load_state_dict env (init_normal env state) ex"
    using h d ex by (simp add: init_weights_def Let_def)
  with ex show "\<exists>ex. existing_state_dict pl (init_normal env state) d = Inr ex
            \<and> init_weights env pl state pretrained
                = load_state_dict env (init_normal env state) ex"
    by blast
next
  fix e
  assume "os_path_isfile env pretrained \<and> pl \<noteq> []"
    and "torch_load env pretrained = Inl e"
  then show "init_weights env pl state pretrained = Inl e"
    by (simp add: init_weights_def Let_def)
next
  assume "\<not> os_path_isfile env pretrained \<and> pretrained \<noteq> []"
  then show "init_weights env pl state pretrained
          = Inl (ValueError (pretrained @ '' is not exist!''))"
    by (simp add: init_weights_def Let_def)
next
  show "init_weights env pl state [] = Inr (init_normal env state)"
    by (simp add: init_weights_def Let_def os_path_isfile_def)
qed

text \<open>
  The claim as stated fails: with an empty PRETRAINED_LAYERS and an existing file that
  holds a tensor, reading \<^verbatim>\<open>self.pl[0]\<close> raises IndexError.
\<close>

theorem init_weights_counterexample:
  "os_path_isfile ex_env ''w.pth''
   \<and> init_weights ex_env [] ex_state ''w.pth'' = Inl IndexError"
  by (simp add: os_path_isfile_def ex_env_def init_weights_def keep_entry_def getitem_def
        split_dot_0_def ex_state_def)

lemma init_weights_example:
  "init_weights ex_env [''*''] ex_state ''w.pth'' = Inr [''conv1.weight'' \<mapsto> 7]"
  by (auto simp: os_path_isfile_def ex_env_def init_weights_def keep_entry_def getitem_def
        split_dot_0_def ex_state_def fun_eq_iff)

theorem init_weights_witness:
  "os_path_isfile ex_env ''w.pth'' \<and> [''*''] \<noteq> ([] :: string list)
   \<and> torch_load ex_env ''w.pth'' = Inr [(''conv1.weight'', 7)]
   \<and> init_weights ex_env [''*''] ex_state ''w.pth'' = Inr [''conv1.weight'' \<mapsto> 7]
   \<and> \<not> os_path_isfile ex_env ''v.pth'' \<and> ''v.pth'' \<noteq> []
   \<and> init_weights ex_env [''*''] ex_state ''v.pth'' = Inl (ValueError ''v.pth is not exist!'')
   \<and> init_weights ex_env [''*''] ex_state [] = Inr ex_state"
proof -
  have a: "os_path_isfile ex_env ''w.pth'' \<and> [''*''] \<noteq> ([] :: string list)"
    by (simp add: os_path_isfile_def ex_env_def)
  have b: "torch_load ex_env ''w.pth'' = Inr [(''conv1.weight'', 7)]"
    by (simp add: ex_env_def)
  have c: "\<not> os_path_isfile ex_env ''v.pth'' \<and> ''v.pth'' \<noteq> []"
    by (simp add: os_path_isfile_def ex_env_def)
  have d: "init_normal ex_env ex_state = ex_state" by (simp add: ex_env_def)
  have e: "existing_state_dict [''*''] ex_state [(''conv1.weight'', 7)] = Inr [(''conv1.weight'', 7 :: nat)]"
    by (simp add: keep_entry_def getitem_def)
  have f: "load_state_dict ex_env ex_state [(''conv1.weight'', 7)] = Inr [''conv1.weight'' \<mapsto> 7]"
    by (auto simp: ex_env_def ex_state_def fun_eq_iff)
  from init_weights_amended [of ex_env "''w.pth''" "[''*'']" ex_state] a b d e f
  have 1: "init_weights ex_env [''*''] ex_state ''w.pth'' = Inr [''conv1.weight'' \<mapsto> 7]"
    by auto
  from init_weights_amended [of ex_env "''v.pth''" "[''*'']" ex_state] c
  have 2: "init_weights ex_env [''*''] ex_state ''v.pth'' = Inl (ValueError ''v.pth is not exist!'')"
    by simp
  from init_weights_amended [of ex_env "''v.pth''" "[''*'']" ex_state] d
  have 3: "init_weights ex_env [''*''] ex_state [] = Inr ex_state"
    by simp
  from a b c 1 2 3 show ?thesis by blast
qed


section \<open>Shapes of the primitive layers\<close>

lemma shape_ops_simps [simp]:
  "prim shape_ops = prim_shape" "add shape_ops = broadcast" "iadd shape_ops = iadd_shape"
  "mha shape_ops = mha_shape" "act shape_ops = act_shape" "shape shape_ops = (\<lambda>sh. sh)"
  "flatten shape_ops = flatten_shape" "permute shape_ops = permute_shape"
  "view shape_ops = view_shape" "cat shape_ops = cat_shape"
  "stack shape_ops = (\<lambda>shs. stack_shape shs 0)" "randn shape_ops = (\<lambda>sizes. sizes)"
  "sine_embedding shape_ops = make_sine_position_embedding"
  "skeleton shape_ops = skeleton_shape True"
  by (simp_all add: shape_ops_def)

lemma conv_out_same [simp]:
  "conv_out n 3 (Suc 0) (Suc 0) = (if n = 0 then Inl RuntimeError else Inr n)"
  "conv_out n (Suc 0) (Suc 0) 0 = (if n = 0 then Inl RuntimeError else Inr n)"
  "conv_out n 3 2 (Suc 0) = (if n = 0 then Inl RuntimeError else Inr ((n + 1) div 2))"
  by (auto simp: conv_out_def)

lemma window2d_simps [simp]:
  "window2d h w 3 (Suc 0) (Suc 0) = (if h = 0 \<or> w = 0 then Inl RuntimeError else Inr (h, w))"
  "window2d h w (Suc 0) (Suc 0) 0 = (if h = 0 \<or> w = 0 then Inl RuntimeError else Inr (h, w))"
  "window2d h w 3 2 (Suc 0) = (if h = 0 \<or> w = 0 then Inl RuntimeError
                         else Inr ((h + 1) div 2, (w + 1) div 2))"
  by (auto simp: window2d_def)


section \<open>The fuse layers\<close>

lemma ceil_div_half: "Suc (ceil_div h (2 ^ d)) div 2 = ceil_div h (2 ^ Suc d)"
proof -
  have "((h + 2 ^ d - 1) div 2 ^ d + 1) div 2 = ((h + 2 ^ d - 1 + 2 ^ d) div 2 ^ d) div 2"
    by simp
  also have "\<dots> = (h + 2 ^ d - 1 + 2 ^ d) div (2 ^ d * 2)"
    by (simp only: div_mult2_eq)
  also have "h + 2 ^ d - 1 + 2 ^ d = h + 2 ^ Suc d - 1"
    by simp
  finally show ?thesis by (simp add: mult.commute ceil_div_def)
qed

lemma ceil_div_pos: "0 < h \<Longrightarrow> 0 < ceil_div h (2 ^ d)"
  by (simp add: div_greater_zero_iff ceil_div_def)

lemma ceil_div_0 [simp]: "ceil_div h (2 ^ 0) = h" "ceil_div h (Suc 0) = h"
  by (simp_all add: ceil_div_def)

lemma run_up_layer:
  "0 < h \<Longrightarrow> 0 < w \<Longrightarrow>
   run shape_ops (up_layer cj ci f) [n, cj, h, w] = Inr [n, ci, h * f, w * f]"
  by (simp add: up_layer_def)

lemma run_down_step_mid:
  "0 < h \<Longrightarrow> 0 < w \<Longrightarrow>
   run shape_ops (Sequential [Conv2d cj cj 3 2 1, BatchNorm2d cj, ReLU]) [n, cj, h, w]
     = Inr [n, cj, (h + 1) div 2, (w + 1) div 2]"
  by simp

lemma run_down_step_last:
  "0 < h \<Longrightarrow> 0 < w \<Longrightarrow>
   run shape_ops (Sequential [Conv2d cj ci 3 2 1, BatchNorm2d ci]) [n, cj, h, w]
     = Inr [n, ci, (h + 1) div 2, (w + 1) div 2]"
  by simp

lemma run_seq_append:
  "run_seq ops (ls @ ms) x = bindE (run_seq ops ls x) (\<lambda>y. run_seq ops ms y)"
  by (induction ls arbitrary: x) (auto simp: bindE_def split: sum.splits)

lemma run_mid_chain:
  "0 < h \<Longrightarrow> 0 < w \<Longrightarrow>
   run_seq shape_ops (map (\<lambda>k. Sequential [Conv2d cj cj 3 2 (Suc 0), BatchNorm2d cj, ReLU]) [0..<d])
       [n, cj, h, w]
     = Inr [n, cj, ceil_div h (2 ^ d), ceil_div w (2 ^ d)]"
proof (induction d)
  case 0
  then show ?case by simp
next
  case (Suc d)
  have pos: "0 < ceil_div h (2 ^ d)" "0 < ceil_div w (2 ^ d)"
    using Suc.prems by (auto intro: ceil_div_pos)
  show ?case
    using Suc pos by (simp add: run_seq_append ceil_div_half del: power_Suc)
qed

lemma down_layer_unfold:
  "down_layer cj ci (Suc e) =
     Sequential (map (\<lambda>k. Sequential [Conv2d cj cj 3 2 (Suc 0), BatchNorm2d cj, ReLU]) [0..<e]
                 @ [Sequential [Conv2d cj ci 3 2 (Suc 0), BatchNorm2d ci]])"
  by (simp add: down_layer_def)

lemma run_down_layer:
  assumes "0 < d" "0 < h" "0 < w"
  shows "run shape_ops (down_layer cj ci d) [n, cj, h, w]
     = Inr [n, ci, ceil_div h (2 ^ d), ceil_div w (2 ^ d)]"
proof -
  obtain e where e: "d = Suc e" using assms(1) by (cases d) auto
  have pos: "0 < ceil_div h (2 ^ e)" "0 < ceil_div w (2 ^ e)"
    using assms by (auto intro: ceil_div_pos)
  show ?thesis
    unfolding e down_layer_unfold
    using assms pos by (simp add: run_seq_append run_mid_chain ceil_div_half del: power_Suc)
qed

lemma fuse_layer_entry_eq:
  assumes "i < length c" "j < length c"
  shows "fuse_layer_entry c i j =
     Inr (if i < j then Some (up_layer (c ! j) (c ! i) (2 ^ (j - i)))
          else if j = i then None
          else Some (down_layer (c ! j) (c ! i) (i - j)))"
proof -
  have m: "mapE (\<lambda>k. if k = i - j - 1 then
                  bindE (getitem c i) (\<lambda>num_outchannels_conv3x3.
                  bindE (getitem c j) (\<lambda>cj.
                    Inr (Sequential [Conv2d cj num_outchannels_conv3x3 3 2 1,
                                     BatchNorm2d num_outchannels_conv3x3])))
                else
                  bindE (getitem c j) (\<lambda>num_outchannels_conv3x3.
                    Inr (Sequential [Conv2d num_outchannels_conv3x3 num_outchannels_conv3x3 3 2 1,
                                     BatchNorm2d num_outchannels_conv3x3, ReLU])))
              [0..<i - j]
       = Inr (map (\<lambda>k. if k = i - j - 1 then Sequential [Conv2d (c ! j) (c ! i) 3 2 1, BatchNorm2d (c ! i)]
                          else Sequential [Conv2d (c ! j) (c ! j) 3 2 1, BatchNorm2d (c ! j), ReLU])
                     [0..<i - j])"
    using assms by (intro mapE_map) (simp add: getitem_def)
  show ?thesis
    using assms unfolding fuse_layer_entry_def m
    by (simp add: getitem_def up_layer_def down_layer_def)
qed

lemma make_fuse_layers_eq:
  assumes "length c = nb" "nb \<noteq> 1"
  shows "make_fuse_layers nb c mso fusion
           = Inr (Some (fuse_table c nb fusion (if mso then nb else 1)))"
proof -
  let ?rows = "if mso then nb else 1"
  have rows: "\<And>i. i < ?rows \<Longrightarrow> i < nb \<or> nb = 0"
    by (auto split: if_splits)
  have inner: "\<And>i. i \<in> set [0..<?rows] \<Longrightarrow>
     mapE (\<lambda>j. fuse_layer_entry c i j) [0..<nb]
       = Inr (map (\<lambda>j. if i < j then Some (up_layer (c ! j) (c ! i) (2 ^ (j - i)))
                        else if j = i then None
                        else Some (down_layer (c ! j) (c ! i) (i - j))) [0..<nb])"
  proof -
    fix i assume "i \<in> set [0..<?rows]"
    then have "i < nb \<or> nb = 0" using rows by simp
    then show "mapE (\<lambda>j. fuse_layer_entry c i j) [0..<nb]
       = Inr (map (\<lambda>j. if i < j then Some (up_layer (c ! j) (c ! i) (2 ^ (j - i)))
                        else if j = i then None
                        else Some (down_layer (c ! j) (c ! i) (i - j))) [0..<nb])"
    proof
      assume "i < nb"
      then show ?thesis
        using assms(1) by (intro mapE_map) (simp add: fuse_layer_entry_eq)
    next
      assume "nb = 0"
      then show ?thesis by simp
    qed
  qed
  have outer: "mapE (\<lambda>i. mapE (\<lambda>j. fuse_layer_entry c i j) [0..<nb]) [0..<?rows]
       = Inr (fuse_table c nb True ?rows)"
    unfolding fuse_table_def
    by (rule mapE_map [where g = "\<lambda>i. map (\<lambda>j. if \<not> True \<and> 0 < i then None
                        else if i < j then Some (up_layer (c ! j) (c ! i) (2 ^ (j - i)))
                        else if j = i then None
                        else Some (down_layer (c ! j) (c ! i) (i - j))) [0..<nb]"]) (simp add: inner)
  have blank: "map (\<lambda>(i, fuse_layer). if i = 0 then fuse_layer else map (\<lambda>l. None) fuse_layer)
                  (enumerate 0 (fuse_table c nb True ?rows)) = fuse_table c nb False ?rows"
    by (auto simp: fuse_table_def enumerate_eq_zip list_eq_iff_nth_eq)
  show ?thesis
    using assms(2) unfolding make_fuse_layers_def outer
    by (cases fusion) (simp_all add: blank)
qed

lemma down_layer_convs:
  "\<exists>ls. down_layer cj ci d = Sequential ls \<and> length ls = d
     \<and> (\<forall>l \<in> set ls. \<exists>cin cout rest. l = Sequential (Conv2d cin cout 3 2 1 # rest))"
  by (auto simp: down_layer_def)

text \<open>
  A module built with fusion disabled, as the last module of stage 3 is: only the row of
  the first output branch holds fuse layers.
\<close>

lemma fuse_layers_no_fusion:
  "make_fuse_layers 3 [48, 96, 192] True False
     = Inr (Some [[None, Some (up_layer 96 48 2), Some (up_layer 192 48 4)],
                  [None, None, None], [None, None, None]])"
  by (simp add: make_fuse_layers_eq fuse_table_def upt_rec numeral_eq_Suc)

section \<open>HighResolutionModule.__init__ and its check\<close>

text \<open>
  With one entry per branch in the three lists, no index of \<^verbatim>\<open>_make_one_branch\<close>,
  \<^verbatim>\<open>_make_branches\<close> and \<^verbatim>\<open>_make_fuse_layers\<close> is out of range.
\<close>

lemma make_one_branch_returns:
  assumes "i < length nic" "i < length nc" "i < length num_blocks"
  shows "\<exists>br nic'. make_one_branch nic i blk num_blocks nc stride = Inr (br, nic')
           \<and> length nic' = length nic"
  using assms by (simp add: make_one_branch_def Let_def getitem_def)

lemma make_branches_loop_returns:
  "\<forall>i \<in> set is. i < length nic \<and> i < length nc \<and> i < length num_blocks \<Longrightarrow>
   \<exists>brs nic'.
     foldE (\<lambda>i (branches, num_inchannels).
             bindE (make_one_branch num_inchannels i blk num_blocks nc 1)
               (\<lambda>(branch, num_inchannels). Inr (branches @ [branch], num_inchannels)))
          is (acc, nic) = Inr (brs, nic')
     \<and> length nic' = length nic"
proof (induction "is" arbitrary: acc nic)
  case Nil
  then show ?case by simp
next
  case (Cons i "is")
  from Cons.prems have "i < length nic" "i < length nc" "i < length num_blocks"
    by simp_all
  from make_one_branch_returns [OF this, of blk 1] obtain br nic1 where
    1: "make_one_branch nic i blk num_blocks nc 1 = Inr (br, nic1)"
    and l: "length nic1 = length nic"
    by blast
  from Cons.prems l
  have "\<forall>i \<in> set is. i < length nic1 \<and> i < length nc \<and> i < length num_blocks"
    by simp
  from Cons.IH [OF this, of "acc @ [br]"] l 1 show ?case
    by simp
qed

lemma make_branches_returns:
  assumes "nb \<le> length nic" "nb \<le> length nc" "nb \<le> length num_blocks"
  shows "\<exists>brs nic'. make_branches nic nb blk num_blocks nc = Inr (brs, nic')
           \<and> length nic' = length nic"
  unfolding make_branches_def
  by (rule make_branches_loop_returns) (use assms in auto)

lemma make_fuse_layers_returns:
  "length c = nb \<Longrightarrow> returns (make_fuse_layers nb c mso fusion)"
  by (cases "nb = 1") (simp_all add: make_fuse_layers_eq, simp add: make_fuse_layers_def)

lemma HighResolutionModule_init_returns:
  assumes "nb = length num_blocks" "nb = length nc" "nb = length nic"
  shows "returns (HighResolutionModule_init nb blk num_blocks nic nc fm mso fusion)"
proof -
  from assms make_branches_returns [of nb nic nc num_blocks blk] obtain brs nic' where
    b: "make_branches nic nb blk num_blocks nc = Inr (brs, nic')" and l: "length nic' = nb"
    by auto
  from l have "returns (make_fuse_layers nb nic' mso fusion)"
    by (rule make_fuse_layers_returns)
  then obtain fl where "make_fuse_layers nb nic' mso fusion = Inr fl"
    by (cases "make_fuse_layers nb nic' mso fusion") simp_all
  with b assms show ?thesis
    by (simp add: HighResolutionModule_init_def check_branches_cases)
qed

text \<open>
  Claim C2.  Constructing a \<open>HighResolutionModule\<close> raises a ValueError exactly when
  \<open>num_branches\<close> differs from the length of \<open>num_blocks\<close>, of \<open>num_channels\<close> or of
  \<open>num_inchannels\<close>; and when the three lengths equal \<open>num_branches\<close> the constructor
  passes the check, builds the branches and the fuse layers, and returns the module.
\<close>

theorem HighResolutionModule_init_check:
  "(is_ValueError (HighResolutionModule_init nb blk num_blocks nic nc fm mso fusion)
      = (nb \<noteq> length num_blocks \<or> nb \<noteq> length nc \<or> nb \<noteq> length nic))
   \<and> (returns (HighResolutionModule_init nb blk num_blocks nic nc fm mso fusion)
      = (nb = length num_blocks \<and> nb = length nc \<and> nb = length nic))"
proof (cases "nb = length num_blocks \<and> nb = length nc \<and> nb = length nic")
  case True
  then have "returns (HighResolutionModule_init nb blk num_blocks nic nc fm mso fusion)"
    by (simp add: HighResolutionModule_init_returns)
  with True show ?thesis
    by (cases "HighResolutionModule_init nb blk num_blocks nic nc fm mso fusion") auto
next
  case False
  then obtain msg where
    "HighResolutionModule_init nb blk num_blocks nic nc fm mso fusion = Inl (ValueError msg)"
    by (simp add: HighResolutionModule_init_def check_branches_cases)
  with False show ?thesis by auto
qed

theorem HighResolutionModule_init_check_witness:
  "returns (HighResolutionModule_init 2 BASIC [1, 1] [48, 96] [48, 96] ''SUM'' True True)
   \<and> is_ValueError (HighResolutionModule_init 2 BASIC [1, 1] [48, 96] [48, 96, 192] ''SUM'' True True)
   \<and> is_ValueError (HighResolutionModule_init 3 BASIC [1, 1] [48, 96] [48, 96] ''SUM'' True True)"
  using HighResolutionModule_init_check [of 2 BASIC "[1, 1]" "[48, 96]" "[48, 96]" "''SUM''" True True]
    HighResolutionModule_init_check [of 2 BASIC "[1, 1]" "[48, 96]" "[48, 96, 192]" "''SUM''" True True]
    HighResolutionModule_init_check [of 3 BASIC "[1, 1]" "[48, 96]" "[48, 96]" "''SUM''" True True]
  by simp


section \<open>HighResolutionModule.forward and the fuse layers\<close>

lemma HighResolutionModule_forward_several:
  "hrm_num_branches m \<noteq> 1 \<Longrightarrow> hrm_fuse_layers m = Some fl \<Longrightarrow>
   HighResolutionModule_forward ops m xs =
     bindE (run_branches ops m xs) (\<lambda>x.
       mapE (\<lambda>i. if hrm_fusion m \<or> i = 0 then fuse_sum ops m fl x i else getitem x i)
         [0..<length fl])"
  by (auto simp: HighResolutionModule_forward_def run_branches_def
      intro!: arg_cong2 [where f = bindE] arg_cong2 [where f = mapE])

lemma run_branches_loop_length:
  "foldE (\<lambda>i x.
              bindE (getitem brs i) (\<lambda>branch.
              bindE (getitem x i) (\<lambda>xi.
              bindE (run ops branch xi) (\<lambda>y. Inr (x[i := y])))))
       is xs = Inr x1
   \<Longrightarrow> length x1 = length xs \<and> (\<forall>i \<in> set is. i < length xs)"
proof (induction "is" arbitrary: xs)
  case Nil
  then show ?case by simp
next
  case (Cons i "is")
  from Cons.prems obtain y where i: "i < length xs"
    and rest: "foldE (\<lambda>i x.
              bindE (getitem brs i) (\<lambda>branch.
              bindE (getitem x i) (\<lambda>xi.
              bindE (run ops branch xi) (\<lambda>y. Inr (x[i := y])))))
       is (xs[i := y]) = Inr x1"
    by (auto simp: bindE_eq_Inr getitem_Inr)
  from Cons.IH [OF rest] i show ?case by simp
qed

lemma run_branches_length:
  "run_branches ops m xs = Inr x1 \<Longrightarrow> length x1 = length xs \<and> hrm_num_branches m \<le> length xs"
proof -
  assume "run_branches ops m xs = Inr x1"
  then have "length x1 = length xs \<and> (\<forall>i \<in> set [0..<hrm_num_branches m]. i < length xs)"
    unfolding run_branches_def by (rule run_branches_loop_length)
  then show ?thesis
    by (cases "hrm_num_branches m") (auto simp: less_Suc_eq_le)
qed

text \<open>The sum of the fuse loop: the terms first, then their sum from the left.\<close>

lemma fuse_loop_terms:
  "foldE (\<lambda>j y.
             if i = j then bindE (getitem xs j) (\<lambda>xj. add ops y xj)
             else bindE (fuse_at fl i j) (\<lambda>f.
                  bindE (getitem xs j) (\<lambda>xj.
                  bindE (call ops f xj) (\<lambda>t. add ops y t))))
      js y0 = Inr y
   \<Longrightarrow> \<exists>ts. mapE (\<lambda>j. if i = j then getitem xs j
                       else bindE (fuse_at fl i j) (\<lambda>f.
                            bindE (getitem xs j) (\<lambda>xj. call ops f xj))) js = Inr ts
          \<and> foldE (\<lambda>t y. add ops y t) ts y0 = Inr y"
proof (induction js arbitrary: y0)
  case Nil
  then show ?case by simp
next
  case (Cons j js)
  let ?body = "\<lambda>j y.
             if i = j then bindE (getitem xs j) (\<lambda>xj. add ops y xj)
             else bindE (fuse_at fl i j) (\<lambda>f.
                  bindE (getitem xs j) (\<lambda>xj.
                  bindE (call ops f xj) (\<lambda>t. add ops y t)))"
  let ?summand = "\<lambda>j. if i = j then getitem xs j
                       else bindE (fuse_at fl i j) (\<lambda>f.
                            bindE (getitem xs j) (\<lambda>xj. call ops f xj))"
  from Cons.prems obtain y1 where y1: "?body j y0 = Inr y1"
    and rest: "foldE ?body js y1 = Inr y"
    by (auto simp: bindE_eq_Inr)
  from y1 obtain t where t: "?summand j = Inr t" and a: "add ops y0 t = Inr y1"
    by (cases "i = j") (auto simp: bindE_eq_Inr)
  from Cons.IH [OF rest] obtain ts where ts: "mapE ?summand js = Inr ts"
    and s: "foldE (\<lambda>t y. add ops y t) ts y1 = Inr y"
    by blast
  have "mapE ?summand (j # js) = Inr (t # ts)"
    using t ts by simp
  moreover have "foldE (\<lambda>t y. add ops y t) (t # ts) y0 = Inr y"
    using a s by simp
  ultimately show ?case by blast
qed

lemma fuse_sum_terms:
  assumes "fuse_sum ops m fl xs i = Inr y" "0 < hrm_num_branches m"
  shows "\<exists>ts. mapE (\<lambda>j. if i = j then getitem xs j
                       else bindE (fuse_at fl i j) (\<lambda>f.
                            bindE (getitem xs j) (\<lambda>xj. call ops f xj)))
                 [0..<hrm_num_branches m] = Inr ts
          \<and> bindE (foldE (\<lambda>t y. add ops y t) (tl ts) (hd ts)) (run ops (hrm_relu m)) = Inr y"
proof -
  let ?summand = "\<lambda>j. if i = j then getitem xs j
                       else bindE (fuse_at fl i j) (\<lambda>f.
                            bindE (getitem xs j) (\<lambda>xj. call ops f xj))"
  from assms(1) obtain y0 y1 where y0: "?summand 0 = Inr y0"
    and loop: "foldE (\<lambda>j y.
             if i = j then bindE (getitem xs j) (\<lambda>xj. add ops y xj)
             else bindE (fuse_at fl i j) (\<lambda>f.
                  bindE (getitem xs j) (\<lambda>xj.
                  bindE (call ops f xj) (\<lambda>t. add ops y t))))
           [1..<hrm_num_branches m] y0 = Inr y1"
    and relu: "run ops (hrm_relu m) y1 = Inr y"
    by (cases "i = 0") (auto simp: fuse_sum_def bindE_eq_Inr)
  from fuse_loop_terms [OF loop] obtain ts where ts: "mapE ?summand [1..<hrm_num_branches m] = Inr ts"
    and s: "foldE (\<lambda>t y. add ops y t) ts y0 = Inr y1"
    by blast
  from assms(2) have "[0..<hrm_num_branches m] = 0 # [1..<hrm_num_branches m]"
    by (simp add: upt_rec)
  then have "mapE ?summand [0..<hrm_num_branches m] = Inr (y0 # ts)"
    using y0 ts by simp
  moreover have "bindE (foldE (\<lambda>t y. add ops y t) (tl (y0 # ts)) (hd (y0 # ts)))
      (run ops (hrm_relu m)) = Inr y"
    using s relu by simp
  ultimately show ?thesis by blast
qed


lemma HighResolutionModule_init_Inr:
  assumes "HighResolutionModule_init nb blk num_blocks nic nc fm mso fusion = Inr m"
  shows "hrm_num_branches m = nb" "hrm_fusion m = fusion" "hrm_relu m = ReLU"
    "length (hrm_num_inchannels m) = nb"
    "make_fuse_layers nb (hrm_num_inchannels m) mso fusion = Inr (hrm_fuse_layers m)"
proof -
  have eq: "nb = length num_blocks \<and> nb = length nc \<and> nb = length nic"
    using assms
    by (cases "nb = length num_blocks \<and> nb = length nc \<and> nb = length nic")
      (simp_all add: HighResolutionModule_init_def check_branches_cases)
  with make_branches_returns [of nb nic nc num_blocks blk] obtain brs c where
    b: "make_branches nic nb blk num_blocks nc = Inr (brs, c)" and l: "length c = nb"
    by auto
  from assms eq b obtain fl where fl: "make_fuse_layers nb c mso fusion = Inr fl"
    and m: "m = \<lparr>hrm_num_inchannels = c, hrm_fuse_method = fm,
           hrm_num_branches = nb, hrm_multi_scale_output = mso,
           hrm_fusion = fusion, hrm_branches = brs, hrm_fuse_layers = fl,
           hrm_relu = ReLU\<rparr>"
    by (auto simp: HighResolutionModule_init_def check_branches_cases bindE_eq_Inr)
  show "hrm_num_branches m = nb" "hrm_fusion m = fusion" "hrm_relu m = ReLU"
    "length (hrm_num_inchannels m) = nb"
    "make_fuse_layers nb (hrm_num_inchannels m) mso fusion = Inr (hrm_fuse_layers m)"
    using l fl by (simp_all add: m)
qed

lemma fuse_table_entries:
  assumes "i < rows" "j < nb"
  shows "fuse_table c nb fusion rows ! i ! j =
     (if \<not> fusion \<and> 0 < i then None
      else if i < j then Some (up_layer (c ! j) (c ! i) (2 ^ (j - i)))
      else if j = i then None
      else Some (down_layer (c ! j) (c ! i) (i - j)))"
  using assms by (simp add: fuse_table_def)

lemma fuse_table_length [simp]:
  "length (fuse_table c nb fusion rows) = rows"
  "i < rows \<Longrightarrow> length (fuse_table c nb fusion rows ! i) = nb"
  by (simp_all add: fuse_table_def)

text \<open>The terms of the sum for the output branch \<open>i\<close>, with the fuse layers of the table.\<close>

lemma fuse_table_terms:
  assumes ts: "mapE (\<lambda>j. if i = j then getitem xs j
                       else bindE (fuse_at (fuse_table c nb fusion rows) i j) (\<lambda>f.
                            bindE (getitem xs j) (\<lambda>xj. call ops f xj)))
                 [0..<nb] = Inr ts"
    and i: "i < rows" "fusion \<or> i = 0" and j: "j < nb"
  shows "j < length xs"
    and "j = i \<Longrightarrow> ts ! j = xs ! j"
    and "i < j \<Longrightarrow> run ops (up_layer (c ! j) (c ! i) (2 ^ (j - i))) (xs ! j) = Inr (ts ! j)"
    and "j < i \<Longrightarrow> run ops (down_layer (c ! j) (c ! i) (i - j)) (xs ! j) = Inr (ts ! j)"
proof -
  let ?fl = "fuse_table c nb fusion rows"
  from j have "[0..<nb] ! j = j" by simp
  with mapE_Inr_nth [OF ts, of j] j
  have t: "(if i = j then getitem xs j
            else bindE (fuse_at ?fl i j) (\<lambda>f. bindE (getitem xs j) (\<lambda>xj. call ops f xj)))
           = Inr (ts ! j)"
    by (simp cong: if_cong)
  have at: "fuse_at ?fl i j = Inr (?fl ! i ! j)"
    using i(1) j by (simp add: fuse_at_def getitem_def)
  from i j have e: "?fl ! i ! j =
      (if i < j then Some (up_layer (c ! j) (c ! i) (2 ^ (j - i)))
       else if j = i then None
       else Some (down_layer (c ! j) (c ! i) (i - j)))"
    by (auto simp: fuse_table_entries)
  from t show "j < length xs"
    by (cases "i = j") (auto simp: at bindE_eq_Inr getitem_Inr)
  from t show "ts ! j = xs ! j" if "j = i"
    using that by (simp add: getitem_Inr)
  from t show "run ops (up_layer (c ! j) (c ! i) (2 ^ (j - i))) (xs ! j) = Inr (ts ! j)"
    if "i < j"
    using that by (auto simp: at e bindE_eq_Inr getitem_Inr call_def)
  from t show "run ops (down_layer (c ! j) (c ! i) (i - j)) (xs ! j) = Inr (ts ! j)"
    if "j < i"
    using that by (auto simp: at e bindE_eq_Inr getitem_Inr call_def)
qed


lemma fuse_outputs:
  assumes init: "HighResolutionModule_init nb blk num_blocks nic nc fm mso fusion = Inr m"
    and nb: "2 \<le> nb"
    and ys: "HighResolutionModule_forward ops m xs = Inr ys"
  shows "\<exists>x1. run_branches ops m xs = Inr x1 \<and> nb \<le> length x1
     \<and> length ys = (if mso then nb else 1)
     \<and> (\<forall>i < length ys.
          (fusion \<or> i = 0 \<longrightarrow>
             (\<exists>ts. length ts = nb
                \<and> (\<forall>j < nb.
                      (j = i \<longrightarrow> ts ! j = x1 ! j)
                    \<and> (i < j \<longrightarrow>
                         run ops (up_layer (hrm_num_inchannels m ! j) (hrm_num_inchannels m ! i)
                                    (2 ^ (j - i))) (x1 ! j) = Inr (ts ! j))
                    \<and> (j < i \<longrightarrow>
                         run ops (down_layer (hrm_num_inchannels m ! j)
                                    (hrm_num_inchannels m ! i) (i - j)) (x1 ! j) = Inr (ts ! j)))
                \<and> bindE (foldE (\<lambda>t y. add ops y t) (tl ts) (hd ts)) (run ops ReLU)
                    = Inr (ys ! i)))
        \<and> (\<not> fusion \<and> 0 < i \<longrightarrow> ys ! i = x1 ! i))"
proof -
  let ?c = "hrm_num_inchannels m"
  let ?rows = "if mso then nb else 1"
  let ?fl = "fuse_table ?c nb fusion ?rows"
  note f = HighResolutionModule_init_Inr [OF init]
  from nb have nb1: "nb \<noteq> 1" by simp
  from f(5) have fl: "hrm_fuse_layers m = Some ?fl"
    by (simp add: make_fuse_layers_eq [OF f(4) nb1])
  from nb1 f(1) have "hrm_num_branches m \<noteq> 1" by simp
  note fw = HighResolutionModule_forward_several [OF this fl, of ops xs]
  from ys obtain x1 where x1: "run_branches ops m xs = Inr x1"
    and out: "mapE (\<lambda>i. if hrm_fusion m \<or> i = 0 then fuse_sum ops m ?fl x1 i else getitem x1 i)
         [0..<?rows] = Inr ys"
    unfolding fw by (auto simp: bindE_eq_Inr)
  from run_branches_length [OF x1] have len: "nb \<le> length x1"
    by (simp add: f(1))
  from out have lys: "length ys = ?rows"
    by (auto dest: mapE_Inr_length)
  have each: "(fusion \<or> i = 0 \<longrightarrow>
             (\<exists>ts. length ts = nb
                \<and> (\<forall>j < nb.
                      (j = i \<longrightarrow> ts ! j = x1 ! j)
                    \<and> (i < j \<longrightarrow>
                         run ops (up_layer (?c ! j) (?c ! i) (2 ^ (j - i))) (x1 ! j)
                           = Inr (ts ! j))
                    \<and> (j < i \<longrightarrow>
                         run ops (down_layer (?c ! j) (?c ! i) (i - j)) (x1 ! j)
                           = Inr (ts ! j)))
                \<and> bindE (foldE (\<lambda>t y. add ops y t) (tl ts) (hd ts)) (run ops ReLU)
                    = Inr (ys ! i)))
        \<and> (\<not> fusion \<and> 0 < i \<longrightarrow> ys ! i = x1 ! i)" if i: "i < length ys" for i
  proof (intro conjI impI)
    from i lys have ir: "i < ?rows" by simp
    then have "[0..<?rows] ! i = i" by simp
    with mapE_Inr_nth [OF out, of i] ir
    have yi: "(if hrm_fusion m \<or> i = 0 then fuse_sum ops m ?fl x1 i else getitem x1 i)
        = Inr (ys ! i)"
      by (simp cong: if_cong)
    {
      assume fi: "fusion \<or> i = 0"
      with yi f(2) have "fuse_sum ops m ?fl x1 i = Inr (ys ! i)" by auto
      moreover from nb f(1) have "0 < hrm_num_branches m" by simp
      ultimately obtain ts where
        ts: "mapE (\<lambda>j. if i = j then getitem x1 j
                       else bindE (fuse_at ?fl i j) (\<lambda>f.
                            bindE (getitem x1 j) (\<lambda>xj. call ops f xj)))
                 [0..<nb] = Inr ts"
        and sum: "bindE (foldE (\<lambda>t y. add ops y t) (tl ts) (hd ts)) (run ops ReLU)
                    = Inr (ys ! i)"
        using fuse_sum_terms [of ops m ?fl x1 i "ys ! i"] by (auto simp: f(1) f(3))
      from ts have "length ts = nb"
        by (auto dest: mapE_Inr_length)
      moreover note fuse_table_terms [OF ts ir fi]
      ultimately show "\<exists>ts. length ts = nb
                \<and> (\<forall>j < nb.
                      (j = i \<longrightarrow> ts ! j = x1 ! j)
                    \<and> (i < j \<longrightarrow>
                         run ops (up_layer (?c ! j) (?c ! i) (2 ^ (j - i))) (x1 ! j)
                           = Inr (ts ! j))
                    \<and> (j < i \<longrightarrow>
                         run ops (down_layer (?c ! j) (?c ! i) (i - j)) (x1 ! j)
                           = Inr (ts ! j)))
                \<and> bindE (foldE (\<lambda>t y. add ops y t) (tl ts) (hd ts)) (run ops ReLU)
                    = Inr (ys ! i)"
        using sum by blast
    }
    {
      assume "\<not> fusion \<and> 0 < i"
      with yi f(2) show "ys ! i = x1 ! i"
        by (simp add: getitem_Inr)
    }
  qed
  from x1 len lys each show ?thesis by blast
qed


text \<open>
  Claim C6.  In a module of at least two branches built by the constructor, with
  \<open>c\<close> the channels of the branches:
  \<^item> every fuse layer that exists for a pair \<open>(i, j)\<close> is, for \<open>j > i\<close>, a 1x1 convolution
    followed by an upsampling of scale factor exactly \<open>2 ^ (j - i)\<close>, and for \<open>j < i\<close> a
    chain of exactly \<open>i - j\<close> convolutions of kernel 3 and stride 2; in row 0, and in
    every row when the module is built with fusion, a layer exists for every \<open>j \<noteq> i\<close>;
  \<^item> \<open>forward\<close> runs the branches and then, for each such row \<open>i\<close>, adds up one term
    per branch \<open>j\<close>, from the left: the output of branch \<open>j\<close> through its fuse layer,
    or as it is for \<open>j = i\<close>; the output \<open>i\<close> is the ReLU of the sum.  Without fusion
    the outputs \<open>i > 0\<close> are the branch outputs;
  \<^item> on shapes, the first kind of layer multiplies height and width by \<open>2 ^ (j - i)\<close>
    and the second divides them by \<open>2 ^ (i - j)\<close>, rounding up.
\<close>

theorem fuse_layers_forward:
  "(HighResolutionModule_init nb blk num_blocks nic nc fm mso fusion = Inr m \<and> 2 \<le> nb \<longrightarrow>
     (\<exists>fl. hrm_fuse_layers m = Some fl
        \<and> length (hrm_num_inchannels m) = nb
        \<and> length fl = (if mso then nb else 1)
        \<and> (\<forall>i < length fl. \<forall>j < nb.
              (\<forall>l. fl ! i ! j = Some l \<longrightarrow>
                 (i < j \<and> l = up_layer (hrm_num_inchannels m ! j) (hrm_num_inchannels m ! i)
                                 (2 ^ (j - i)))
               \<or> (j < i \<and> l = down_layer (hrm_num_inchannels m ! j) (hrm_num_inchannels m ! i)
                                 (i - j)))
            \<and> (fusion \<or> i = 0 \<longrightarrow> (fl ! i ! j = None) = (j = i)))
        \<and> (\<forall>ops xs ys. HighResolutionModule_forward ops m xs = Inr ys \<longrightarrow>
             (\<exists>x1. run_branches ops m xs = Inr x1 \<and> nb \<le> length x1
                \<and> length ys = length fl
                \<and> (\<forall>i < length ys.
                     (fusion \<or> i = 0 \<longrightarrow>
                        (\<exists>ts. length ts = nb
                           \<and> (\<forall>j < nb.
                                 (j = i \<longrightarrow> ts ! j = x1 ! j)
                               \<and> (i < j \<longrightarrow>
                                    run ops (up_layer (hrm_num_inchannels m ! j)
                                               (hrm_num_inchannels m ! i) (2 ^ (j - i))) (x1 ! j)
                                      = Inr (ts ! j))
                               \<and> (j < i \<longrightarrow>
                                    run ops (down_layer (hrm_num_inchannels m ! j)
                                               (hrm_num_inchannels m ! i) (i - j)) (x1 ! j)
                                      = Inr (ts ! j)))
                           \<and> bindE (foldE (\<lambda>t y. add ops y t) (tl ts) (hd ts)) (run ops ReLU)
                               = Inr (ys ! i)))
                   \<and> (\<not> fusion \<and> 0 < i \<longrightarrow> ys ! i = x1 ! i))))))
   \<and> (\<forall>cj ci f. up_layer cj ci f = Sequential [Conv2d cj ci 1 1 0, BatchNorm2d ci, Upsample f])
   \<and> (\<forall>cj ci d. \<exists>ls. down_layer cj ci d = Sequential ls \<and> length ls = d
          \<and> (\<forall>l \<in> set ls. \<exists>cin cout rest. l = Sequential (Conv2d cin cout 3 2 1 # rest)))
   \<and> (\<forall>cj ci f n h w. 0 < h \<and> 0 < w \<longrightarrow>
          run shape_ops (up_layer cj ci f) [n, cj, h, w] = Inr [n, ci, h * f, w * f])
   \<and> (\<forall>cj ci d n h w. 0 < d \<and> 0 < h \<and> 0 < w \<longrightarrow>
          run shape_ops (down_layer cj ci d) [n, cj, h, w]
            = Inr [n, ci, ceil_div h (2 ^ d), ceil_div w (2 ^ d)])"
proof (intro conjI impI allI)
  assume a: "HighResolutionModule_init nb blk num_blocks nic nc fm mso fusion = Inr m \<and> 2 \<le> nb"
  then have init: "HighResolutionModule_init nb blk num_blocks nic nc fm mso fusion = Inr m"
    and nb: "2 \<le> nb"
    by simp_all
  let ?c = "hrm_num_inchannels m"
  let ?rows = "if mso then nb else 1"
  let ?fl = "fuse_table ?c nb fusion ?rows"
  note f = HighResolutionModule_init_Inr [OF init]
  from nb have nb1: "nb \<noteq> 1" by simp
  from f(5) have fl: "hrm_fuse_layers m = Some ?fl"
    by (simp add: make_fuse_layers_eq [OF f(4) nb1])
  have len: "length ?fl = ?rows" by simp
  have entries: "\<forall>i < length ?fl. \<forall>j < nb.
              (\<forall>l. ?fl ! i ! j = Some l \<longrightarrow>
                 (i < j \<and> l = up_layer (?c ! j) (?c ! i) (2 ^ (j - i)))
               \<or> (j < i \<and> l = down_layer (?c ! j) (?c ! i) (i - j)))
            \<and> (fusion \<or> i = 0 \<longrightarrow> (?fl ! i ! j = None) = (j = i))"
    unfolding len by (auto simp: fuse_table_entries split: if_splits)
  have fw: "\<forall>ops xs ys. HighResolutionModule_forward ops m xs = Inr ys \<longrightarrow>
             (\<exists>x1. run_branches ops m xs = Inr x1 \<and> nb \<le> length x1
                \<and> length ys = length ?fl
                \<and> (\<forall>i < length ys.
                     (fusion \<or> i = 0 \<longrightarrow>
                        (\<exists>ts. length ts = nb
                           \<and> (\<forall>j < nb.
                                 (j = i \<longrightarrow> ts ! j = x1 ! j)
                               \<and> (i < j \<longrightarrow>
                                    run ops (up_layer (?c ! j) (?c ! i) (2 ^ (j - i))) (x1 ! j)
                                      = Inr (ts ! j))
                               \<and> (j < i \<longrightarrow>
                                    run ops (down_layer (?c ! j) (?c ! i) (i - j)) (x1 ! j)
                                      = Inr (ts ! j)))
                           \<and> bindE (foldE (\<lambda>t y. add ops y t) (tl ts) (hd ts)) (run ops ReLU)
                               = Inr (ys ! i)))
                   \<and> (\<not> fusion \<and> 0 < i \<longrightarrow> ys ! i = x1 ! i)))"
    unfolding len using fuse_outputs [OF init nb] by blast
  from fl f(4) len entries fw
  show "\<exists>fl. hrm_fuse_layers m = Some fl
        \<and> length (hrm_num_inchannels m) = nb
        \<and> length fl = (if mso then nb else 1)
        \<and> (\<forall>i < length fl. \<forall>j < nb.
              (\<forall>l. fl ! i ! j = Some l \<longrightarrow>
                 (i < j \<and> l = up_layer (?c ! j) (?c ! i) (2 ^ (j - i)))
               \<or> (j < i \<and> l = down_layer (?c ! j) (?c ! i) (i - j)))
            \<and> (fusion \<or> i = 0 \<longrightarrow> (fl ! i ! j = None) = (j = i)))
        \<and> (\<forall>ops xs ys. HighResolutionModule_forward ops m xs = Inr ys \<longrightarrow>
             (\<exists>x1. run_branches ops m xs = Inr x1 \<and> nb \<le> length x1
                \<and> length ys = length fl
                \<and> (\<forall>i < length ys.
                     (fusion \<or> i = 0 \<longrightarrow>
                        (\<exists>ts. length ts = nb
                           \<and> (\<forall>j < nb.
                                 (j = i \<longrightarrow> ts ! j = x1 ! j)
                               \<and> (i < j \<longrightarrow>
                                    run ops (up_layer (?c ! j) (?c ! i) (2 ^ (j - i))) (x1 ! j)
                                      = Inr (ts ! j))
                               \<and> (j < i \<longrightarrow>
                                    run ops (down_layer (?c ! j) (?c ! i) (i - j)) (x1 ! j)
                                      = Inr (ts ! j)))
                           \<and> bindE (foldE (\<lambda>t y. add ops y t) (tl ts) (hd ts)) (run ops ReLU)
                               = Inr (ys ! i)))
                   \<and> (\<not> fusion \<and> 0 < i \<longrightarrow> ys ! i = x1 ! i))))"
    by (intro exI [of _ ?fl] conjI)
next
  fix cj ci f
  show "up_layer cj ci f = Sequential [Conv2d cj ci 1 1 0, BatchNorm2d ci, Upsample f]"
    by (simp add: up_layer_def)
next
  fix cj ci d
  show "\<exists>ls. down_layer cj ci d = Sequential ls \<and> length ls = d
          \<and> (\<forall>l \<in> set ls. \<exists>cin cout rest. l = Sequential (Conv2d cin cout 3 2 1 # rest))"
    by (rule down_layer_convs)
next
  fix cj ci f n h w :: nat
  assume "0 < h \<and> 0 < w"
  then show "run shape_ops (up_layer cj ci f) [n, cj, h, w] = Inr [n, ci, h * f, w * f]"
    by (simp add: run_up_layer)
next
  fix cj ci d n h w :: nat
  assume "0 < d \<and> 0 < h \<and> 0 < w"
  then show "run shape_ops (down_layer cj ci d) [n, cj, h, w]
            = Inr [n, ci, ceil_div h (2 ^ d), ceil_div w (2 ^ d)]"
    by (simp add: run_down_layer)
qed


lemma ex_module_forward:
  "bindE (HighResolutionModule_init 3 BASIC [1, 1, 1] [48, 96, 192] [48, 96, 192] ''SUM'' True True)
     (\<lambda>m. HighResolutionModule_forward shape_ops m [[2, 48, 8, 8], [2, 96, 4, 4], [2, 192, 2, 2]])
   = Inr [[2, 48, 8, 8], [2, 96, 4, 4], [2, 192, 2, 2]]"
  by code_simp

lemma ex_module_channels:
  "bindE (HighResolutionModule_init 3 BASIC [1, 1, 1] [48, 96, 192] [48, 96, 192] ''SUM'' True True)
     (\<lambda>m. Inr (hrm_num_inchannels m)) = Inr [48, 96, 192]"
  by code_simp

theorem fuse_layers_forward_witness:
  "\<exists>m fl x1 ts.
     HighResolutionModule_init 3 BASIC [1, 1, 1] [48, 96, 192] [48, 96, 192] ''SUM'' True True = Inr m
   \<and> hrm_fuse_layers m = Some fl
   \<and> fl ! 1 ! 0 = Some (down_layer 48 96 1) \<and> fl ! 1 ! 1 = None
   \<and> fl ! 1 ! 2 = Some (up_layer 192 96 2)
   \<and> HighResolutionModule_forward shape_ops m [[2, 48, 8, 8], [2, 96, 4, 4], [2, 192, 2, 2]]
       = Inr [[2, 48, 8, 8], [2, 96, 4, 4], [2, 192, 2, 2]]
   \<and> run_branches shape_ops m [[2, 48, 8, 8], [2, 96, 4, 4], [2, 192, 2, 2]] = Inr x1
   \<and> length ts = 3
   \<and> run shape_ops (down_layer 48 96 1) (x1 ! 0) = Inr (ts ! 0)
   \<and> ts ! 1 = x1 ! 1
   \<and> run shape_ops (up_layer 192 96 2) (x1 ! 2) = Inr (ts ! 2)
   \<and> bindE (foldE (\<lambda>t y. add shape_ops y t) (tl ts) (hd ts)) (run shape_ops ReLU)
       = Inr [2, 96, 4, 4]
   \<and> run shape_ops (up_layer 192 48 4) [2, 192, 16, 12] = Inr [2, 48, 64, 48]
   \<and> run shape_ops (down_layer 48 192 2) [2, 48, 64, 48] = Inr [2, 192, 16, 12]"
proof -
  let ?xs = "[[2, 48, 8, 8], [2, 96, 4, 4], [2, 192, 2, 2]] :: nat list list"
  obtain m where
    init: "HighResolutionModule_init 3 BASIC [1, 1, 1] [48, 96, 192] [48, 96, 192] ''SUM'' True True
             = Inr m"
    using HighResolutionModule_init_returns [of 3 "[1, 1, 1]" "[48, 96, 192]" "[48, 96, 192]"
        BASIC "''SUM''" True True]
    by (cases "HighResolutionModule_init 3 BASIC [1, 1, 1] [48, 96, 192] [48, 96, 192] ''SUM''
          True True") simp_all
  have fw: "HighResolutionModule_forward shape_ops m ?xs = Inr ?xs"
    using ex_module_forward init by simp
  have c: "hrm_num_inchannels m = [48, 96, 192]"
    using ex_module_channels init by simp
  note t = fuse_layers_forward [of 3 BASIC "[1, 1, 1]" "[48, 96, 192]" "[48, 96, 192]"
      "''SUM''" True True m]
  from t [THEN conjunct1] init obtain fl where fl: "hrm_fuse_layers m = Some fl" and len: "length fl = 3"
    and entries: "\<forall>i < length fl. \<forall>j < 3.
              (\<forall>l. fl ! i ! j = Some l \<longrightarrow>
                 (i < j \<and> l = up_layer (hrm_num_inchannels m ! j) (hrm_num_inchannels m ! i)
                                 (2 ^ (j - i)))
               \<or> (j < i \<and> l = down_layer (hrm_num_inchannels m ! j) (hrm_num_inchannels m ! i)
                                 (i - j)))
            \<and> (True \<or> i = 0 \<longrightarrow> (fl ! i ! j = None) = (j = i))"
    and forw: "\<forall>(ops :: nat list tensor_ops) xs ys. HighResolutionModule_forward ops m xs = Inr ys \<longrightarrow>
             (\<exists>x1. run_branches ops m xs = Inr x1 \<and> 3 \<le> length x1
                \<and> length ys = length fl
                \<and> (\<forall>i < length ys.
                     (True \<or> i = 0 \<longrightarrow>
                        (\<exists>ts. length ts = 3
                           \<and> (\<forall>j < 3.
                                 (j = i \<longrightarrow> ts ! j = x1 ! j)
                               \<and> (i < j \<longrightarrow>
                                    run ops (up_layer (hrm_num_inchannels m ! j)
                                               (hrm_num_inchannels m ! i) (2 ^ (j - i))) (x1 ! j)
                                      = Inr (ts ! j))
                               \<and> (j < i \<longrightarrow>
                                    run ops (down_layer (hrm_num_inchannels m ! j)
                                               (hrm_num_inchannels m ! i) (i - j)) (x1 ! j)
                                      = Inr (ts ! j)))
                           \<and> bindE (foldE (\<lambda>t y. add ops y t) (tl ts) (hd ts)) (run ops ReLU)
                               = Inr (ys ! i)))
                   \<and> (\<not> True \<and> 0 < i \<longrightarrow> ys ! i = x1 ! i)))"
    by auto
  from entries [rule_format, of 1 0] len c obtain l10 where
    "fl ! 1 ! 0 = Some l10" by (cases "fl ! 1 ! 0") auto
  with entries [rule_format, of 1 0] len c have e10: "fl ! 1 ! 0 = Some (down_layer 48 96 1)"
    by auto
  from entries [rule_format, of 1 1] len have e11: "fl ! 1 ! 1 = None"
    by simp
  from entries [rule_format, of 1 2] len c obtain l12 where
    "fl ! 1 ! 2 = Some l12" by (cases "fl ! 1 ! 2") auto
  with entries [rule_format, of 1 2] len c have e12: "fl ! 1 ! 2 = Some (up_layer 192 96 2)"
    by auto
  from forw [rule_format, OF fw] obtain x1 where x1: "run_branches shape_ops m ?xs = Inr x1"
    and outs: "\<forall>i < length ?xs.
                     (True \<or> i = 0 \<longrightarrow>
                        (\<exists>ts. length ts = 3
                           \<and> (\<forall>j < 3.
                                 (j = i \<longrightarrow> ts ! j = x1 ! j)
                               \<and> (i < j \<longrightarrow>
                                    run shape_ops (up_layer (hrm_num_inchannels m ! j)
                                               (hrm_num_inchannels m ! i) (2 ^ (j - i))) (x1 ! j)
                                      = Inr (ts ! j))
                               \<and> (j < i \<longrightarrow>
                                    run shape_ops (down_layer (hrm_num_inchannels m ! j)
                                               (hrm_num_inchannels m ! i) (i - j)) (x1 ! j)
                                      = Inr (ts ! j)))
                           \<and> bindE (foldE (\<lambda>t y. add shape_ops y t) (tl ts) (hd ts))
                                (run shape_ops ReLU)
                               = Inr (?xs ! i)))
                   \<and> (\<not> True \<and> 0 < i \<longrightarrow> ?xs ! i = x1 ! i)"
    by blast
  from outs [rule_format, of 1] obtain ts where ts: "length ts = 3"
    and terms: "\<forall>j < 3.
                  (j = 1 \<longrightarrow> ts ! j = x1 ! j)
                \<and> (1 < j \<longrightarrow>
                     run shape_ops (up_layer (hrm_num_inchannels m ! j)
                                (hrm_num_inchannels m ! 1) (2 ^ (j - 1))) (x1 ! j)
                       = Inr (ts ! j))
                \<and> (j < 1 \<longrightarrow>
                     run shape_ops (down_layer (hrm_num_inchannels m ! j)
                                (hrm_num_inchannels m ! 1) (1 - j)) (x1 ! j)
                       = Inr (ts ! j))"
    and sum: "bindE (foldE (\<lambda>t y. add shape_ops y t) (tl ts) (hd ts)) (run shape_ops ReLU)
                = Inr [2, 96, 4, 4]"
    by auto
  from terms [rule_format, of 0] c
  have t0: "run shape_ops (down_layer 48 96 1) (x1 ! 0) = Inr (ts ! 0)" by simp
  from terms [rule_format, of 1] have t1: "ts ! 1 = x1 ! 1" by simp
  from terms [rule_format, of 2] c
  have t2: "run shape_ops (up_layer 192 96 2) (x1 ! 2) = Inr (ts ! 2)" by simp
  note ups = t [THEN conjunct2, THEN conjunct2, THEN conjunct2, THEN conjunct1, rule_format]
  note downs = t [THEN conjunct2, THEN conjunct2, THEN conjunct2, THEN conjunct2, rule_format]
  have up: "run shape_ops (up_layer 192 48 4) [2, 192, 16, 12] = Inr [2, 48, 64, 48]"
    using ups [of 16 12 192 48 4 2] by simp
  have down: "run shape_ops (down_layer 48 192 2) [2, 48, 64, 48] = Inr [2, 192, 16, 12]"
    using downs [of 2 64 48 48 192 2] by (simp add: ceil_div_def)
  from init fl e10 e11 e12 fw x1 ts t0 t1 t2 sum up down show ?thesis
    by blast
qed


section \<open>The positional embedding\<close>

lemma broadcast_keep_row:
  "broadcast [Suc 0, h, w] [Suc 0, min h (Suc 0), w] = Inr [Suc 0, h, w]"
  "broadcast [Suc 0, h, w] [Suc 0, h, min w (Suc 0)] = Inr [Suc 0, h, w]"
  by (auto simp: broadcast_def min_def)

lemma broadcast_feats: "broadcast [Suc 0, h, w, Suc 0] [f] = Inr [Suc 0, h, w, f]"
  by (auto simp: broadcast_def)

lemma stack_slices:
  "stack_shape [slice_step2 0 [Suc 0, h, w, f], slice_step2 (Suc 0) [Suc 0, h, w, f]] 4
     = (if even f then Inr [Suc 0, h, w, f div 2, 2] else Inl RuntimeError)"
  by (auto simp: stack_shape_def slice_step2_def elim: oddE)

lemma flatten_stacked: "flatten_shape 3 [Suc 0, h, w, g, 2] = Inr [Suc 0, h, w, g * 2]"
  by (simp add: flatten_shape_def)

lemma sine_tail:
  "bindE (cat_shape [[Suc 0, h, w, f], [Suc 0, h, w, f]] 3) (\<lambda>pos.
   bindE (permute_shape [0, 3, Suc 0, 2] pos) (\<lambda>pos.
   bindE (flatten_shape 2 pos) (\<lambda>pos.
   permute_shape [2, 0, Suc 0] pos))) = Inr [h * w, Suc 0, 2 * f]"
  by (simp add: cat_shape_def permute_shape_def flatten_shape_def)

lemma make_sine_position_embedding_shape:
  "make_sine_position_embedding h w d =
     (if even (d div 2) then Inr [h * w, 1, 2 * (d div 2)] else Inl RuntimeError)"
proof (cases "even (d div 2)")
  case True
  then have f: "d div 2 div 2 * 2 = d div 2" by simp
  show ?thesis
    using True
    by (simp add: make_sine_position_embedding_def Let_def broadcast_keep_row broadcast_feats
        stack_slices flatten_stacked f sine_tail)
next
  case False
  then show ?thesis
    by (simp add: make_sine_position_embedding_def Let_def broadcast_keep_row broadcast_feats
        stack_slices)
qed

section \<open>The encoder\<close>

lemma run_cong_ops:
  "prim ops' = prim ops \<Longrightarrow> iadd ops' = iadd ops \<Longrightarrow> run ops' l x = run ops l x"
  "prim ops' = prim ops \<Longrightarrow> iadd ops' = iadd ops \<Longrightarrow> run_seq ops' ls x = run_seq ops ls x"
proof (induction ops l x and ops ls x rule: run_run_seq.induct)
  case (2 ops conv1 bn1 relu conv2 bn2 downsample stride x)
  then show ?case
    by (cases downsample) (auto simp: bindE_def split: sum.splits)
next
  case (3 ops conv1 bn1 conv2 bn2 conv3 bn3 relu downsample stride x)
  then show ?case
    by (cases downsample) (auto simp: bindE_def split: sum.splits)
qed (auto simp: bindE_def split: sum.splits)


lemma pos_in_attention_fields [simp]:
  "prim (pos_in_attention ops p) = prim ops"
  "add (pos_in_attention ops p) = add ops"
  "iadd (pos_in_attention ops p) = iadd ops"
  "act (pos_in_attention ops p) = act ops"
  "stack (pos_in_attention ops p) = stack ops"
  "mha (pos_in_attention ops p)
     = (\<lambda>d_model nhead q k v. bindE (add ops v p) (\<lambda>qk. mha ops d_model nhead qk qk v))"
  by (simp_all add: pos_in_attention_def)

lemma run_pos_in_attention [simp]: "run (pos_in_attention ops p) l x = run ops l x"
  by (rule run_cong_ops) simp_all

lemma feed_forward_pos_in_attention [simp]:
  "feed_forward (pos_in_attention ops p) l src = feed_forward ops l src"
  by (simp add: feed_forward_def)

lemma bindE_assoc: "bindE (bindE r f) g = bindE r (\<lambda>x. bindE (f x) g)"
  by (cases r) simp_all

lemma forward_post_pos:
  "forward_post ops l src (Some p) = forward_post (pos_in_attention ops p) l src None"
  by (simp add: forward_post_def with_pos_embed_def Let_def bindE_assoc)

lemma layer_forward_pos:
  "\<not> tel_normalize_before l \<Longrightarrow>
   TransformerEncoderLayer_forward ops l src (Some p)
     = TransformerEncoderLayer_forward (pos_in_attention ops p) l src None"
  by (simp add: TransformerEncoderLayer_forward_def forward_post_pos)

lemma encoder_loop_pos:
  assumes "\<not> te_pe_only_at_begin enc" "\<forall>l \<in> set ls. \<not> tel_normalize_before l"
  shows "drop_pos (foldE (encoder_step ops enc) ls (out, maps, Some p))
       = drop_pos (foldE (encoder_step (pos_in_attention ops p) enc) ls (out, maps, None))"
  using assms(2)
proof (induction ls arbitrary: out maps)
  case Nil
  then show ?case by (simp add: drop_pos_def)
next
  case (Cons l ls)
  then have l: "\<not> tel_normalize_before l" and ls: "\<forall>l \<in> set ls. \<not> tel_normalize_before l"
    by simp_all
  show ?case
  proof (cases "TransformerEncoderLayer_forward (pos_in_attention ops p) l out None")
    case (Inl e)
    then show ?thesis
      using l by (simp add: encoder_step_def layer_forward_pos drop_pos_def)
  next
    case (Inr r)
    obtain o' att where r: "r = (o', att)" by (cases r)
    show ?thesis
    proof (cases "te_return_atten_map enc")
      case True
      then show ?thesis
        using l Inr r assms(1) Cons.IH [OF ls]
        by (cases att) (simp_all add: encoder_step_def layer_forward_pos drop_pos_def)
    next
      case False
      then show ?thesis
        using l Inr r assms(1) Cons.IH [OF ls]
        by (cases att) (simp_all add: encoder_step_def layer_forward_pos drop_pos_def)
    qed
  qed
qed

lemma encoder_forward_drop_pos:
  "TransformerEncoder_forward ops enc src pos =
     bindE (drop_pos (foldE (encoder_step ops enc) (te_layers enc) (src, [], pos)))
       (\<lambda>(output, atten_maps_list).
     bindE (case te_norm enc of None \<Rightarrow> Inr output | Some norm_layer \<Rightarrow> run ops norm_layer output)
       (\<lambda>output.
       if te_return_atten_map enc
       then bindE (stack ops atten_maps_list) (\<lambda>maps. Inr (output, Some maps))
       else Inr (output, None)))"
  by (cases "foldE (encoder_step ops enc) (te_layers enc) (src, [], pos)")
     (auto simp: TransformerEncoder_forward_def drop_pos_def)

lemma encoder_forward_pos:
  assumes "\<not> te_pe_only_at_begin enc" "\<forall>l \<in> set (te_layers enc). \<not> tel_normalize_before l"
  shows "TransformerEncoder_forward ops enc src (Some p)
       = TransformerEncoder_forward (pos_in_attention ops p) enc src None"
  unfolding encoder_forward_drop_pos encoder_loop_pos [OF assms]
  by (simp cong: option.case_cong if_cong)

lemma init_encoders:
  assumes "TransActionH_init ops cfg = Inr m"
  shows "\<not> te_pe_only_at_begin (global_encoder m)"
    "\<forall>l \<in> set (te_layers (global_encoder m)). \<not> tel_normalize_before l"
    "\<not> te_pe_only_at_begin (global_encoder_action m)"
    "\<forall>l \<in> set (te_layers (global_encoder_action m)). \<not> tel_normalize_before l"
  using assms
  by (auto simp: TransActionH_init_def Let_def bindE_eq_Inr TransformerEncoder_init_def
        TransformerEncoderLayer_init_def get_clones_def split: prod.splits)

lemma make_position_embedding_learnable:
  "make_position_embedding shape_ops w h d ''learnable''
     = Inr (Some [(h div 4) * (w div 4), 1, d], Some (h div 4), Some (w div 4))"
  by (simp add: make_position_embedding_def Let_def)

lemma make_position_embedding_sine:
  "make_position_embedding shape_ops w h d ''sine''
     = (if even (d div 2)
        then Inr (Some [(h div 4) * (w div 4), 1, 2 * (d div 2)], Some (h div 4), Some (w div 4))
        else Inl RuntimeError)"
  by (simp add: make_position_embedding_def Let_def make_sine_position_embedding_shape)

lemma ex_cfg_init: "returns (TransActionH_init shape_ops ex_cfg)"
  by code_simp

text \<open>
  Claim C5.  The source ends \<^verbatim>\<open>_make_sine_position_embedding\<close> with
  \<^verbatim>\<open>return pos  # [h*w, 1, d_model]\<close>, and the claim gives the shape
  \<open>[sequence_length, 1, model_dim]\<close> to the sine embedding.  The method builds
  \<open>d_model // 2\<close> features per direction and interleaves the sines of the even ones
  with the cosines of the odd ones.  For an image of 8 x 8 pixels (a sequence of length
  \<open>2 * 2\<close>) and \<open>d_model = 5\<close> the embedding it returns has shape \<open>[4, 1, 4]\<close>, not
  \<open>[4, 1, 5]\<close>; for \<open>d_model = 6\<close> there are three features per direction, two sines
  and one cosine, and \<^verbatim>\<open>torch.stack\<close> raises.  The constructor stores what the method
  returns: the model built from the example configuration with \<open>DIM_MODEL = 5\<close> holds
  an embedding of shape \<open>[16, 1, 4]\<close>.
\<close>

theorem positional_embedding_failing_input:
  "make_position_embedding shape_ops 8 8 5 ''sine'' = Inr (Some [4, 1, 4], Some 2, Some 2)
   \<and> [4, 1, 4] \<noteq> [(8 div 4) * (8 div 4), 1, 5 :: nat]
   \<and> make_position_embedding shape_ops 8 8 6 ''sine'' = Inl RuntimeError
   \<and> (\<exists>m. TransActionH_init shape_ops (ex_cfg\<lparr>DIM_MODEL := 5\<rparr>) = Inr m
          \<and> pos_embedding m = Some [16, 1, 4])"
proof -
  have 1: "make_position_embedding shape_ops 8 8 5 ''sine'' = Inr (Some [4, 1, 4], Some 2, Some 2)"
    by (simp add: make_position_embedding_sine)
  have 2: "make_position_embedding shape_ops 8 8 6 ''sine'' = Inl RuntimeError"
    by (simp add: make_position_embedding_sine)
  have 3: "bindE (TransActionH_init shape_ops (ex_cfg\<lparr>DIM_MODEL := 5\<rparr>))
             (\<lambda>m. Inr (pos_embedding m)) = Inr (Some [16, 1, 4])"
    by code_simp
  then have "\<exists>m. TransActionH_init shape_ops (ex_cfg\<lparr>DIM_MODEL := 5\<rparr>) = Inr m
          \<and> pos_embedding m = Some [16, 1, 4]"
    by (simp add: bindE_eq_Inr)
  with 1 2 show ?thesis by simp
qed

text \<open>
  When \<open>d_model\<close> is a multiple of 4 the sine embedding has the shape of the comment,
  and the learnable embedding has it for every \<open>d_model\<close>.
\<close>

lemma make_position_embedding_shape:
  "make_position_embedding shape_ops w h d ''learnable''
     = Inr (Some [(h div 4) * (w div 4), 1, d], Some (h div 4), Some (w div 4))"
  "4 dvd d \<Longrightarrow>
     make_position_embedding shape_ops w h d ''sine''
       = Inr (Some [(h div 4) * (w div 4), 1, d], Some (h div 4), Some (w div 4))"
proof -
  show "make_position_embedding shape_ops w h d ''learnable''
     = Inr (Some [(h div 4) * (w div 4), 1, d], Some (h div 4), Some (w div 4))"
    by (rule make_position_embedding_learnable)
  assume "4 dvd d"
  then obtain k where k: "d = 4 * k" by (auto elim: dvdE)
  show "make_position_embedding shape_ops w h d ''sine''
          = Inr (Some [(h div 4) * (w div 4), 1, d], Some (h div 4), Some (w div 4))"
    by (simp add: make_position_embedding_sine k)
qed
section \<open>What TransActionH.forward returns\<close>

text \<open>
  The function \<open>get_pose_vectors\<close> after \<open>get_max_preds\<close> is the field \<open>skeleton\<close> of the
  tensor library: replacing it leaves every other step of \<open>forward\<close> as it was.
\<close>

lemma run_skeleton [simp]: "run (ops\<lparr>skeleton := s\<rparr>) l x = run ops l x"
  by (rule run_cong_ops) simp_all

lemma call_skeleton [simp]: "call (ops\<lparr>skeleton := s\<rparr>) l x = call ops l x"
  by (simp add: call_def split: option.splits)

lemma fuse_sum_skeleton [simp]:
  "fuse_sum (ops\<lparr>skeleton := s\<rparr>) self fl x i = fuse_sum ops self fl x i"
  by (simp add: fuse_sum_def cong: if_cong option.case_cong)

lemma run_branches_skeleton [simp]:
  "run_branches (ops\<lparr>skeleton := s\<rparr>) self x = run_branches ops self x"
  by (simp add: run_branches_def)

lemma HighResolutionModule_forward_skeleton [simp]:
  "HighResolutionModule_forward (ops\<lparr>skeleton := s\<rparr>) self x = HighResolutionModule_forward ops self x"
  by (simp add: HighResolutionModule_forward_def cong: if_cong option.case_cong)

lemma run_stage_skeleton [simp]:
  "run_stage (ops\<lparr>skeleton := s\<rparr>) ms x = run_stage ops ms x"
  by (simp add: run_stage_def cong: if_cong option.case_cong)

lemma forward_backbone_skeleton [simp]:
  "forward_backbone (ops\<lparr>skeleton := s\<rparr>) m x = forward_backbone ops m x"
  by (simp add: forward_backbone_def cong: if_cong option.case_cong)

lemma feed_forward_skeleton [simp]:
  "feed_forward (ops\<lparr>skeleton := s\<rparr>) l src = feed_forward ops l src"
  by (simp add: feed_forward_def cong: if_cong option.case_cong)

lemma layer_forward_skeleton [simp]:
  "TransformerEncoderLayer_forward (ops\<lparr>skeleton := s\<rparr>) l src pos
     = TransformerEncoderLayer_forward ops l src pos"
  by (simp add: TransformerEncoderLayer_forward_def forward_post_def forward_pre_def
        with_pos_embed_def cong: if_cong option.case_cong)

lemma encoder_step_skeleton [simp]:
  "encoder_step (ops\<lparr>skeleton := s\<rparr>) enc l st = encoder_step ops enc l st"
  by (simp add: encoder_step_def cong: if_cong option.case_cong)

lemma encoder_forward_skeleton [simp]:
  "TransformerEncoder_forward (ops\<lparr>skeleton := s\<rparr>) enc src pos
     = TransformerEncoder_forward ops enc src pos"
proof -
  have "encoder_step (ops\<lparr>skeleton := s\<rparr>) enc = encoder_step ops enc"
    by (intro ext) simp
  then show ?thesis
    by (simp add: TransformerEncoder_forward_def cong: if_cong option.case_cong)
qed

lemma forward_tokens_skeleton [simp]:
  "forward_tokens (ops\<lparr>skeleton := s\<rparr>) m y_list = forward_tokens ops m y_list"
  by (simp add: forward_tokens_def cong: if_cong option.case_cong)

lemma forward_pose_skeleton [simp]:
  "forward_pose (ops\<lparr>skeleton := s\<rparr>) m x dims = forward_pose ops m x dims"
  by (simp add: forward_pose_def cong: if_cong option.case_cong)

lemma forward_concat_skeleton [simp]:
  "forward_concat (ops\<lparr>skeleton := s\<rparr>) m y_list = forward_concat ops m y_list"
  by (simp add: forward_concat_def cong: if_cong option.case_cong)

lemma forward_Inr:
  "(forward ops m x = Inr (y, c)) =
     (\<exists>y_list xf dims sk r q.
        forward_backbone ops m x = Inr y_list
      \<and> forward_tokens ops m y_list = Inr (xf, dims)
      \<and> forward_pose ops m xf dims = Inr y
      \<and> skeleton ops y = Inr sk
      \<and> forward_action ops m xf dims = Inr r
      \<and> forward_concat ops m y_list = Inr c
      \<and> run ops (action_skeleton_branch m) sk = Inr q)"
  by (auto simp: forward_def bindE_eq_Inr)

lemma forward_a [simp]:
  "forward ops (m\<lparr>a1 := b1\<rparr>) x = forward ops m x"
  "forward ops (m\<lparr>a2 := b2\<rparr>) x = forward ops m x"
  "forward ops (m\<lparr>a3 := b3\<rparr>) x = forward ops m x"
  by (simp_all add: forward_def forward_backbone_def forward_tokens_def forward_pose_def
        forward_action_def forward_concat_def)

lemma forward_parts_action_fields:
  "forward_backbone ops (m\<lparr>global_encoder_action := enc, action_encoder_branch_part1 := l1,
          action_encoder_branch_part2 := l2, action_skeleton_branch := l3\<rparr>) x
     = forward_backbone ops m x"
  "forward_tokens ops (m\<lparr>global_encoder_action := enc, action_encoder_branch_part1 := l1,
          action_encoder_branch_part2 := l2, action_skeleton_branch := l3\<rparr>) y_list
     = forward_tokens ops m y_list"
  "forward_pose ops (m\<lparr>global_encoder_action := enc, action_encoder_branch_part1 := l1,
          action_encoder_branch_part2 := l2, action_skeleton_branch := l3\<rparr>) xf dims
     = forward_pose ops m xf dims"
  "forward_concat ops (m\<lparr>global_encoder_action := enc, action_encoder_branch_part1 := l1,
          action_encoder_branch_part2 := l2, action_skeleton_branch := l3\<rparr>) y_list
     = forward_concat ops m y_list"
  by (simp_all add: forward_backbone_def forward_tokens_def forward_pose_def
        forward_concat_def)


text \<open>The run of \<open>forward\<close> on the small configuration, in the model of shapes.\<close>

lemma ex_cfg_forward:
  "bindE (TransActionH_init shape_ops ex_cfg) (\<lambda>m. forward shape_ops m [2, 3, 16, 16])
     = Inr ([2, 17, 4, 4], [2, 40])"
  by code_simp

lemma ex_cfg_forward_changed:
  "bindE (TransActionH_init shape_ops ex_cfg) (\<lambda>m.
      forward (shape_ops\<lparr>skeleton := \<lambda>y. Inr [2, 7]\<rparr>)
        (m\<lparr>global_encoder_action := global_encoder m,
           action_encoder_branch_part1 := Sequential [],
           action_encoder_branch_part2 := Sequential [],
           action_skeleton_branch := Sequential []\<rparr>) [2, 3, 16, 16])
     = Inr ([2, 17, 4, 4], [2, 40])"
  by code_simp

text \<open>
  Claim C7.  The pair returned by \<open>TransActionH.forward\<close> does not depend on the
  coefficients \<open>a1\<close>, \<open>a2\<close>, \<open>a3\<close>: changing them changes nothing of the call.  It does
  not depend on the transformer action branch (the encoder \<open>global_encoder_action\<close> and
  the two parts of its head) nor on the skeleton branch (the skeleton vectors and the
  layer \<open>action_skeleton_branch\<close>) either: whenever the call returns with these replaced,
  it returns the same pair.  The second component returned is the output of the concat
  branch, computed from the feature maps of the backbone alone.
\<close>

theorem forward_action_output:
  "(\<forall>b1 b2 b3. forward ops (m\<lparr>a1 := b1, a2 := b2, a3 := b3\<rparr>) x = forward ops m x)
   \<and> (\<forall>enc l1 l2 l3 s v v'.
         forward ops m x = Inr v
         \<and> forward (ops\<lparr>skeleton := s\<rparr>)
             (m\<lparr>global_encoder_action := enc, action_encoder_branch_part1 := l1,
                action_encoder_branch_part2 := l2, action_skeleton_branch := l3\<rparr>) x = Inr v'
         \<longrightarrow> v' = v)
   \<and> (\<forall>y c. forward ops m x = Inr (y, c) \<longrightarrow>
         (\<exists>y_list. forward_backbone ops m x = Inr y_list
            \<and> forward_concat ops m y_list = Inr c))"
proof (intro conjI allI impI)
  fix b1 b2 b3
  show "forward ops (m\<lparr>a1 := b1, a2 := b2, a3 := b3\<rparr>) x = forward ops m x"
    by simp
next
  fix enc l1 l2 l3 s v v'
  assume h: "forward ops m x = Inr v
         \<and> forward (ops\<lparr>skeleton := s\<rparr>)
             (m\<lparr>global_encoder_action := enc, action_encoder_branch_part1 := l1,
                action_encoder_branch_part2 := l2, action_skeleton_branch := l3\<rparr>) x = Inr v'"
  obtain y c where v: "v = (y, c)" by (cases v)
  obtain y' c' where v': "v' = (y', c')" by (cases v')
  from h show "v' = v"
    unfolding v v' forward_Inr
    by (auto simp: forward_parts_action_fields)
next
  fix y c
  assume "forward ops m x = Inr (y, c)"
  then show "\<exists>y_list. forward_backbone ops m x = Inr y_list
            \<and> forward_concat ops m y_list = Inr c"
    unfolding forward_Inr by blast
qed

theorem forward_action_output_witness:
  "\<exists>m. TransActionH_init shape_ops ex_cfg = Inr m
     \<and> forward shape_ops m [2, 3, 16, 16] = Inr ([2, 17, 4, 4], [2, 40])
     \<and> forward (shape_ops\<lparr>skeleton := \<lambda>y. Inr [2, 7]\<rparr>)
          (m\<lparr>global_encoder_action := global_encoder m,
             action_encoder_branch_part1 := Sequential [],
             action_encoder_branch_part2 := Sequential [],
             action_skeleton_branch := Sequential []\<rparr>) [2, 3, 16, 16]
         = Inr ([2, 17, 4, 4], [2, 40])
     \<and> (\<exists>y_list. forward_backbone shape_ops m [2, 3, 16, 16] = Inr y_list
            \<and> forward_concat shape_ops m y_list = Inr [2, 40])"
proof -
  obtain m where m: "TransActionH_init shape_ops ex_cfg = Inr m"
    using ex_cfg_init by (cases "TransActionH_init shape_ops ex_cfg") simp_all
  let ?m' = "m\<lparr>global_encoder_action := global_encoder m,
             action_encoder_branch_part1 := Sequential [],
             action_encoder_branch_part2 := Sequential [],
             action_skeleton_branch := Sequential []\<rparr>"
  let ?ops' = "shape_ops\<lparr>skeleton := \<lambda>y. Inr [2, 7]\<rparr>"
  have f: "forward shape_ops m [2, 3, 16, 16] = Inr ([2, 17, 4, 4], [2, 40])"
    using ex_cfg_forward m by simp
  obtain v' where f': "forward ?ops' ?m' [2, 3, 16, 16] = Inr v'"
    using ex_cfg_forward_changed m by simp
  note t = forward_action_output [of shape_ops m "[2, 3, 16, 16]"]
  from t f f' have "v' = ([2, 17, 4, 4], [2, 40])"
    by blast
  with f' have g: "forward ?ops' ?m' [2, 3, 16, 16] = Inr ([2, 17, 4, 4], [2, 40])"
    by simp
  from t f have "\<exists>y_list. forward_backbone shape_ops m [2, 3, 16, 16] = Inr y_list
            \<and> forward_concat shape_ops m y_list = Inr [2, 40]"
    by blast
  with m f g show ?thesis by blast
qed

text \<open>
  Claim C8.  When \<open>TransActionH.forward\<close> returns, the feature map of the first (highest
  resolution) branch of the backbone went through the layer \<open>reduce\<close>, was flattened and
  permuted into a sequence \<open>xf\<close>, and two encoders were applied to this same \<open>xf\<close> with
  the same positional embedding \<open>pos_embedding\<close>: \<open>global_encoder\<close>, whose output goes
  through \<open>final_layer\<close> and is the heatmap returned, and \<open>global_encoder_action\<close>, whose
  output goes through the two parts of the action head.  In a model built by
  \<open>__init__\<close>, \<open>reduce\<close> is a convolution of kernel 1 (a linear map of the channels of
  each pixel), the two encoders are two stacks built from two encoder layers, the
  heatmap head is a convolution to \<open>NUM_JOINTS\<close> channels and the action head ends in a
  linear layer to \<open>NUM_CLASSES\<close> classes.
\<close>

theorem forward_two_encoders:
  "(forward ops m x = Inr (y, c) \<longrightarrow>
     (\<exists>y_list y0 xr bs ch h w xfl xf e_pose e_action r.
         forward_backbone ops m x = Inr y_list
       \<and> getitem y_list 0 = Inr y0
       \<and> run ops (reduce m) y0 = Inr xr
       \<and> unpack4 (shape ops xr) = Inr (bs, ch, h, w)
       \<and> flatten ops 2 xr = Inr xfl
       \<and> permute ops [2, 0, 1] xfl = Inr xf
       \<and> encoder_output (TransformerEncoder_forward ops (global_encoder m) xf (pos_embedding m))
           = Inr e_pose
       \<and> bindE (permute ops [1, 2, 0] e_pose) (\<lambda>t.
           bindE (view ops [bs, ch, h, w] t) (\<lambda>t.
             run ops (final_layer m) t)) = Inr y
       \<and> encoder_output (TransformerEncoder_forward ops (global_encoder_action m) xf
            (pos_embedding m)) = Inr e_action
       \<and> bindE (permute ops [1, 2, 0] e_action) (\<lambda>t.
           bindE (view ops [bs, ch, h, w] t) (\<lambda>t.
           bindE (run ops (action_encoder_branch_part1 m) t) (\<lambda>t.
           bindE (flatten ops 1 t) (\<lambda>t.
             run ops (action_encoder_branch_part2 m) t)))) = Inr r))
   \<and> (TransActionH_init ops cfg = Inr m \<longrightarrow>
        (\<exists>c0 l la p.
           reduce m = Conv2d c0 (DIM_MODEL cfg) 1 1 0
         \<and> TransformerEncoderLayer_init (DIM_MODEL cfg) (N_HEAD cfg) (DIM_FEEDFORWARD cfg)
              ''relu'' False False = Inr l
         \<and> global_encoder m = TransformerEncoder_init l (ENCODER_LAYERS cfg) None False False
         \<and> TransformerEncoderLayer_init (DIM_MODEL_ACTION cfg) (N_HEAD_ACTION cfg)
              (DIM_FEEDFORWARD_ACTION cfg) ''relu'' False False = Inr la
         \<and> global_encoder_action m
             = TransformerEncoder_init la (ENCODER_LAYERS_ACTION cfg) None False False
         \<and> final_layer m = Conv2d (DIM_MODEL cfg) (NUM_JOINTS cfg) (FINAL_CONV_KERNEL cfg) 1 p
         \<and> action_encoder_branch_part2 m
             = Sequential [Dropout, Linear (DIM_MODEL cfg * 2) (NUM_CLASSES cfg)]))"
proof (intro conjI impI)
  assume "forward ops m x = Inr (y, c)"
  then obtain y_list xf dims r where b: "forward_backbone ops m x = Inr y_list"
    and t: "forward_tokens ops m y_list = Inr (xf, dims)"
    and p: "forward_pose ops m xf dims = Inr y"
    and a: "forward_action ops m xf dims = Inr r"
    unfolding forward_Inr by blast
  obtain bs ch h w where dims: "dims = (bs, ch, h, w)"
    by (cases dims) auto
  from t obtain y0 xr xfl where y0: "getitem y_list 0 = Inr y0"
    and xr: "run ops (reduce m) y0 = Inr xr"
    and u: "unpack4 (shape ops xr) = Inr (bs, ch, h, w)"
    and xfl: "flatten ops 2 xr = Inr xfl"
    and xf: "permute ops [2, 0, 1] xfl = Inr xf"
    unfolding forward_tokens_def dims
    by (auto simp: bindE_eq_Inr)
  from p obtain e_pose where ep:
    "encoder_output (TransformerEncoder_forward ops (global_encoder m) xf (pos_embedding m))
       = Inr e_pose"
    and hp: "bindE (permute ops [1, 2, 0] e_pose) (\<lambda>t.
           bindE (view ops [bs, ch, h, w] t) (\<lambda>t.
             run ops (final_layer m) t)) = Inr y"
    unfolding forward_pose_def dims
    by (auto simp: bindE_eq_Inr)
  from a obtain e_action where ea:
    "encoder_output (TransformerEncoder_forward ops (global_encoder_action m) xf
        (pos_embedding m)) = Inr e_action"
    and ha: "bindE (permute ops [1, 2, 0] e_action) (\<lambda>t.
           bindE (view ops [bs, ch, h, w] t) (\<lambda>t.
           bindE (run ops (action_encoder_branch_part1 m) t) (\<lambda>t.
           bindE (flatten ops 1 t) (\<lambda>t.
             run ops (action_encoder_branch_part2 m) t)))) = Inr r"
    unfolding forward_action_def dims
    by (auto simp: bindE_eq_Inr)
  from b y0 xr u xfl xf ep hp ea ha
  show "\<exists>y_list y0 xr bs ch h w xfl xf e_pose e_action r.
         forward_backbone ops m x = Inr y_list
       \<and> getitem y_list 0 = Inr y0
       \<and> run ops (reduce m) y0 = Inr xr
       \<and> unpack4 (shape ops xr) = Inr (bs, ch, h, w)
       \<and> flatten ops 2 xr = Inr xfl
       \<and> permute ops [2, 0, 1] xfl = Inr xf
       \<and> encoder_output (TransformerEncoder_forward ops (global_encoder m) xf (pos_embedding m))
           = Inr e_pose
       \<and> bindE (permute ops [1, 2, 0] e_pose) (\<lambda>t.
           bindE (view ops [bs, ch, h, w] t) (\<lambda>t.
             run ops (final_layer m) t)) = Inr y
       \<and> encoder_output (TransformerEncoder_forward ops (global_encoder_action m) xf
            (pos_embedding m)) = Inr e_action
       \<and> bindE (permute ops [1, 2, 0] e_action) (\<lambda>t.
           bindE (view ops [bs, ch, h, w] t) (\<lambda>t.
           bindE (run ops (action_encoder_branch_part1 m) t) (\<lambda>t.
           bindE (flatten ops 1 t) (\<lambda>t.
             run ops (action_encoder_branch_part2 m) t)))) = Inr r"
    by (intro exI conjI)
next
  assume "TransActionH_init ops cfg = Inr m"
  then show "\<exists>c0 l la p.
           reduce m = Conv2d c0 (DIM_MODEL cfg) 1 1 0
         \<and> TransformerEncoderLayer_init (DIM_MODEL cfg) (N_HEAD cfg) (DIM_FEEDFORWARD cfg)
              ''relu'' False False = Inr l
         \<and> global_encoder m = TransformerEncoder_init l (ENCODER_LAYERS cfg) None False False
         \<and> TransformerEncoderLayer_init (DIM_MODEL_ACTION cfg) (N_HEAD_ACTION cfg)
              (DIM_FEEDFORWARD_ACTION cfg) ''relu'' False False = Inr la
         \<and> global_encoder_action m
             = TransformerEncoder_init la (ENCODER_LAYERS_ACTION cfg) None False False
         \<and> final_layer m = Conv2d (DIM_MODEL cfg) (NUM_JOINTS cfg) (FINAL_CONV_KERNEL cfg) 1 p
         \<and> action_encoder_branch_part2 m
             = Sequential [Dropout, Linear (DIM_MODEL cfg * 2) (NUM_CLASSES cfg)]"
    by (auto simp: TransActionH_init_def Let_def bindE_eq_Inr split: prod.splits)
qed

theorem forward_two_encoders_witness:
  "\<exists>m. TransActionH_init shape_ops ex_cfg = Inr m
     \<and> forward shape_ops m [2, 3, 16, 16] = Inr ([2, 17, 4, 4], [2, 40])
     \<and> (\<exists>y_list y0 xr xfl xf e_pose e_action.
           forward_backbone shape_ops m [2, 3, 16, 16] = Inr y_list
         \<and> getitem y_list 0 = Inr y0
         \<and> run shape_ops (reduce m) y0 = Inr xr
         \<and> flatten_shape 2 xr = Inr xfl
         \<and> permute_shape [2, 0, 1] xfl = Inr xf
         \<and> encoder_output (TransformerEncoder_forward shape_ops (global_encoder m) xf
              (pos_embedding m)) = Inr e_pose
         \<and> encoder_output (TransformerEncoder_forward shape_ops (global_encoder_action m) xf
              (pos_embedding m)) = Inr e_action)
     \<and> (\<exists>c0. reduce m = Conv2d c0 96 1 1 0)"
proof -
  obtain m where m: "TransActionH_init shape_ops ex_cfg = Inr m"
    using ex_cfg_init by (cases "TransActionH_init shape_ops ex_cfg") simp_all
  have f: "forward shape_ops m [2, 3, 16, 16] = Inr ([2, 17, 4, 4], [2, 40])"
    using ex_cfg_forward m by simp
  note t = forward_two_encoders [of shape_ops m "[2, 3, 16, 16]" "[2, 17, 4, 4]" "[2, 40]" ex_cfg]
  from t f have 1: "\<exists>y_list y0 xr xfl xf e_pose e_action.
           forward_backbone shape_ops m [2, 3, 16, 16] = Inr y_list
         \<and> getitem y_list 0 = Inr y0
         \<and> run shape_ops (reduce m) y0 = Inr xr
         \<and> flatten_shape 2 xr = Inr xfl
         \<and> permute_shape [2, 0, 1] xfl = Inr xf
         \<and> encoder_output (TransformerEncoder_forward shape_ops (global_encoder m) xf
              (pos_embedding m)) = Inr e_pose
         \<and> encoder_output (TransformerEncoder_forward shape_ops (global_encoder_action m) xf
              (pos_embedding m)) = Inr e_action"
    by simp blast
  from t m have 2: "\<exists>c0. reduce m = Conv2d c0 96 1 1 0"
    by (simp add: ex_cfg_def)
  from m f 1 2 show ?thesis by blast
qed

section \<open>The shape of the heatmaps\<close>

lemma keeps_sizeD:
  "keeps_size l \<Longrightarrow> run shape_ops l [b, c, h, w] = Inr y \<Longrightarrow> \<exists>c'. y = [b, c', h, w]"
  unfolding keeps_size_def by blast

lemma keeps_batchD:
  "keeps_batch l \<Longrightarrow> run shape_ops l [b, c, h, w] = Inr y \<Longrightarrow> \<exists>c' h' w'. y = [b, c', h', w']"
  unfolding keeps_batch_def by blast

lemma keeps_size_batch: "keeps_size l \<Longrightarrow> keeps_batch l"
  unfolding keeps_size_def keeps_batch_def by blast

lemma keeps_size_prim [simp]:
  "keeps_size (Conv2d ci co 3 (Suc 0) (Suc 0))" "keeps_size (Conv2d ci co (Suc 0) (Suc 0) 0)"
  "keeps_size (BatchNorm2d n)" "keeps_size ReLU"
  by (auto simp: keeps_size_def split: if_splits)

lemma keeps_batch_prim [simp]:
  "keeps_batch (Conv2d ci co k s p)" "keeps_batch (BatchNorm2d n)" "keeps_batch ReLU"
  "keeps_batch (Upsample f)"
  by (auto simp: keeps_batch_def bindE_eq_Inr split: if_splits)

lemma keeps_size_seq:
  "(\<And>l. l \<in> set ls \<Longrightarrow> keeps_size l) \<Longrightarrow> run_seq shape_ops ls [b, c, h, w] = Inr y
     \<Longrightarrow> \<exists>c'. y = [b, c', h, w]"
proof (induction ls arbitrary: c)
  case Nil
  then show ?case by auto
next
  case (Cons l ls)
  from Cons.prems(2) obtain z where z: "run shape_ops l [b, c, h, w] = Inr z"
    and y: "run_seq shape_ops ls z = Inr y"
    by (auto simp: bindE_eq_Inr)
  from Cons.prems(1) z obtain c' where "z = [b, c', h, w]"
    by (auto dest: keeps_sizeD)
  with y Cons.IH Cons.prems(1) show ?case by auto
qed

lemma keeps_size_Sequential:
  "(\<And>l. l \<in> set ls \<Longrightarrow> keeps_size l) \<Longrightarrow> keeps_size (Sequential ls)"
  unfolding keeps_size_def [of "Sequential ls"] using keeps_size_seq [of ls] by simp

lemma keeps_batch_seq:
  "(\<And>l. l \<in> set ls \<Longrightarrow> keeps_batch l) \<Longrightarrow> run_seq shape_ops ls [b, c, h, w] = Inr y
     \<Longrightarrow> \<exists>c' h' w'. y = [b, c', h', w']"
proof (induction ls arbitrary: c h w)
  case Nil
  then show ?case by auto
next
  case (Cons l ls)
  from Cons.prems(2) obtain z where z: "run shape_ops l [b, c, h, w] = Inr z"
    and y: "run_seq shape_ops ls z = Inr y"
    by (auto simp: bindE_eq_Inr)
  from Cons.prems(1) [of l] z obtain c' h' w' where "z = [b, c', h', w']"
    using keeps_batchD [of l b c h w z] by auto
  with y Cons.IH Cons.prems(1) show ?case by auto
qed

lemma keeps_batch_Sequential:
  "(\<And>l. l \<in> set ls \<Longrightarrow> keeps_batch l) \<Longrightarrow> keeps_batch (Sequential ls)"
  unfolding keeps_batch_def [of "Sequential ls"] using keeps_batch_seq [of ls] by simp

lemma iadd_shape_Inr: "iadd_shape a r = Inr y \<Longrightarrow> y = a"
  by (auto simp: iadd_shape_def bindE_eq_Inr split: if_splits)

lemma keeps_size_BasicBlock: "keeps_size (BasicBlock_init i p (Suc 0) ds)"
  unfolding keeps_size_def BasicBlock_init_def conv3x3_def
  by (auto simp: bindE_eq_Inr split: if_splits dest!: iadd_shape_Inr)

lemma keeps_size_Bottleneck: "keeps_size (Bottleneck_init i p (Suc 0) ds)"
  unfolding keeps_size_def Bottleneck_init_def
  by (auto simp: bindE_eq_Inr split: if_splits dest!: iadd_shape_Inr)

lemma keeps_size_block: "keeps_size (block_init blk i p (Suc 0) ds)"
  by (cases blk) (simp_all add: keeps_size_BasicBlock keeps_size_Bottleneck)

lemma keeps_size_make_layer: "keeps_size (fst (make_layer i blk p n (Suc 0)))"
  by (auto simp: make_layer_def Let_def keeps_size_block intro!: keeps_size_Sequential)

lemma keeps_size_make_one_branch:
  "make_one_branch nic i blk nb nc (Suc 0) = Inr (br, nic') \<Longrightarrow> keeps_size br"
  by (auto simp: make_one_branch_def Let_def bindE_eq_Inr keeps_size_block
        intro!: keeps_size_Sequential)


lemma make_branches_loop:
  "foldE (\<lambda>i (branches, num_inchannels).
             bindE (make_one_branch num_inchannels i blk nb nc (Suc 0))
               (\<lambda>(branch, num_inchannels). Inr (branches @ [branch], num_inchannels)))
          is (acc, nic) = Inr (brs, nic')
   \<Longrightarrow> (\<And>br. br \<in> set acc \<Longrightarrow> keeps_size br) \<Longrightarrow> br \<in> set brs \<Longrightarrow> keeps_size br"
proof (induction "is" arbitrary: acc nic)
  case Nil
  then show ?case by simp
next
  case (Cons i "is")
  from Cons.prems(1) obtain b1 nic1 where
    1: "make_one_branch nic i blk nb nc (Suc 0) = Inr (b1, nic1)"
    and 2: "foldE (\<lambda>i (branches, num_inchannels).
             bindE (make_one_branch num_inchannels i blk nb nc (Suc 0))
               (\<lambda>(branch, num_inchannels). Inr (branches @ [branch], num_inchannels)))
          is (acc @ [b1], nic1) = Inr (brs, nic')"
    by (auto simp: bindE_eq_Inr)
  from 1 have "keeps_size b1" by (rule keeps_size_make_one_branch)
  with Cons.prems(2) have "\<And>br. br \<in> set (acc @ [b1]) \<Longrightarrow> keeps_size br" by auto
  from Cons.IH [OF 2 this Cons.prems(3)] show ?case .
qed

lemma keeps_size_make_branches:
  "make_branches nic n blk nb nc = Inr (brs, nic') \<Longrightarrow> br \<in> set brs \<Longrightarrow> keeps_size br"
  unfolding make_branches_def One_nat_def
  by (erule make_branches_loop) simp_all

lemma keeps_batch_fuse_layer_entry:
  assumes "fuse_layer_entry nic i j = Inr (Some l)"
  shows "keeps_batch l"
proof -
  consider "i < j" | "j = i" | "j < i" by linarith
  then show ?thesis
  proof cases
    case 1
    with assms show ?thesis
      by (auto simp: fuse_layer_entry_def bindE_eq_Inr intro!: keeps_batch_Sequential)
  next
    case 2
    with assms show ?thesis
      by (simp add: fuse_layer_entry_def)
  next
    case 3
    with assms obtain ls where ls: "mapE (\<lambda>k.
                if k = i - j - 1 then
                  bindE (getitem nic i) (\<lambda>num_outchannels_conv3x3.
                  bindE (getitem nic j) (\<lambda>cj.
                    Inr (Sequential [Conv2d cj num_outchannels_conv3x3 3 2 1,
                                     BatchNorm2d num_outchannels_conv3x3])))
                else
                  bindE (getitem nic j) (\<lambda>num_outchannels_conv3x3.
                    Inr (Sequential [Conv2d num_outchannels_conv3x3 num_outchannels_conv3x3 3 2 1,
                                     BatchNorm2d num_outchannels_conv3x3, ReLU])))
              [0..<i - j] = Inr ls" and l: "l = Sequential ls"
      by (auto simp: fuse_layer_entry_def bindE_eq_Inr)
    have "keeps_batch e" if "e \<in> set ls" for e
      using ls _ that
      by (rule mapE_Inr_all)
        (auto simp: bindE_eq_Inr split: if_splits intro!: keeps_batch_Sequential)
    then show ?thesis
      unfolding l by (rule keeps_batch_Sequential)
  qed
qed

lemma keeps_batch_make_fuse_layers:
  assumes "make_fuse_layers n nic mso fusion = Inr (Some fl)" "row \<in> set fl" "Some l \<in> set row"
  shows "keeps_batch l"
proof -
  from assms(1) obtain fl0 where
    fl0: "mapE (\<lambda>i. mapE (\<lambda>j. fuse_layer_entry nic i j) [0..<n])
                [0..<(if mso then n else 1)] = Inr fl0"
    and fl: "fl = (if \<not> fusion
            then map (\<lambda>(i, fuse_layer).
                               if i = 0 then fuse_layer else map (\<lambda>l. None) fuse_layer)
                            (enumerate 0 fl0)
            else fl0)"
    by (auto simp: make_fuse_layers_def bindE_eq_Inr split: if_splits)
  have rows: "\<forall>e. Some e \<in> set r \<longrightarrow> keeps_batch e" if "r \<in> set fl0" for r
    using fl0 _ that
  proof (rule mapE_Inr_all)
    fix i r'
    assume "mapE (\<lambda>j. fuse_layer_entry nic i j) [0..<n] = Inr r'"
    then have "\<forall>l. e = Some l \<longrightarrow> keeps_batch l" if "e \<in> set r'" for e
      using _ that
      by (rule mapE_Inr_all) (auto dest: keeps_batch_fuse_layer_entry)
    then show "\<forall>e. Some e \<in> set r' \<longrightarrow> keeps_batch e" by blast
  qed
  from assms(2,3) fl have "\<exists>r \<in> set fl0. Some l \<in> set r"
    by (cases fusion) (auto simp: in_set_enumerate_eq split: if_splits intro: nth_mem)
  with rows show ?thesis by blast
qed

lemma wf_module_init:
  "HighResolutionModule_init n blk nb nic nc fm mso fusion = Inr m \<Longrightarrow> wf_module m"
  unfolding HighResolutionModule_init_def wf_module_def
  by (auto simp: bindE_eq_Inr dest: keeps_size_make_branches keeps_batch_make_fuse_layers)

lemma make_stage_loop:
  "foldE (\<lambda>i (modules, num_inchannels).
             let reset_fusion = (if \<not> fusion \<and> i = num_modules - 1 then False else True)
             in if \<not> mso then Inl UnboundLocalError
                else
                  bindE (HighResolutionModule_init n blk nb num_inchannels
                           nc fm True reset_fusion) (\<lambda>m.
                    Inr (modules @ [m], get_num_inchannels m)))
           is (acc, nic) = Inr (ms, nic')
   \<Longrightarrow> (\<And>m. m \<in> set acc \<Longrightarrow> wf_module m) \<Longrightarrow> m \<in> set ms \<Longrightarrow> wf_module m"
proof (induction "is" arbitrary: acc nic)
  case Nil
  then show ?case by simp
next
  case (Cons i "is")
  from Cons.prems(1) obtain m1 where
    1: "HighResolutionModule_init n blk nb nic nc fm True
           (if \<not> fusion \<and> i = num_modules - 1 then False else True) = Inr m1"
    and 2: "foldE (\<lambda>i (modules, num_inchannels).
             let reset_fusion = (if \<not> fusion \<and> i = num_modules - 1 then False else True)
             in if \<not> mso then Inl UnboundLocalError
                else
                  bindE (HighResolutionModule_init n blk nb num_inchannels
                           nc fm True reset_fusion) (\<lambda>m.
                    Inr (modules @ [m], get_num_inchannels m)))
           is (acc @ [m1], get_num_inchannels m1) = Inr (ms, nic')"
    by (auto simp: bindE_eq_Inr Let_def split: if_splits)
  from 1 have "wf_module m1" by (rule wf_module_init)
  with Cons.prems(2) have "\<And>m. m \<in> set (acc @ [m1]) \<Longrightarrow> wf_module m" by auto
  from Cons.IH [OF 2 this Cons.prems(3)] show ?case .
qed

lemma wf_module_make_stage:
  "make_stage cfg nic mso fusion = Inr (ms, nic') \<Longrightarrow> m \<in> set ms \<Longrightarrow> wf_module m"
  unfolding make_stage_def Let_def bindE_eq_Inr
  by (elim exE conjE, erule make_stage_loop [unfolded Let_def]) simp_all


lemma sized_batch: "sized_shape b h w x \<Longrightarrow> batch_shape b x"
  by (auto simp: sized_shape_def batch_shape_def)

lemma keeps_size_sized:
  "keeps_size l \<Longrightarrow> sized_shape b h w x \<Longrightarrow> run shape_ops l x = Inr y \<Longrightarrow> sized_shape b h w y"
  by (auto simp: sized_shape_def dest: keeps_sizeD)

lemma keeps_size_batch_shape:
  "keeps_size l \<Longrightarrow> batch_shape b x \<Longrightarrow> run shape_ops l x = Inr y \<Longrightarrow> batch_shape b y"
  by (auto simp: batch_shape_def dest: keeps_sizeD)

lemma keeps_batch_shape:
  "keeps_batch l \<Longrightarrow> batch_shape b x \<Longrightarrow> run shape_ops l x = Inr y \<Longrightarrow> batch_shape b y"
  by (auto simp: batch_shape_def dest: keeps_batchD)

lemma broadcast_batch:
  "batch_shape b y \<Longrightarrow> batch_shape b t \<Longrightarrow> broadcast y t = Inr r \<Longrightarrow> batch_shape b r"
  by (auto simp: batch_shape_def broadcast_def bindE_eq_Inr split: if_splits)

lemma broadcast_sized:
  "2 \<le> h \<Longrightarrow> 2 \<le> w \<Longrightarrow> sized_shape b h w y \<Longrightarrow> batch_shape b t \<Longrightarrow> broadcast y t = Inr r
     \<Longrightarrow> sized_shape b h w r"
  by (auto simp: batch_shape_def sized_shape_def broadcast_def bindE_eq_Inr split: if_splits)

lemma branch_step:
  assumes "keeps_size br" "i < length xs" "run shape_ops br (xs ! i) = Inr y"
    "branch_shapes b h w xs"
  shows "branch_shapes b h w (xs[i := y])"
proof -
  from assms(2,4) have xi: "batch_shape b (xs ! i)"
    by (simp add: branch_shapes_def)
  with assms(1,3) have y: "batch_shape b y"
    by (blast intro: keeps_size_batch_shape)
  have all: "\<forall>x \<in> set (xs[i := y]). batch_shape b x"
  proof
    fix x assume "x \<in> set (xs[i := y])"
    then have "x = y \<or> x \<in> set xs"
      using set_update_subset_insert [of xs i y] by auto
    with y assms(4) show "batch_shape b x"
      by (auto simp: branch_shapes_def)
  qed
  have "sized_shape b h w (xs[i := y] ! 0)"
  proof (cases "i = 0")
    case True
    with assms(2,4) have "sized_shape b h w (xs ! i)"
      by (auto simp: branch_shapes_def)
    with assms(1,3) have "sized_shape b h w y"
      by (blast intro: keeps_size_sized)
    with True assms(2) show ?thesis by simp
  next
    case False
    with assms(2,4) show ?thesis
      by (auto simp: branch_shapes_def)
  qed
  with all show ?thesis
    by (simp add: branch_shapes_def)
qed

lemma branches_loop:
  "foldE (\<lambda>i x.
            bindE (getitem brs i) (\<lambda>branch.
            bindE (getitem x i) (\<lambda>xi.
            bindE (run shape_ops branch xi) (\<lambda>y. Inr (x[i := y])))))
      is xs = Inr ys
   \<Longrightarrow> \<forall>br \<in> set brs. keeps_size br \<Longrightarrow> branch_shapes b h w xs \<Longrightarrow> branch_shapes b h w ys"
proof (induction "is" arbitrary: xs)
  case Nil
  then show ?case by simp
next
  case (Cons i "is")
  from Cons.prems(1) obtain y where
    i: "i < length brs" "i < length xs" and y: "run shape_ops (brs ! i) (xs ! i) = Inr y"
    and rest: "foldE (\<lambda>i x.
            bindE (getitem brs i) (\<lambda>branch.
            bindE (getitem x i) (\<lambda>xi.
            bindE (run shape_ops branch xi) (\<lambda>y. Inr (x[i := y])))))
      is (xs[i := y]) = Inr ys"
    by (auto simp: bindE_eq_Inr getitem_Inr)
  from i(1) Cons.prems(2) have "keeps_size (brs ! i)" by simp
  from branch_step [OF this i(2) y Cons.prems(3)]
  have "branch_shapes b h w (xs[i := y])" .
  from Cons.IH [OF rest Cons.prems(2) this] show ?case .
qed

lemma fuse_loop:
  assumes step: "\<And>y t r. P y \<Longrightarrow> batch_shape b t \<Longrightarrow> broadcast y t = Inr r \<Longrightarrow> P r"
    and entries: "\<forall>row \<in> set fl. \<forall>l. Some l \<in> set row \<longrightarrow> keeps_batch l"
    and xs: "\<forall>x \<in> set xs. batch_shape b x"
  shows "foldE (\<lambda>j y.
             if i = j then bindE (getitem xs j) (\<lambda>xj. broadcast y xj)
             else bindE (fuse_at fl i j) (\<lambda>f.
                  bindE (getitem xs j) (\<lambda>xj.
                  bindE (call shape_ops f xj) (\<lambda>t. broadcast y t))))
           js y0 = Inr y \<Longrightarrow> P y0 \<Longrightarrow> P y"
proof (induction js arbitrary: y0)
  case Nil
  then show ?case by simp
next
  case (Cons j js)
  let ?body = "\<lambda>j y.
             if i = j then bindE (getitem xs j) (\<lambda>xj. broadcast y xj)
             else bindE (fuse_at fl i j) (\<lambda>f.
                  bindE (getitem xs j) (\<lambda>xj.
                  bindE (call shape_ops f xj) (\<lambda>t. broadcast y t)))"
  from Cons.prems(1) obtain y1 where y1: "?body j y0 = Inr y1"
    and rest: "foldE ?body js y1 = Inr y"
    by (auto simp: bindE_eq_Inr)
  have "P y1"
  proof (cases "i = j")
    case True
    with y1 have j: "j < length xs" and r: "broadcast y0 (xs ! j) = Inr y1"
      by (auto simp: bindE_eq_Inr getitem_Inr)
    from j xs have "batch_shape b (xs ! j)" by simp
    from step [OF Cons.prems(2) this r] show ?thesis .
  next
    case False
    with y1 obtain l t where j: "j < length xs" and row: "i < length fl" "j < length (fl ! i)"
      and l: "fl ! i ! j = Some l" and t: "run shape_ops l (xs ! j) = Inr t"
      and r: "broadcast y0 t = Inr y1"
      by (auto simp: bindE_eq_Inr getitem_Inr fuse_at_def call_def split: option.splits)
    from row l have "Some l \<in> set (fl ! i)" "fl ! i \<in> set fl"
      by (auto simp: in_set_conv_nth)
    with entries have "keeps_batch l" by blast
    moreover from j xs have "batch_shape b (xs ! j)" by simp
    ultimately have "batch_shape b t"
      using t by (blast intro: keeps_batch_shape)
    from step [OF Cons.prems(2) this r] show ?thesis .
  qed
  from Cons.IH [OF rest this] show ?case .
qed

lemma fuse_sum_shapes:
  assumes entries: "\<forall>row \<in> set fl. \<forall>l. Some l \<in> set row \<longrightarrow> keeps_batch l"
    and relu: "hrm_relu m = ReLU"
    and xs: "branch_shapes b h w xs"
    and y: "fuse_sum shape_ops m fl xs i = Inr y"
  shows "batch_shape b y" and "i = 0 \<Longrightarrow> 2 \<le> h \<Longrightarrow> 2 \<le> w \<Longrightarrow> sized_shape b h w y"
proof -
  let ?body = "\<lambda>j y.
             if i = j then bindE (getitem xs j) (\<lambda>xj. broadcast y xj)
             else bindE (fuse_at fl i j) (\<lambda>f.
                  bindE (getitem xs j) (\<lambda>xj.
                  bindE (call shape_ops f xj) (\<lambda>t. broadcast y t)))"
  from xs have all: "\<forall>x \<in> set xs. batch_shape b x"
    by (simp add: branch_shapes_def)
  from y relu obtain y0 where
    y0: "(if i = 0 then getitem xs 0
           else bindE (fuse_at fl i 0) (\<lambda>f.
                bindE (getitem xs 0) (\<lambda>x0. call shape_ops f x0))) = Inr y0"
    and loop: "foldE ?body [1..<hrm_num_branches m] y0 = Inr y"
    by (auto simp: fuse_sum_def bindE_eq_Inr cong: if_cong)
  have b0: "batch_shape b y0"
  proof (cases "i = 0")
    case True
    with y0 all show ?thesis by (auto simp: getitem_Inr)
  next
    case False
    with y0 obtain l where row: "i < length fl" "0 < length (fl ! i)"
      and l: "fl ! i ! 0 = Some l" and x0: "0 < length xs"
      and t: "run shape_ops l (xs ! 0) = Inr y0"
      by (auto simp: bindE_eq_Inr getitem_Inr fuse_at_def call_def split: option.splits)
    from row l have "Some l \<in> set (fl ! i)" "fl ! i \<in> set fl"
      by (auto simp: in_set_conv_nth)
    with entries have "keeps_batch l" by blast
    moreover from x0 all have "batch_shape b (xs ! 0)" by simp
    ultimately show ?thesis
      using t by (blast intro: keeps_batch_shape)
  qed
  show "batch_shape b y"
    using _ entries all loop b0
    by (rule fuse_loop [where P = "batch_shape b"]) (rule broadcast_batch)
  show "sized_shape b h w y" if i: "i = 0" and h: "2 \<le> h" and w: "2 \<le> w"
  proof -
    from i y0 xs have s0: "sized_shape b h w y0"
      by (auto simp: getitem_Inr branch_shapes_def)
    show ?thesis
      using _ entries all loop s0
      by (rule fuse_loop [where P = "sized_shape b h w"]) (rule broadcast_sized [OF h w])
  qed
qed


lemma branch_shapes_mapE:
  assumes ys: "mapE f [0..<n] = Inr ys"
    and all: "\<And>i y. f i = Inr y \<Longrightarrow> batch_shape b y"
    and head: "\<And>y. f 0 = Inr y \<Longrightarrow> sized_shape b h w y"
  shows "branch_shapes b h w ys"
proof -
  have 1: "\<forall>y \<in> set ys. batch_shape b y"
    using ys by (rule mapE_Inr_ball) (auto dest: all)
  have 2: "sized_shape b h w (ys ! 0)" if "ys \<noteq> []"
  proof -
    from ys have "length ys = n"
      by (auto dest: mapE_Inr_length)
    with that have n: "0 < n" by auto
    with mapE_Inr_nth [OF ys, of 0] have "f 0 = Inr (ys ! 0)" by simp
    then show ?thesis by (rule head)
  qed
  from 1 2 show ?thesis by (simp add: branch_shapes_def)
qed

lemma HighResolutionModule_forward_shapes:
  assumes wf: "wf_module m" and h: "2 \<le> h" and w: "2 \<le> w"
    and xs: "branch_shapes b h w xs"
    and ys: "HighResolutionModule_forward shape_ops m xs = Inr ys"
  shows "branch_shapes b h w ys"
proof (cases "hrm_num_branches m = 1")
  case True
  with ys obtain y where br: "0 < length (hrm_branches m)" and x0: "0 < length xs"
    and y: "run shape_ops (hrm_branches m ! 0) (xs ! 0) = Inr y" and ys: "ys = [y]"
    by (auto simp: HighResolutionModule_forward_def bindE_eq_Inr getitem_Inr)
  from br wf have "keeps_size (hrm_branches m ! 0)"
    by (simp add: wf_module_def)
  moreover from x0 xs have "sized_shape b h w (xs ! 0)"
    by (auto simp: branch_shapes_def)
  ultimately have "sized_shape b h w y"
    using y by (blast intro: keeps_size_sized)
  then show ?thesis
    by (simp add: ys branch_shapes_def sized_batch)
next
  case False
  with ys obtain x1 fl where
    loop: "run_branches shape_ops m xs = Inr x1"
    and fl: "hrm_fuse_layers m = Some fl"
    and out: "(if hrm_fusion m then
             mapE (\<lambda>i. fuse_sum shape_ops m fl x1 i) [0..<length fl]
           else
             mapE (\<lambda>i. if i = 0 then fuse_sum shape_ops m fl x1 i else getitem x1 i)
               [0..<length fl]) = Inr ys"
    by (auto simp: HighResolutionModule_forward_def bindE_eq_Inr split: option.splits)
  from wf have brs: "\<forall>br \<in> set (hrm_branches m). keeps_size br"
    and relu: "hrm_relu m = ReLU"
    by (simp_all add: wf_module_def)
  from wf fl have entries: "\<forall>row \<in> set fl. \<forall>l. Some l \<in> set row \<longrightarrow> keeps_batch l"
    by (auto simp: wf_module_def)
  from loop [unfolded run_branches_def] brs xs have x1: "branch_shapes b h w x1"
    by (rule branches_loop)
  note fs = fuse_sum_shapes [OF entries relu x1]
  show ?thesis
  proof (cases "hrm_fusion m")
    case True
    with out have "mapE (\<lambda>i. fuse_sum shape_ops m fl x1 i) [0..<length fl] = Inr ys"
      by simp
    then show ?thesis
      by (rule branch_shapes_mapE) (auto intro: fs h w)
  next
    case False
    with out have "mapE (\<lambda>i. if i = 0 then fuse_sum shape_ops m fl x1 i else getitem x1 i)
               [0..<length fl] = Inr ys"
      by simp
    then show ?thesis
    proof (rule branch_shapes_mapE)
      fix i y
      assume "(if i = 0 then fuse_sum shape_ops m fl x1 i else getitem x1 i) = Inr y"
      with x1 show "batch_shape b y"
        by (auto simp: getitem_Inr branch_shapes_def split: if_splits intro: fs)
    next
      fix y
      assume "(if (0 :: nat) = 0 then fuse_sum shape_ops m fl x1 0 else getitem x1 0) = Inr y"
      then show "sized_shape b h w y"
        by (auto intro: fs h w)
    qed
  qed
qed

lemma run_stage_shapes:
  assumes h: "2 \<le> h" and w: "2 \<le> w"
  shows "run_stage shape_ops ms xs = Inr ys \<Longrightarrow> \<forall>m \<in> set ms. wf_module m
     \<Longrightarrow> branch_shapes b h w xs \<Longrightarrow> branch_shapes b h w ys"
  unfolding run_stage_def
proof (induction ms arbitrary: xs)
  case Nil
  then show ?case by simp
next
  case (Cons m ms)
  from Cons.prems(1) obtain x1 where 1: "HighResolutionModule_forward shape_ops m xs = Inr x1"
    and 2: "foldE (\<lambda>m x. HighResolutionModule_forward shape_ops m x) ms x1 = Inr ys"
    by (auto simp: bindE_eq_Inr)
  from Cons.prems(2) have "wf_module m" by simp
  from HighResolutionModule_forward_shapes [OF this h w Cons.prems(3) 1]
  have "branch_shapes b h w x1" .
  with Cons.IH [OF 2] Cons.prems(2) show ?case by simp
qed


lemma make_transition_layer_entries:
  assumes "make_transition_layer pre cur = Inr ts"
  shows "\<forall>l. Some l \<in> set ts \<longrightarrow> keeps_batch l"
    and "pre \<noteq> [] \<Longrightarrow> ts \<noteq> [] \<Longrightarrow> \<forall>l. ts ! 0 = Some l \<longrightarrow> keeps_size l"
proof -
  let ?new = "\<lambda>i j.
                     bindE (last_item pre) (\<lambda>inchannels.
                     bindE (if j = i - length pre then getitem cur i
                            else Inr inchannels) (\<lambda>outchannels.
                       Inr (Sequential [Conv2d inchannels outchannels 3 2 1,
                                        BatchNorm2d outchannels, ReLU])))"
  let ?f = "\<lambda>i.
          if i < length pre then
            bindE (getitem cur i) (\<lambda>c.
            bindE (getitem pre i) (\<lambda>p.
              if c \<noteq> p
              then Inr (Some (Sequential [Conv2d p c 3 1 1, BatchNorm2d c, ReLU]))
              else Inr None))
          else
            bindE (mapE (?new i) [0..<i + 1 - length pre])
              (\<lambda>conv3x3s. Inr (Some (Sequential conv3x3s)))"
  from assms have ts: "mapE ?f [0..<length cur] = Inr ts"
    by (simp add: make_transition_layer_def Let_def)
  have new: "keeps_batch (Sequential ls)" if "mapE (?new i) js = Inr ls" for i js ls
  proof -
    have "\<forall>l \<in> set ls. keeps_batch l"
      using that
      by (rule mapE_Inr_ball) (auto simp: bindE_eq_Inr intro!: keeps_batch_Sequential)
    then show ?thesis
      by (intro keeps_batch_Sequential) simp
  qed
  have entry: "\<forall>l. e = Some l \<longrightarrow> keeps_batch l" if "?f i = Inr e" for i e
  proof (cases "i < length pre")
    case True
    with that show ?thesis
      by (auto simp: bindE_eq_Inr split: if_splits intro!: keeps_batch_Sequential)
  next
    case False
    with that have "bindE (mapE (?new i) [0..<i + 1 - length pre])
              (\<lambda>conv3x3s. Inr (Some (Sequential conv3x3s))) = Inr e"
      by (simp only: if_False)
    then obtain ls where "mapE (?new i) [0..<i + 1 - length pre] = Inr ls"
      and "e = Some (Sequential ls)"
      by (auto simp only: bindE_eq_Inr sum.inject)
    with new show ?thesis by blast
  qed
  have "\<forall>e \<in> set ts. \<forall>l. e = Some l \<longrightarrow> keeps_batch l"
    using ts by (rule mapE_Inr_ball) (use entry in blast)
  then show "\<forall>l. Some l \<in> set ts \<longrightarrow> keeps_batch l" by blast
  show "\<forall>l. ts ! 0 = Some l \<longrightarrow> keeps_size l" if "pre \<noteq> []" "ts \<noteq> []"
  proof -
    from ts have "length ts = length cur"
      by (auto dest: mapE_Inr_length)
    with that have n: "0 < length cur" by auto
    then have "[0..<length cur] ! 0 = 0" by simp
    with mapE_Inr_nth [OF ts, of 0] n have "?f ([0..<length cur] ! 0) = Inr (ts ! 0)"
      by simp
    then have "?f 0 = Inr (ts ! 0)"
      unfolding \<open>[0..<length cur] ! 0 = 0\<close> .
    with that(1) show ?thesis
      by (auto simp: bindE_eq_Inr split: if_splits intro!: keeps_size_Sequential)
  qed
qed

lemma stem_size: "Suc (Suc H div 2) div 2 = (H + 3) div 4"
  by presburger

lemma init_backbone:
  assumes "TransActionH_init ops cfg = Inr m"
  shows "conv1 m = Conv2d 3 64 3 2 1" "bn1 m = BatchNorm2d 64"
    "conv2 m = Conv2d 64 64 3 2 1" "bn2 m = BatchNorm2d 64" "relu m = ReLU"
    "layer1 m = fst (make_layer 64 BOTTLENECK 64 4 1)"
    "\<exists>nc. make_transition_layer [256] nc = Inr (transition1 m)"
    "\<exists>nic f nic'. make_stage (STAGE2 cfg) nic True f = Inr (stage2 m, nic')"
    "\<exists>pre nc. make_transition_layer pre nc = Inr (transition2 m)"
    "\<exists>nic f nic'. make_stage (STAGE3 cfg) nic True f = Inr (stage3 m, nic')"
    "\<exists>c0. reduce m = Conv2d c0 (DIM_MODEL cfg) 1 1 0"
    "final_layer m = Conv2d (DIM_MODEL cfg) (NUM_JOINTS cfg) (FINAL_CONV_KERNEL cfg) 1
                       (if FINAL_CONV_KERNEL cfg = 3 then 1 else 0)"
  using assms
  by ((auto simp: TransActionH_init_def Let_def bindE_eq_Inr split: prod.splits), blast+)


lemma stem_shape:
  assumes "0 < H" "0 < W"
  shows "bindE (run shape_ops (Conv2d 3 64 3 2 1) [b, 3, H, W]) (\<lambda>x.
         bindE (run shape_ops (BatchNorm2d 64) x) (\<lambda>x.
         bindE (run shape_ops ReLU x) (\<lambda>x.
         bindE (run shape_ops (Conv2d 64 64 3 2 1) x) (\<lambda>x.
         bindE (run shape_ops (BatchNorm2d 64) x) (\<lambda>x.
         bindE (run shape_ops ReLU x) f)))))
       = f [b, 64, (H + 3) div 4, (W + 3) div 4]"
proof -
  have z: "(Suc H div 2 = 0) = False" "(Suc W div 2 = 0) = False"
    using assms by presburger+
  show ?thesis
    using assms by (simp add: stem_size z)
qed

lemma forward_backbone_shapes:
  fixes m :: "shape TransActionH"
  assumes init: "TransActionH_init ops cfg = Inr m"
    and t2: "getitem (transition2 m) 0 = Inr None"
    and H: "4 < H" and W: "4 < W"
    and ys: "forward_backbone shape_ops m [b, 3, H, W] = Inr y_list"
  shows "branch_shapes b ((H + 3) div 4) ((W + 3) div 4) y_list"
proof -
  let ?h = "(H + 3) div 4" and ?w = "(W + 3) div 4"
  note f = init_backbone [OF init]
  from H W have hw: "2 \<le> ?h" "2 \<le> ?w" by presburger+
  from H W have pos: "0 < H" "0 < W" by simp_all
  let ?tr1 = "\<lambda>x i. bindE (getitem (transition1 m) i) (\<lambda>t.
                   case t of Some f \<Rightarrow> run shape_ops f x | None \<Rightarrow> Inr x)"
  let ?tr2 = "\<lambda>y_list i. bindE (getitem (transition2 m) i) (\<lambda>t.
                   case t of Some f \<Rightarrow> bindE (last_item y_list) (\<lambda>y_last. run shape_ops f y_last)
                   | None \<Rightarrow> getitem y_list i)"
  have "forward_backbone shape_ops m [b, 3, H, W] =
      bindE (run shape_ops (layer1 m) [b, 64, ?h, ?w]) (\<lambda>x.
      bindE (mapE (?tr1 x) [0..<NUM_BRANCHES (stage2_cfg m)]) (\<lambda>x_list.
      bindE (run_stage shape_ops (stage2 m) x_list) (\<lambda>y_list.
      bindE (mapE (?tr2 y_list) [0..<NUM_BRANCHES (stage3_cfg m)]) (\<lambda>x_list.
      run_stage shape_ops (stage3 m) x_list))))"
    unfolding forward_backbone_def f(1-5) by (rule stem_shape [OF pos])
  with ys obtain x1 xl2 yl2 xl3 where
    x1: "run shape_ops (layer1 m) [b, 64, ?h, ?w] = Inr x1"
    and xl2: "mapE (?tr1 x1) [0..<NUM_BRANCHES (stage2_cfg m)] = Inr xl2"
    and yl2: "run_stage shape_ops (stage2 m) xl2 = Inr yl2"
    and xl3: "mapE (?tr2 yl2) [0..<NUM_BRANCHES (stage3_cfg m)] = Inr xl3"
    and yl3: "run_stage shape_ops (stage3 m) xl3 = Inr y_list"
    by (auto simp: bindE_eq_Inr)
  have "sized_shape b ?h ?w [b, 64, ?h, ?w]"
    by (simp add: sized_shape_def)
  with x1 have sx1: "sized_shape b ?h ?w x1"
    unfolding f(6) by (intro keeps_size_sized [OF _ _ x1 [unfolded f(6)]]) (simp add: keeps_size_make_layer)
  from f(7) obtain nc1 where tr1: "make_transition_layer [256] nc1 = Inr (transition1 m)"
    by blast
  note e1 = make_transition_layer_entries [OF tr1]
  have s2: "branch_shapes b ?h ?w xl2"
    using xl2
  proof (rule branch_shapes_mapE)
    fix i y
    assume "?tr1 x1 i = Inr y"
    then obtain t where t: "i < length (transition1 m)" "t = transition1 m ! i"
      and y: "(case t of Some f \<Rightarrow> run shape_ops f x1 | None \<Rightarrow> Inr x1) = Inr y"
      by (auto simp: bindE_eq_Inr getitem_Inr)
    show "batch_shape b y"
    proof (cases t)
      case None
      with y sx1 show ?thesis by (auto intro: sized_batch)
    next
      case (Some l)
      with t have "Some l \<in> set (transition1 m)" by (auto simp: in_set_conv_nth)
      with e1(1) have "keeps_batch l" by blast
      with Some y sx1 show ?thesis
        by (auto intro: keeps_batch_shape sized_batch)
    qed
  next
    fix y
    assume "?tr1 x1 0 = Inr y"
    then obtain t where t: "transition1 m \<noteq> []" "t = transition1 m ! 0"
      and y: "(case t of Some f \<Rightarrow> run shape_ops f x1 | None \<Rightarrow> Inr x1) = Inr y"
      by (auto simp: bindE_eq_Inr getitem_Inr)
    show "sized_shape b ?h ?w y"
    proof (cases t)
      case None
      with y sx1 show ?thesis by auto
    next
      case (Some l)
      with t e1(2) have "keeps_size l" by auto
      with Some y sx1 show ?thesis
        by (auto intro: keeps_size_sized)
    qed
  qed
  from f(8) have wf2: "\<forall>m' \<in> set (stage2 m). wf_module m'"
    by (auto dest: wf_module_make_stage)
  from f(10) have wf3: "\<forall>m' \<in> set (stage3 m). wf_module m'"
    by (auto dest: wf_module_make_stage)
  from run_stage_shapes [OF hw yl2 wf2 s2] have sy2: "branch_shapes b ?h ?w yl2" .
  from f(9) obtain pre2 nc2 where tr2: "make_transition_layer pre2 nc2 = Inr (transition2 m)"
    by blast
  note e2 = make_transition_layer_entries(1) [OF tr2]
  have s3: "branch_shapes b ?h ?w xl3"
    using xl3
  proof (rule branch_shapes_mapE)
    fix i y
    assume "?tr2 yl2 i = Inr y"
    then obtain t where t: "i < length (transition2 m)" "t = transition2 m ! i"
      and y: "(case t of Some f \<Rightarrow> bindE (last_item yl2) (\<lambda>y_last. run shape_ops f y_last)
                   | None \<Rightarrow> getitem yl2 i) = Inr y"
      by (auto simp: bindE_eq_Inr getitem_Inr)
    show "batch_shape b y"
    proof (cases t)
      case None
      with y have "i < length yl2" "y = yl2 ! i" by (auto simp: getitem_Inr)
      with sy2 show ?thesis by (auto simp: branch_shapes_def)
    next
      case (Some l)
      with t have "Some l \<in> set (transition2 m)" by (auto simp: in_set_conv_nth)
      with e2 have kb: "keeps_batch l" by blast
      from Some y have ne: "yl2 \<noteq> []" and r: "run shape_ops l (last yl2) = Inr y"
        by (auto simp: bindE_eq_Inr last_item_def split: if_splits)
      from ne sy2 have "batch_shape b (last yl2)"
        by (auto simp: branch_shapes_def)
      with kb r show ?thesis by (blast intro: keeps_batch_shape)
    qed
  next
    fix y
    assume "?tr2 yl2 0 = Inr y"
    with t2 have "getitem yl2 0 = Inr y"
      by simp
    with sy2 show "sized_shape b ?h ?w y"
      by (auto simp: getitem_Inr branch_shapes_def)
  qed
  from run_stage_shapes [OF hw yl3 wf3 s3] show ?thesis .
qed


lemma heatmap_shape:
  fixes m :: "shape TransActionH"
  assumes init: "TransActionH_init ops cfg = Inr m"
    and k: "FINAL_CONV_KERNEL cfg = 1 \<or> FINAL_CONV_KERNEL cfg = 3"
    and y0: "getitem y_list 0 = Inr y0" and s0: "sized_shape b h w y0"
    and tok: "forward_tokens shape_ops m y_list = Inr (xf, dims)"
    and pose: "forward_pose shape_ops m xf dims = Inr ys"
  shows "ys = [b, NUM_JOINTS cfg, h, w]"
proof -
  note f = init_backbone [OF init]
  from f(11) obtain c0 where red: "reduce m = Conv2d c0 (DIM_MODEL cfg) 1 1 0" by blast
  from s0 obtain c where c: "y0 = [b, c, h, w]" by (auto simp: sized_shape_def)
  from tok y0 have dims: "dims = (b, DIM_MODEL cfg, h, w)" and hw: "h \<noteq> 0" "w \<noteq> 0"
    by (auto simp: forward_tokens_def red c bindE_eq_Inr unpack4_def split: if_splits)
  from pose obtain v where v: "view_shape [b, DIM_MODEL cfg, h, w] v = Inr [b, DIM_MODEL cfg, h, w]"
    and fin: "run shape_ops (final_layer m) [b, DIM_MODEL cfg, h, w] = Inr ys"
    by (auto simp: forward_pose_def dims bindE_eq_Inr view_shape_def split: if_splits)
  from k fin hw show ?thesis
    by (auto simp: f(12) split: if_splits)
qed

text \<open>
  Claim C4, as amended.  Take a model built by the constructor whose final convolution
  has kernel 1 or 3 and whose first branch enters stage 3 without a transition layer
  (the first branch has the same number of channels in both stages), and an input
  batch \<open>[b, 3, H, W]\<close> with \<open>H\<close> and \<open>W\<close> above 4.  Whenever \<open>forward\<close> returns, whatever the
  skeleton features are, the heatmap has shape \<open>[b, NUM_JOINTS, (H + 3) div 4, (W + 3) div 4]\<close>,
  the quotients of height and width by 4 rounded up; this is
  \<open>[b, NUM_JOINTS, H div 4, W div 4]\<close> when 4 divides both.
\<close>

theorem forward_heatmap_shape_amended:
  fixes m :: "shape TransActionH"
  shows "TransActionH_init ops cfg = Inr m
     \<and> (FINAL_CONV_KERNEL cfg = 1 \<or> FINAL_CONV_KERNEL cfg = 3)
     \<and> getitem (transition2 m) 0 = Inr None
     \<and> 4 < H \<and> 4 < W
     \<and> forward (shape_ops\<lparr>skeleton := s\<rparr>) m [b, 3, H, W] = Inr (ys, cs)
     \<longrightarrow> ys = [b, NUM_JOINTS cfg, (H + 3) div 4, (W + 3) div 4]
       \<and> (4 dvd H \<and> 4 dvd W \<longrightarrow> ys = [b, NUM_JOINTS cfg, H div 4, W div 4])"
proof (intro impI)
  assume a: "TransActionH_init ops cfg = Inr m
     \<and> (FINAL_CONV_KERNEL cfg = 1 \<or> FINAL_CONV_KERNEL cfg = 3)
     \<and> getitem (transition2 m) 0 = Inr None
     \<and> 4 < H \<and> 4 < W
     \<and> forward (shape_ops\<lparr>skeleton := s\<rparr>) m [b, 3, H, W] = Inr (ys, cs)"
  then have init: "TransActionH_init ops cfg = Inr m"
    and k: "FINAL_CONV_KERNEL cfg = 1 \<or> FINAL_CONV_KERNEL cfg = 3"
    and t2: "getitem (transition2 m) 0 = Inr None" and H: "4 < H" and W: "4 < W"
    and fw: "forward (shape_ops\<lparr>skeleton := s\<rparr>) m [b, 3, H, W] = Inr (ys, cs)"
    by simp_all
  from fw obtain y_list xf dims where
    b: "forward_backbone shape_ops m [b, 3, H, W] = Inr y_list"
    and tok: "forward_tokens shape_ops m y_list = Inr (xf, dims)"
    and pose: "forward_pose shape_ops m xf dims = Inr ys"
    unfolding forward_Inr by auto
  from forward_backbone_shapes [OF init t2 H W b]
  have bs: "branch_shapes b ((H + 3) div 4) ((W + 3) div 4) y_list" .
  from tok obtain y0 where y0: "getitem y_list 0 = Inr y0"
    by (auto simp: forward_tokens_def bindE_eq_Inr)
  with bs have "sized_shape b ((H + 3) div 4) ((W + 3) div 4) y0"
    by (auto simp: getitem_Inr branch_shapes_def)
  from heatmap_shape [OF init k y0 this tok pose]
  have ys: "ys = [b, NUM_JOINTS cfg, (H + 3) div 4, (W + 3) div 4]" .
  have "(H + 3) div 4 = H div 4" if "4 dvd H" for H :: nat
    using that by presburger
  with ys show "ys = [b, NUM_JOINTS cfg, (H + 3) div 4, (W + 3) div 4]
       \<and> (4 dvd H \<and> 4 dvd W \<longrightarrow> ys = [b, NUM_JOINTS cfg, H div 4, W div 4])"
    by simp
qed

text \<open>The example configuration, and three variants of it, on shapes.\<close>

lemma ex_cfg_transition2:
  "bindE (TransActionH_init shape_ops ex_cfg) (\<lambda>m. getitem (transition2 m) 0) = Inr None"
  by code_simp

lemma ex_cfg_forward_13:
  "bindE (TransActionH_init shape_ops ex_cfg) (\<lambda>m. forward shape_ops m [2, 3, 13, 13])
     = Inr ([2, 17, 4, 4], [2, 40])"
  by code_simp

lemma ex_cfg_forward_32:
  "bindE (TransActionH_init shape_ops ex_cfg) (\<lambda>m. forward shape_ops m [2, 3, 32, 32])
     = Inl RuntimeError"
  by code_simp

lemma ex_cfg_forward_kernel_2:
  "bindE (TransActionH_init shape_ops (ex_cfg\<lparr>FINAL_CONV_KERNEL := 2\<rparr>))
     (\<lambda>m. forward shape_ops m [2, 3, 16, 16]) = Inr ([2, 17, 3, 3], [2, 40])"
  by code_simp

lemma ex_cfg_forward_4:
  "bindE (TransActionH_init shape_ops
            (ex_cfg\<lparr>IMAGE_SIZE := (4, 4), STAGE3 := (STAGE3 ex_cfg)\<lparr>NUM_MODULES := 0\<rparr>\<rparr>))
     (\<lambda>m. forward shape_ops m [2, 3, 4, 4]) = Inr ([2, 17, 2, 2], [2, 40])"
  by code_simp

text \<open>
  The claim as stated fails.  The model of the example configuration, built for images
  of 16 x 16 pixels, returns heatmaps of 4 x 4 for images of 13 x 13 pixels, where
  \<open>13 / 4\<close> is not 4; and it raises for images of 32 x 32 pixels, whose 64 tokens do not
  match the 16 rows of the positional embedding.  With a final convolution of kernel 2
  the heatmaps of 16 x 16 images are 3 x 3.  And the model built for 4 x 4 images, with
  no module in stage 3, returns heatmaps of 2 x 2: the sum of the fuse layer broadcasts
  the 1 x 1 map of the first branch to the 2 x 2 map upsampled from the second.
\<close>

theorem forward_heatmap_shape_counterexample:
  "(\<exists>m. TransActionH_init shape_ops ex_cfg = Inr m
       \<and> forward shape_ops m [2, 3, 13, 13] = Inr ([2, 17, 4, 4], [2, 40])
       \<and> [2, 17, 4, 4] \<noteq> [2, NUM_JOINTS ex_cfg, 13 div 4, 13 div 4]
       \<and> forward shape_ops m [2, 3, 32, 32] = Inl RuntimeError)
   \<and> (\<exists>m. TransActionH_init shape_ops (ex_cfg\<lparr>FINAL_CONV_KERNEL := 2\<rparr>) = Inr m
       \<and> forward shape_ops m [2, 3, 16, 16] = Inr ([2, 17, 3, 3], [2, 40]))
   \<and> (\<exists>m. TransActionH_init shape_ops
               (ex_cfg\<lparr>IMAGE_SIZE := (4, 4), STAGE3 := (STAGE3 ex_cfg)\<lparr>NUM_MODULES := 0\<rparr>\<rparr>)
             = Inr m
       \<and> forward shape_ops m [2, 3, 4, 4] = Inr ([2, 17, 2, 2], [2, 40]))"
proof -
  obtain m where m: "TransActionH_init shape_ops ex_cfg = Inr m"
    using ex_cfg_init by (cases "TransActionH_init shape_ops ex_cfg") simp_all
  have 1: "forward shape_ops m [2, 3, 13, 13] = Inr ([2, 17, 4, 4], [2, 40])"
    using ex_cfg_forward_13 m by simp
  have 2: "forward shape_ops m [2, 3, 32, 32] = Inl RuntimeError"
    using ex_cfg_forward_32 m by simp
  have 3: "[2, 17, 4, 4] \<noteq> [2, NUM_JOINTS ex_cfg, 13 div 4, 13 div (4 :: nat)]"
    by simp
  have 4: "\<exists>m. TransActionH_init shape_ops (ex_cfg\<lparr>FINAL_CONV_KERNEL := 2\<rparr>) = Inr m
       \<and> forward shape_ops m [2, 3, 16, 16] = Inr ([2, 17, 3, 3], [2, 40])"
    using ex_cfg_forward_kernel_2 by (simp add: bindE_eq_Inr)
  have 5: "\<exists>m. TransActionH_init shape_ops
               (ex_cfg\<lparr>IMAGE_SIZE := (4, 4), STAGE3 := (STAGE3 ex_cfg)\<lparr>NUM_MODULES := 0\<rparr>\<rparr>)
             = Inr m
       \<and> forward shape_ops m [2, 3, 4, 4] = Inr ([2, 17, 2, 2], [2, 40])"
    using ex_cfg_forward_4 by (simp add: bindE_eq_Inr)
  from m 1 2 3 4 5 show ?thesis by blast
qed

theorem forward_heatmap_shape_witness:
  "\<exists>m. TransActionH_init shape_ops ex_cfg = Inr m
     \<and> (FINAL_CONV_KERNEL ex_cfg = 1 \<or> FINAL_CONV_KERNEL ex_cfg = 3)
     \<and> getitem (transition2 m) 0 = Inr None
     \<and> (4 :: nat) < 16 \<and> (4 :: nat) dvd 16
     \<and> forward shape_ops m [2, 3, 16, 16] = Inr ([2, 17, 4, 4], [2, 40])
     \<and> forward shape_ops m [2, 3, 13, 13] = Inr ([2, 17, 4, 4], [2, 40])
     \<and> [2, 17, 4, 4] = [2, NUM_JOINTS ex_cfg, 16 div 4, 16 div 4]
     \<and> [2, 17, 4, 4] = [2, NUM_JOINTS ex_cfg, (13 + 3) div 4, (13 + 3) div 4]"
proof -
  obtain m where m: "TransActionH_init shape_ops ex_cfg = Inr m"
    using ex_cfg_init by (cases "TransActionH_init shape_ops ex_cfg") simp_all
  have ops: "shape_ops\<lparr>skeleton := skeleton_shape True\<rparr> = shape_ops"
    by (simp add: shape_ops_def)
  have k: "FINAL_CONV_KERNEL ex_cfg = 1 \<or> FINAL_CONV_KERNEL ex_cfg = 3"
    by (simp add: ex_cfg_def)
  have t2: "getitem (transition2 m) 0 = Inr None"
    using ex_cfg_transition2 m by simp
  have f16: "forward shape_ops m [2, 3, 16, 16] = Inr ([2, 17, 4, 4], [2, 40])"
    using ex_cfg_forward m by simp
  have f13: "forward shape_ops m [2, 3, 13, 13] = Inr ([2, 17, 4, 4], [2, 40])"
    using ex_cfg_forward_13 m by simp
  note t16 = forward_heatmap_shape_amended [of shape_ops ex_cfg m 16 16 "skeleton_shape True" 2
      "[2, 17, 4, 4]" "[2, 40]"]
  have p16: "TransActionH_init shape_ops ex_cfg = Inr m
     \<and> (FINAL_CONV_KERNEL ex_cfg = 1 \<or> FINAL_CONV_KERNEL ex_cfg = 3)
     \<and> getitem (transition2 m) 0 = Inr None
     \<and> (4 :: nat) < 16 \<and> (4 :: nat) < 16
     \<and> forward (shape_ops\<lparr>skeleton := skeleton_shape True\<rparr>) m [2, 3, 16, 16]
         = Inr ([2, 17, 4, 4], [2, 40])"
    using m k t2 f16 unfolding ops by simp
  have d: "(4 :: nat) dvd 16 \<and> (4 :: nat) dvd 16" by simp
  from t16 [THEN mp, OF p16, THEN conjunct2, THEN mp, OF d]
  have 1: "[2, 17, 4, 4] = [2, NUM_JOINTS ex_cfg, 16 div 4, 16 div 4]" .
  note t13 = forward_heatmap_shape_amended [of shape_ops ex_cfg m 13 13 "skeleton_shape True" 2
      "[2, 17, 4, 4]" "[2, 40]"]
  have p13: "TransActionH_init shape_ops ex_cfg = Inr m
     \<and> (FINAL_CONV_KERNEL ex_cfg = 1 \<or> FINAL_CONV_KERNEL ex_cfg = 3)
     \<and> getitem (transition2 m) 0 = Inr None
     \<and> (4 :: nat) < 13 \<and> (4 :: nat) < 13
     \<and> forward (shape_ops\<lparr>skeleton := skeleton_shape True\<rparr>) m [2, 3, 13, 13]
         = Inr ([2, 17, 4, 4], [2, 40])"
    using m k t2 f13 unfolding ops by simp
  from t13 [THEN mp, OF p13, THEN conjunct1]
  have 2: "[2, 17, 4, 4] = [2, NUM_JOINTS ex_cfg, (13 + 3) div 4, (13 + 3) div 4]" .
  have lt: "(4 :: nat) < 16 \<and> (4 :: nat) dvd 16" by simp
  from m k t2 lt f16 f13 1 2 show ?thesis
    by (intro exI [of _ m] conjI) (elim conjE, assumption)+
qed

end
